theory Spec2Isabelle
  imports Complex_Main "HOL-Library.Word" "HOL-Library.Signed_Division"
begin

section \<open>Floating-point numbers (Go's float64)\<close>

text \<open>
  A Go \<open>float64\<close> is an IEEE 754 binary64 number: \<open>Finite x\<close> for the real \<open>x\<close> it
  denotes (\<open>Finite 0\<close> is the positive zero), the negative zero, the two infinities, or a
  NaN (the payload of a NaN is not observable in this program). After every operation
  the exact result is rounded to the nearest binary64 number, ties to the even
  significand: \<open>exponent64 a\<close> is the binary exponent of \<open>a\<close>, not below that of the
  subnormal numbers, \<open>2 ^ (exponent64 a - 52)\<close> the spacing of the binary64 numbers at
  \<open>a\<close>; a rounded magnitude of \<open>2 ^ 1024\<close> or more is an infinity.
\<close>

datatype float64 = Finite real | NegZero | PosInf | NegInf | NaN

definition roundHalfEven :: "real \<Rightarrow> int" where
  "roundHalfEven r =
     (let f = \<lfloor>r\<rfloor> in
      if r - of_int f < 1 / 2 then f
      else if 1 / 2 < r - of_int f then f + 1
      else if even f then f else f + 1)"

definition exponent64 :: "real \<Rightarrow> int" where
  "exponent64 a = int (length (filter (\<lambda>k. power_int 2 k \<le> a) [-1021..1023])) - 1022"

definition round64 :: "real \<Rightarrow> float64" where
  "round64 x =
     (if x = 0 then Finite 0
      else
        let q = power_int 2 (exponent64 \<bar>x\<bar> - 52);
            n = roundHalfEven (\<bar>x\<bar> / q);
            y = of_int n * q
        in if power_int 2 1024 \<le> y then (if x < 0 then NegInf else PosInf)
           else if n = 0 then (if x < 0 then NegZero else Finite 0)
           else Finite (if x < 0 then - y else y))"

definition isFinite64 :: "float64 \<Rightarrow> bool" where
  "isFinite64 a = (case a of Finite x \<Rightarrow> True | NegZero \<Rightarrow> True | _ \<Rightarrow> False)"

definition fval :: "float64 \<Rightarrow> real" where
  "fval a = (case a of Finite x \<Rightarrow> x | _ \<Rightarrow> 0)"

definition fsign :: "float64 \<Rightarrow> bool" where
  "fsign a = (case a of Finite x \<Rightarrow> x < 0 | NegZero \<Rightarrow> True | NegInf \<Rightarrow> True | _ \<Rightarrow> False)"

definition fzero :: "bool \<Rightarrow> float64" where
  "fzero negative = (if negative then NegZero else Finite 0)"

definition finf :: "bool \<Rightarrow> float64" where
  "finf negative = (if negative then NegInf else PosInf)"

text \<open>
  The operations of Go on \<open>float64\<close>: unary \<open>-\<close>, \<open>+\<close>, \<open>-\<close>, \<open>*\<close>, \<open>/\<close>,
  \<open><\<close>, \<open>==\<close> (the other comparisons are written with these two) and the conversion
  \<open>float64(i)\<close> of an \<open>int64\<close>.
\<close>

definition fneg :: "float64 \<Rightarrow> float64" where
  "fneg a =
     (case a of
        Finite x \<Rightarrow> if x = 0 then NegZero else Finite (- x)
      | NegZero \<Rightarrow> Finite 0
      | PosInf \<Rightarrow> NegInf
      | NegInf \<Rightarrow> PosInf
      | NaN \<Rightarrow> NaN)"

definition fadd :: "float64 \<Rightarrow> float64 \<Rightarrow> float64" where
  "fadd a b =
     (if a = NaN \<or> b = NaN then NaN
      else if a = PosInf then (if b = NegInf then NaN else PosInf)
      else if a = NegInf then (if b = PosInf then NaN else NegInf)
      else if b = PosInf \<or> b = NegInf then b
      else if fval a + fval b = 0 then fzero (fsign a \<and> fsign b)
      else round64 (fval a + fval b))"

definition fsub :: "float64 \<Rightarrow> float64 \<Rightarrow> float64" where
  "fsub a b = fadd a (fneg b)"

definition fmul :: "float64 \<Rightarrow> float64 \<Rightarrow> float64" where
  "fmul a b =
     (if a = NaN \<or> b = NaN then NaN
      else if \<not> isFinite64 a \<or> \<not> isFinite64 b then
        (if (isFinite64 a \<and> fval a = 0) \<or> (isFinite64 b \<and> fval b = 0) then NaN
         else finf (fsign a \<noteq> fsign b))
      else if fval a * fval b = 0 then fzero (fsign a \<noteq> fsign b)
      else round64 (fval a * fval b))"

definition fdiv :: "float64 \<Rightarrow> float64 \<Rightarrow> float64" where
  "fdiv a b =
     (if a = NaN \<or> b = NaN then NaN
      else if \<not> isFinite64 a then (if \<not> isFinite64 b then NaN else finf (fsign a \<noteq> fsign b))
      else if \<not> isFinite64 b then fzero (fsign a \<noteq> fsign b)
      else if fval b = 0 then (if fval a = 0 then NaN else finf (fsign a \<noteq> fsign b))
      else if fval a = 0 then fzero (fsign a \<noteq> fsign b)
      else round64 (fval a / fval b))"

definition flt :: "float64 \<Rightarrow> float64 \<Rightarrow> bool" where
  "flt a b =
     (a \<noteq> NaN \<and> b \<noteq> NaN \<and>
      (if a = PosInf \<or> b = NegInf then False
       else if a = NegInf \<or> b = PosInf then True
       else fval a < fval b))"

definition feq :: "float64 \<Rightarrow> float64 \<Rightarrow> bool" where
  "feq a b =
     (a \<noteq> NaN \<and> b \<noteq> NaN \<and>
      (if isFinite64 a \<and> isFinite64 b then fval a = fval b else a = b))"

definition fle :: "float64 \<Rightarrow> float64 \<Rightarrow> bool" where
  "fle a b = (flt a b \<or> feq a b)"

section \<open>The abstract syntax tree (package ast)\<close>

text \<open>
  The evaluator never reads the token of a node, the access modifier of a class member
  or the declared type of a parameter or of a function result; these fields are left out.
  A Go \<open>int64\<close> is a 64-bit word read as two's complement, a \<open>rune\<close> is a 32-bit
  word, a string is its list of bytes.
\<close>

type_synonym int64 = "64 word"

type_synonym rune = "32 word"
type_synonym addr = nat

datatype dataType =
    PrimitiveType string
  | ArrayType "(int \<times> int) list" dataType
  | RecordType "(string \<times> dataType) list"
  | EnumType "string list"
  | PointerType dataType
  | CustomType string

datatype expr =
    Identifier string
  | IntegerLiteral int64
  | RealLiteral float64
  | StringLiteral string
  | CharLiteral string
  | BooleanLiteral bool
  | PrefixExpression string expr
  | InfixExpression expr string expr
  | ArrayAccess expr "expr list"
  | MemberAccess expr string
  | CallExpression expr "expr list"
  | NewExpression string "expr list"
  | SuperExpression
  | RangeExpression expr expr

datatype parameter = Parameter (Name: string) (ByRef: bool)

datatype stmt =
    DeclareStatement string dataType
  | ConstantStatement string expr
  | AssignmentStatement expr expr
  | IfStatement expr "stmt list" "stmt list option"
  | CaseStatement expr "(expr list \<times> stmt list) list" "stmt list option"
  | ForStatement string expr expr "expr option" "stmt list"
  | WhileStatement expr "stmt list"
  | RepeatStatement "stmt list" expr
  | ProcedureStatement string "parameter list" "stmt list"
  | FunctionStatement string "parameter list" "stmt list"
  | CallStatement expr "expr list"
  | ReturnStatement "expr option"
  | InputStatement expr
  | OutputStatement "expr list"
  | OpenFileStatement expr string
  | CloseFileStatement expr
  | ReadFileStatement expr expr
  | WriteFileStatement expr expr
  | TypeStatement string dataType
  | ClassStatement string string "stmt list"
  | ExpressionStatement expr

section \<open>Runtime values (object.go)\<close>

text \<open>
  \<open>Object\<close> is a Go interface: a value is either \<open>nil\<close> (\<open>NilObj\<close>) or a pointer to
  one of the structs below. Integers, reals, strings, chars, booleans, errors, functions
  and bound methods are never mutated after creation and are modelled by value. Arrays,
  records, classes, instances and environments are shared and (all but classes) mutated
  through their pointers: they live in a store and the value holds the address.
  Type \<open>Date\<close> is used by the evaluator but declared outside the sources at hand; only
  its three fields are known.
\<close>

datatype obj =
    NilObj
  | IntegerObj int64
  | RealObj float64
  | StringObj string
  | CharObj rune
  | BooleanObj bool
  | NullObj
  | ReturnValueObj obj
  | ErrorObj string
  | FunctionObj string "parameter list" "stmt list" addr
  | ProcedureObj string "parameter list" "stmt list" addr
  | BuiltinObj string
  | ArrayObj addr
  | RecordObj addr
  | ClassObj addr
  | InstanceObj addr
  | BoundMethodObj addr obj
  | SuperObj addr "addr option"
  | DateObj int int int

record array =
  Elements :: "string \<rightharpoonup> obj"
  Dimensions :: "(int \<times> int) list"

record recordv =
  TypeName :: string
  rec_Fields :: "string \<rightharpoonup> obj"

record classv =
  class_Name :: string
  Parent :: "addr option"
  Methods :: "string \<rightharpoonup> obj"
  class_Fields :: "string \<rightharpoonup> dataType"

record instancev =
  Class :: addr
  Fields :: "string \<rightharpoonup> obj"

section \<open>Environments (environment.go) and the interpreter state\<close>

record environment =
  store :: "string \<rightharpoonup> obj"
  constants :: "string \<Rightarrow> bool"
  outer :: "addr option"
  types :: "string \<rightharpoonup> obj"
  inst :: "addr option"

text \<open>
  One element of \<open>reads\<close> is what one \<open>Read\<close> call on the interpreter's input returns:
  some bytes, or an error other than end of file; when the list is used up the reader is
  at end of file.
\<close>

datatype readResult = Data string | ReadErr string

record fileState =
  mode :: string
  pending :: "string list"
  atEOF :: bool

text \<open>
  The interpreter and everything its pointers reach. Each store is a total function with
  an allocation counter: addresses below the counter are in use. \<open>disk\<close> is the file
  system as the file statements see it; \<open>fmt_g\<close> and \<open>fmt_date\<close> stand for the host's
  formatting of a \<open>float64\<close> with \<open>%g\<close> and of a \<open>Date\<close>; \<open>builtins\<close> is the table
  installed by \<open>SetBuiltins\<close>.
\<close>

record interp =
  global_env :: addr
  builtins :: "string \<rightharpoonup> (obj list \<Rightarrow> obj)"
  files :: "string \<rightharpoonup> fileState"
  reads :: "readResult list"
  written :: string
  disk :: "string \<rightharpoonup> string"
  fmt_g :: "float64 \<Rightarrow> string"
  fmt_date :: "int \<Rightarrow> int \<Rightarrow> int \<Rightarrow> string"
  envs :: "addr \<Rightarrow> environment"
  envs_next :: addr
  arrays :: "addr \<Rightarrow> array"
  arrays_next :: addr
  recordvs :: "addr \<Rightarrow> recordv"
  recordvs_next :: addr
  classes :: "addr \<Rightarrow> classv"
  classes_next :: addr
  instances :: "addr \<Rightarrow> instancev"
  instances_next :: addr

definition emptyEnvironment :: environment where
  "emptyEnvironment =
     \<lparr>store = Map.empty, constants = (\<lambda>_. False), outer = None, types = Map.empty, inst = None\<rparr>"

definition NewEnvironment :: "interp \<Rightarrow> addr \<times> interp" where
  "NewEnvironment st =
     (envs_next st,
      st\<lparr>envs := (envs st)(envs_next st := emptyEnvironment), envs_next := Suc (envs_next st)\<rparr>)"

definition NewEnclosedEnvironment :: "addr \<Rightarrow> interp \<Rightarrow> addr \<times> interp" where
  "NewEnclosedEnvironment outerEnv st =
     (envs_next st,
      st\<lparr>envs := (envs st)(envs_next st := emptyEnvironment\<lparr>outer := Some outerEnv\<rparr>),
         envs_next := Suc (envs_next st)\<rparr>)"

text \<open>
  \<open>Get\<close>, \<open>isConstant\<close> and \<open>SetInPlace\<close> follow the \<open>outer\<close> links. The only code
  that sets \<open>outer\<close> is \<open>NewEnclosedEnvironment\<close>, which links a fresh address to
  an existing one, so a link always leads to a smaller address; the test \<open>p < e\<close> below
  holds in every state the interpreter builds and makes the recursion well-founded.
\<close>

function Get :: "interp \<Rightarrow> addr \<Rightarrow> string \<Rightarrow> obj option" where
  "Get st e name =
     (case store (envs st e) name of
        Some v \<Rightarrow> Some v
      | None \<Rightarrow>
          (case (case inst (envs st e) of
                   None \<Rightarrow> None
                 | Some i \<Rightarrow> Fields (instances st i) name) of
             Some v \<Rightarrow> Some v
           | None \<Rightarrow>
               (case outer (envs st e) of
                  None \<Rightarrow> None
                | Some p \<Rightarrow> if p < e then Get st p name else None)))"
  by pat_completeness auto
termination
  by (relation "measure (\<lambda>(st, e, name). e)") auto

declare Get.simps [simp del]

function isConstant :: "interp \<Rightarrow> addr \<Rightarrow> string \<Rightarrow> bool" where
  "isConstant st e name =
     (if constants (envs st e) name then True
      else (case outer (envs st e) of
              None \<Rightarrow> False
            | Some p \<Rightarrow> if p < e then isConstant st p name else False))"
  by pat_completeness auto
termination
  by (relation "measure (\<lambda>(st, e, name). e)") auto

declare isConstant.simps [simp del]

definition setStore :: "addr \<Rightarrow> string \<Rightarrow> obj \<Rightarrow> interp \<Rightarrow> interp" where
  "setStore e name val st =
     st\<lparr>envs := (envs st)(e := (envs st e)\<lparr>store := (store (envs st e))(name \<mapsto> val)\<rparr>)\<rparr>"

definition setField :: "addr \<Rightarrow> string \<Rightarrow> obj \<Rightarrow> interp \<Rightarrow> interp" where
  "setField i name val st =
     st\<lparr>instances := (instances st)(i := (instances st i)\<lparr>Fields := (Fields (instances st i))(name \<mapsto> val)\<rparr>)\<rparr>"

definition Set :: "addr \<Rightarrow> string \<Rightarrow> obj \<Rightarrow> interp \<Rightarrow> obj \<times> interp" where
  "Set e name val st =
     (if isConstant st e name then (ErrorObj (''cannot modify constant: '' @ name), st)
      else (val, setStore e name val st))"

definition Declare :: "addr \<Rightarrow> string \<Rightarrow> obj \<Rightarrow> interp \<Rightarrow> obj \<times> interp" where
  "Declare e name val st = (val, setStore e name val st)"

definition DeclareConstant :: "addr \<Rightarrow> string \<Rightarrow> obj \<Rightarrow> interp \<Rightarrow> obj \<times> interp" where
  "DeclareConstant e name val st =
     (val, (setStore e name val st)
             \<lparr>envs := (envs (setStore e name val st))
                (e := (envs (setStore e name val st) e)
                   \<lparr>constants := (constants (envs (setStore e name val st) e))(name := True)\<rparr>)\<rparr>)"

definition fieldOwner :: "interp \<Rightarrow> addr \<Rightarrow> string \<Rightarrow> addr option" where
  "fieldOwner st e name =
     (case inst (envs st e) of
        None \<Rightarrow> None
      | Some i \<Rightarrow> if Fields (instances st i) name \<noteq> None then Some i else None)"

function SetInPlace :: "addr \<Rightarrow> string \<Rightarrow> obj \<Rightarrow> interp \<Rightarrow> obj \<times> interp" where
  "SetInPlace e name val st =
     (if store (envs st e) name \<noteq> None then
        (if constants (envs st e) name
         then (ErrorObj (''cannot modify constant: '' @ name), st)
         else (val, setStore e name val st))
      else
        (case fieldOwner st e name of
           Some i \<Rightarrow> (val, setField i name val st)
         | None \<Rightarrow>
             (case outer (envs st e) of
                Some p \<Rightarrow>
                  if p < e then SetInPlace p name val st else (val, setStore e name val st)
              | None \<Rightarrow> (val, setStore e name val st))))"
  by pat_completeness auto
termination
  by (relation "measure (\<lambda>(e, name, val, st). e)") auto

declare SetInPlace.simps [simp del]

definition DefineType :: "addr \<Rightarrow> string \<Rightarrow> obj \<Rightarrow> interp \<Rightarrow> interp" where
  "DefineType e name typ st =
     st\<lparr>envs := (envs st)(e := (envs st e)\<lparr>types := (types (envs st e))(name \<mapsto> typ)\<rparr>)\<rparr>"

function GetType :: "interp \<Rightarrow> addr \<Rightarrow> string \<Rightarrow> obj option" where
  "GetType st e name =
     (case types (envs st e) name of
        Some t \<Rightarrow> Some t
      | None \<Rightarrow>
          (case outer (envs st e) of
             None \<Rightarrow> None
           | Some p \<Rightarrow> if p < e then GetType st p name else None))"
  by pat_completeness auto
termination
  by (relation "measure (\<lambda>(st, e, name). e)") auto

declare GetType.simps [simp del]

section \<open>Values: types, formatting, tests (object.go, interpreter.go)\<close>

text \<open>
  Calling a method on a \<open>nil\<close> interface value panics in Go. \<open>Type\<close> and \<open>Inspect\<close>
  return \<open>None\<close> there, and every caller below turns \<open>None\<close> into a panic.
\<close>

fun Type :: "obj \<Rightarrow> string option" where
  "Type NilObj = None"
| "Type (IntegerObj _) = Some ''INTEGER''"
| "Type (RealObj _) = Some ''REAL''"
| "Type (StringObj _) = Some ''STRING''"
| "Type (CharObj _) = Some ''CHAR''"
| "Type (BooleanObj _) = Some ''BOOLEAN''"
| "Type NullObj = Some ''NULL''"
| "Type (ReturnValueObj _) = Some ''RETURN_VALUE''"
| "Type (ErrorObj _) = Some ''ERROR''"
| "Type (FunctionObj _ _ _ _) = Some ''FUNCTION''"
| "Type (ProcedureObj _ _ _ _) = Some ''PROCEDURE''"
| "Type (BuiltinObj _) = Some ''BUILTIN''"
| "Type (ArrayObj _) = Some ''ARRAY''"
| "Type (RecordObj _) = Some ''RECORD''"
| "Type (ClassObj _) = Some ''CLASS''"
| "Type (InstanceObj _) = Some ''INSTANCE''"
| "Type (BoundMethodObj _ _) = Some ''BOUND_METHOD''"
| "Type (SuperObj _ _) = Some ''SUPER''"
| "Type (DateObj _ _ _) = Some ''DATE''"

text \<open>\<open>fmt.Sprintf("%d", n)\<close>: the decimal digits, with a minus sign for a negative number.\<close>

fun digits :: "nat \<Rightarrow> string" where
  "digits n =
     (if n < 10 then [char_of (48 + n)] else digits (n div 10) @ [char_of (48 + n mod 10)])"

declare digits.simps [simp del]

definition fmt_d :: "int \<Rightarrow> string" where
  "fmt_d k = (if k < 0 then CHR ''-'' # digits (nat (- k)) else digits (nat k))"

text \<open>\<open>string(r)\<close> for a rune: its UTF-8 encoding, U+FFFD for an invalid code point.\<close>

definition runeString :: "rune \<Rightarrow> string" where
  "runeString r =
     (let c = sint r in
      if c < 0 \<or> 1114111 < c \<or> (55296 \<le> c \<and> c \<le> 57343)
        then [char_of (239::nat), char_of (191::nat), char_of (189::nat)]
      else if c < 128 then [char_of (nat c)]
      else if c < 2048 then [char_of (nat (192 + c div 64)), char_of (nat (128 + c mod 64))]
      else if c < 65536
        then [char_of (nat (224 + c div 4096)), char_of (nat (128 + (c div 64) mod 64)),
              char_of (nat (128 + c mod 64))]
      else [char_of (nat (240 + c div 262144)), char_of (nat (128 + (c div 4096) mod 64)),
            char_of (nat (128 + (c div 64) mod 64)), char_of (nat (128 + c mod 64))])"

definition paramNames :: "parameter list \<Rightarrow> string" where
  "paramNames ps = concat (case map Name ps of [] \<Rightarrow> [] | p # rest \<Rightarrow> p # map (\<lambda>q. '', '' @ q) rest)"

fun Inspect :: "interp \<Rightarrow> obj \<Rightarrow> string option" where
  "Inspect st NilObj = None"
| "Inspect st (IntegerObj v) = Some (fmt_d (sint v))"
| "Inspect st (RealObj v) = Some (fmt_g st v)"
| "Inspect st (StringObj v) = Some v"
| "Inspect st (CharObj v) = Some (runeString v)"
| "Inspect st (BooleanObj v) = Some (if v then ''TRUE'' else ''FALSE'')"
| "Inspect st NullObj = Some ''NULL''"
| "Inspect st (ReturnValueObj v) = Inspect st v"
| "Inspect st (ErrorObj m) = Some (''ERROR: '' @ m)"
| "Inspect st (FunctionObj name ps body e) = Some (''FUNCTION '' @ name @ ''('' @ paramNames ps @ '')'')"
| "Inspect st (ProcedureObj name ps body e) = Some (''PROCEDURE '' @ name @ ''('' @ paramNames ps @ '')'')"
| "Inspect st (BuiltinObj name) = Some (''builtin function: '' @ name)"
| "Inspect st (ArrayObj a) =
     Some (''ARRAY['' @ fmt_d (int (card (dom (Elements (arrays st a))))) @ '' elements]'')"
| "Inspect st (RecordObj r) = Some (''RECORD '' @ TypeName (recordvs st r))"
| "Inspect st (ClassObj c) = Some (''CLASS '' @ class_Name (classes st c))"
| "Inspect st (InstanceObj i) =
     Some (''<'' @ class_Name (classes st (Class (instances st i))) @ '' instance>'')"
| "Inspect st (BoundMethodObj i m) =
     Some (''<bound method of '' @ class_Name (classes st (Class (instances st i))) @ ''>'')"
| "Inspect st (SuperObj i c) = Some ''SUPER''"
| "Inspect st (DateObj d m y) = Some (fmt_date st d m y)"

definition isError :: "obj \<Rightarrow> bool" where
  "isError v = (case v of ErrorObj _ \<Rightarrow> True | _ \<Rightarrow> False)"

definition isReturnValue :: "obj \<Rightarrow> bool" where
  "isReturnValue v = (case v of ReturnValueObj _ \<Rightarrow> True | _ \<Rightarrow> False)"

definition isTruthy :: "obj \<Rightarrow> bool" where
  "isTruthy v = (case v of NullObj \<Rightarrow> False | BooleanObj b \<Rightarrow> b | _ \<Rightarrow> True)"

definition unwrapReturnValue :: "obj \<Rightarrow> obj" where
  "unwrapReturnValue v = (case v of ReturnValueObj w \<Rightarrow> w | _ \<Rightarrow> v)"

definition objectsEqual :: "obj \<Rightarrow> obj \<Rightarrow> bool" where
  "objectsEqual a b =
     (case a of
        IntegerObj x \<Rightarrow> (case b of IntegerObj y \<Rightarrow> x = y | _ \<Rightarrow> False)
      | RealObj x \<Rightarrow> (case b of RealObj y \<Rightarrow> feq x y | _ \<Rightarrow> False)
      | StringObj x \<Rightarrow> (case b of StringObj y \<Rightarrow> x = y | _ \<Rightarrow> False)
      | CharObj x \<Rightarrow> (case b of CharObj y \<Rightarrow> x = y | _ \<Rightarrow> False)
      | BooleanObj x \<Rightarrow> (case b of BooleanObj y \<Rightarrow> x = y | _ \<Rightarrow> False)
      | _ \<Rightarrow> False)"

definition valueInRange :: "obj \<Rightarrow> obj \<Rightarrow> obj \<Rightarrow> bool" where
  "valueInRange v s e =
     (case v of
        IntegerObj x \<Rightarrow>
          (case (s, e) of (IntegerObj lo, IntegerObj hi) \<Rightarrow> lo \<le>s x \<and> x \<le>s hi | _ \<Rightarrow> False)
      | CharObj x \<Rightarrow>
          (case (s, e) of (CharObj lo, CharObj hi) \<Rightarrow> lo \<le>s x \<and> x \<le>s hi | _ \<Rightarrow> False)
      | _ \<Rightarrow> False)"

text \<open>Go compares strings byte by byte.\<close>

fun strLess :: "string \<Rightarrow> string \<Rightarrow> bool" where
  "strLess [] [] = False"
| "strLess [] (y # ys) = True"
| "strLess (x # xs) [] = False"
| "strLess (x # xs) (y # ys) =
     ((of_char x :: nat) < of_char y \<or> (x = y \<and> strLess xs ys))"

definition GetIndex :: "int64 list \<Rightarrow> string" where
  "GetIndex indices =
     concat (case map (\<lambda>i. fmt_d (sint i)) indices of
               [] \<Rightarrow> [] | p # rest \<Rightarrow> p # map (\<lambda>q. '','' @ q) rest)"

section \<open>Operators (interpreter.go)\<close>

text \<open>
  The evaluator's results: a Go panic (here always a method call on \<open>nil\<close>) ends the
  whole run, as does running out of the recursion budget explained below.
\<close>

datatype 'a run = OutOfFuel | Panic | Done 'a

definition andThen :: "'a run \<Rightarrow> ('a \<Rightarrow> 'b run) \<Rightarrow> 'b run" where
  "andThen m f = (case m of OutOfFuel \<Rightarrow> OutOfFuel | Panic \<Rightarrow> Panic | Done x \<Rightarrow> f x)"

definition errorf3 :: "string \<Rightarrow> obj \<Rightarrow> string \<Rightarrow> obj \<Rightarrow> obj run" where
  "errorf3 prefix left op right =
     (case (Type left, Type right) of
        (Some lt, Some rt) \<Rightarrow> Done (ErrorObj (prefix @ lt @ '' '' @ op @ '' '' @ rt))
      | _ \<Rightarrow> Panic)"

text \<open>Go's \<open>/\<close> and \<open>%\<close> on \<open>int64\<close> truncate towards zero and wrap on overflow.\<close>

definition int64_quo :: "int64 \<Rightarrow> int64 \<Rightarrow> int64" where
  "int64_quo a b = word_of_int (sint a sdiv sint b)"

definition int64_rem :: "int64 \<Rightarrow> int64 \<Rightarrow> int64" where
  "int64_rem a b = word_of_int (sint a smod sint b)"

text \<open>\<open>float64(i)\<close> rounds the integer to the nearest \<open>float64\<close>.\<close>

definition float64_of_int64 :: "int64 \<Rightarrow> float64" where
  "float64_of_int64 a = round64 (real_of_int (sint a))"

definition evalIntegerInfixExpression :: "string \<Rightarrow> obj \<Rightarrow> obj \<Rightarrow> obj run" where
  "evalIntegerInfixExpression op left right =
     (case (left, right) of
        (IntegerObj leftVal, IntegerObj rightVal) \<Rightarrow>
          if op = ''+'' then Done (IntegerObj (leftVal + rightVal))
          else if op = ''-'' then Done (IntegerObj (leftVal - rightVal))
          else if op = ''*'' then Done (IntegerObj (leftVal * rightVal))
          else if op = ''/'' then
            (if rightVal = 0 then Done (ErrorObj ''division by zero'')
             else Done (RealObj (fdiv (float64_of_int64 leftVal) (float64_of_int64 rightVal))))
          else if op = ''DIV'' then
            (if rightVal = 0 then Done (ErrorObj ''division by zero'')
             else Done (IntegerObj (int64_quo leftVal rightVal)))
          else if op = ''MOD'' then
            (if rightVal = 0 then Done (ErrorObj ''division by zero'')
             else Done (IntegerObj (int64_rem leftVal rightVal)))
          else if op = ''<'' then Done (BooleanObj (leftVal <s rightVal))
          else if op = ''>'' then Done (BooleanObj (rightVal <s leftVal))
          else if op = ''<='' then Done (BooleanObj (leftVal \<le>s rightVal))
          else if op = ''>='' then Done (BooleanObj (rightVal \<le>s leftVal))
          else if op = ''='' then Done (BooleanObj (leftVal = rightVal))
          else if op = ''<>'' then Done (BooleanObj (leftVal \<noteq> rightVal))
          else errorf3 ''unknown operator: '' left op right
      | _ \<Rightarrow> Panic)"

text \<open>
  The two type switches of \<open>evalRealInfixExpression\<close> have no default case: an operand
  that is neither a Real nor an Integer (\<open>nil\<close> included) leaves the value at 0. The
  test \<open>rightVal == 0\<close> holds for both zeros.
\<close>

definition toFloat :: "obj \<Rightarrow> float64" where
  "toFloat v = (case v of RealObj r \<Rightarrow> r | IntegerObj i \<Rightarrow> float64_of_int64 i | _ \<Rightarrow> Finite 0)"

definition evalRealInfixExpression :: "string \<Rightarrow> obj \<Rightarrow> obj \<Rightarrow> obj run" where
  "evalRealInfixExpression op left right =
     (let leftVal = toFloat left; rightVal = toFloat right in
      if op = ''+'' then Done (RealObj (fadd leftVal rightVal))
      else if op = ''-'' then Done (RealObj (fsub leftVal rightVal))
      else if op = ''*'' then Done (RealObj (fmul leftVal rightVal))
      else if op = ''/'' then
        (if feq rightVal (Finite 0) then Done (ErrorObj ''division by zero'')
         else Done (RealObj (fdiv leftVal rightVal)))
      else if op = ''<'' then Done (BooleanObj (flt leftVal rightVal))
      else if op = ''>'' then Done (BooleanObj (flt rightVal leftVal))
      else if op = ''<='' then Done (BooleanObj (fle leftVal rightVal))
      else if op = ''>='' then Done (BooleanObj (fle rightVal leftVal))
      else if op = ''='' then Done (BooleanObj (feq leftVal rightVal))
      else if op = ''<>'' then Done (BooleanObj (\<not> feq leftVal rightVal))
      else errorf3 ''unknown operator: '' left op right)"

definition evalStringInfixExpression :: "string \<Rightarrow> obj \<Rightarrow> obj \<Rightarrow> obj run" where
  "evalStringInfixExpression op left right =
     (case (left, right) of
        (StringObj leftVal, StringObj rightVal) \<Rightarrow>
          if op = ''&'' then Done (StringObj (leftVal @ rightVal))
          else if op = ''='' then Done (BooleanObj (leftVal = rightVal))
          else if op = ''<>'' then Done (BooleanObj (leftVal \<noteq> rightVal))
          else if op = ''<'' then Done (BooleanObj (strLess leftVal rightVal))
          else if op = ''>'' then Done (BooleanObj (strLess rightVal leftVal))
          else if op = ''<='' then Done (BooleanObj (\<not> strLess rightVal leftVal))
          else if op = ''>='' then Done (BooleanObj (\<not> strLess leftVal rightVal))
          else errorf3 ''unknown operator: '' left op right
      | _ \<Rightarrow> Panic)"

definition evalBooleanInfixExpression :: "string \<Rightarrow> obj \<Rightarrow> obj \<Rightarrow> obj run" where
  "evalBooleanInfixExpression op left right =
     (case (left, right) of
        (BooleanObj leftVal, BooleanObj rightVal) \<Rightarrow>
          if op = ''AND'' then Done (BooleanObj (leftVal \<and> rightVal))
          else if op = ''OR'' then Done (BooleanObj (leftVal \<or> rightVal))
          else if op = ''='' then Done (BooleanObj (leftVal = rightVal))
          else if op = ''<>'' then Done (BooleanObj (leftVal \<noteq> rightVal))
          else errorf3 ''unknown operator: '' left op right
      | _ \<Rightarrow> Panic)"

definition objectToString :: "interp \<Rightarrow> obj \<Rightarrow> string option" where
  "objectToString st v =
     (case v of
        StringObj s \<Rightarrow> Some s
      | CharObj c \<Rightarrow> Some (runeString c)
      | IntegerObj i \<Rightarrow> Some (fmt_d (sint i))
      | RealObj r \<Rightarrow> Some (fmt_g st r)
      | BooleanObj b \<Rightarrow> Some (if b then ''TRUE'' else ''FALSE'')
      | _ \<Rightarrow> Inspect st v)"

definition evalConcatenation :: "interp \<Rightarrow> obj \<Rightarrow> obj \<Rightarrow> obj run" where
  "evalConcatenation st left right =
     (case objectToString st left of
        None \<Rightarrow> Panic
      | Some leftStr \<Rightarrow>
          (case objectToString st right of
             None \<Rightarrow> Panic
           | Some rightStr \<Rightarrow> Done (StringObj (leftStr @ rightStr))))"

text \<open>
  The dispatch of \<open>evalInfixExpression\<close> on the two evaluated operands. The switch calls
  \<open>left.Type()\<close> first, and \<open>right.Type()\<close> in its first or second case unless the left
  operand is a Real: so a \<open>nil\<close> left operand panics, and a \<open>nil\<close> right operand panics
  unless the left one is a Real.
\<close>

definition infixDispatch :: "interp \<Rightarrow> string \<Rightarrow> obj \<Rightarrow> obj \<Rightarrow> obj run" where
  "infixDispatch st op left right =
     (case Type left of
        None \<Rightarrow> Panic
      | Some lt \<Rightarrow>
          if lt = ''REAL'' then evalRealInfixExpression op left right
          else
            (case Type right of
               None \<Rightarrow> Panic
             | Some rt \<Rightarrow>
                 if lt = ''INTEGER'' \<and> rt = ''INTEGER'' then evalIntegerInfixExpression op left right
                 else if rt = ''REAL'' then evalRealInfixExpression op left right
                 else if lt = ''STRING'' \<and> rt = ''STRING'' then evalStringInfixExpression op left right
                 else if lt = ''BOOLEAN'' \<and> rt = ''BOOLEAN'' then evalBooleanInfixExpression op left right
                 else if op = ''&'' then evalConcatenation st left right
                 else if op = ''='' then Done (BooleanObj (objectsEqual left right))
                 else if op = ''<>'' then Done (BooleanObj (\<not> objectsEqual left right))
                 else Done (ErrorObj (''type mismatch: '' @ lt @ '' '' @ op @ '' '' @ rt))))"

definition evalMinusPrefixOperator :: "obj \<Rightarrow> obj run" where
  "evalMinusPrefixOperator right =
     (case right of
        IntegerObj v \<Rightarrow> Done (IntegerObj (- v))
      | RealObj v \<Rightarrow> Done (RealObj (fneg v))
      | _ \<Rightarrow> (case Type right of
                None \<Rightarrow> Panic
              | Some t \<Rightarrow> Done (ErrorObj (''unknown operator: -'' @ t))))"

definition evalNotOperator :: "obj \<Rightarrow> obj run" where
  "evalNotOperator right =
     (case right of
        BooleanObj v \<Rightarrow> Done (BooleanObj (\<not> v))
      | _ \<Rightarrow> (case Type right of
                None \<Rightarrow> Panic
              | Some t \<Rightarrow> Done (ErrorObj (''unknown operator: NOT '' @ t))))"


section \<open>Classes and method environments (interpreter.go)\<close>

text \<open>
  The loops \<open>for c := class; c != nil; c = c.Parent\<close> run over the class and its
  ancestors. A class is created with a parent that already exists, so a parent link leads
  to a smaller address, and \<open>p < c\<close> below holds in every state the interpreter builds.
\<close>

function ancestors :: "interp \<Rightarrow> addr \<Rightarrow> addr list" where
  "ancestors st c =
     (case Parent (classes st c) of
        None \<Rightarrow> []
      | Some p \<Rightarrow> if p < c then p # ancestors st p else [])"
  by pat_completeness auto
termination
  by (relation "measure (\<lambda>(st, c). c)") auto

declare ancestors.simps [simp del]

fun lookupIn :: "interp \<Rightarrow> addr list \<Rightarrow> string \<Rightarrow> obj option" where
  "lookupIn st [] name = None"
| "lookupIn st (c # cs) name =
     (case Methods (classes st c) name of
        Some method \<Rightarrow> Some method
      | None \<Rightarrow> lookupIn st cs name)"

definition lookupMethod :: "interp \<Rightarrow> addr \<Rightarrow> string \<Rightarrow> obj option" where
  "lookupMethod st c name = lookupIn st (c # ancestors st c) name"

text \<open>
  \<open>for name := range class.Fields { instance.Fields[name] = Null }\<close>: every key of the
  class's field map is set, in an order that does not matter.
\<close>

definition nullFields :: "addr \<Rightarrow> addr \<Rightarrow> interp \<Rightarrow> interp" where
  "nullFields i c st =
     st\<lparr>instances := (instances st)
          (i := (instances st i)
             \<lparr>Fields := (\<lambda>name. if class_Fields (classes st c) name \<noteq> None then Some NullObj
                                else Fields (instances st i) name)\<rparr>)\<rparr>"

text \<open>The recursion of \<open>initializeInstanceFields\<close> reaches the root first: ancestors, oldest first, then the class.\<close>

definition initializeInstanceFields :: "addr \<Rightarrow> addr \<Rightarrow> interp \<Rightarrow> interp" where
  "initializeInstanceFields i c st = fold (nullFields i) (rev (c # ancestors st c)) st"

text \<open>
  \<open>for name, method := range instance.Class.Methods { env.Declare(name, ...) }\<close> binds
  every own method; the loop over the parents binds a method only when the name is not
  yet in the store of the method environment.
\<close>

definition bindOwnMethods :: "addr \<Rightarrow> addr \<Rightarrow> addr \<Rightarrow> interp \<Rightarrow> interp" where
  "bindOwnMethods e i c st =
     st\<lparr>envs := (envs st)
          (e := (envs st e)
             \<lparr>store := (\<lambda>name. case Methods (classes st c) name of
                                  Some method \<Rightarrow> Some (BoundMethodObj i method)
                                | None \<Rightarrow> store (envs st e) name)\<rparr>)\<rparr>"

definition bindInheritedMethods :: "addr \<Rightarrow> addr \<Rightarrow> addr \<Rightarrow> interp \<Rightarrow> interp" where
  "bindInheritedMethods e i parent st =
     st\<lparr>envs := (envs st)
          (e := (envs st e)
             \<lparr>store := (\<lambda>name. case store (envs st e) name of
                                  Some v \<Rightarrow> Some v
                                | None \<Rightarrow> (case Methods (classes st parent) name of
                                             Some method \<Rightarrow> Some (BoundMethodObj i method)
                                           | None \<Rightarrow> None))\<rparr>)\<rparr>"

definition createMethodEnv :: "addr \<Rightarrow> addr \<Rightarrow> interp \<Rightarrow> addr \<times> interp" where
  "createMethodEnv instance callerEnv st =
     (let (env, st1) = NewEnclosedEnvironment callerEnv st;
          st2 = st1\<lparr>envs := (envs st1)(env := (envs st1 env)\<lparr>inst := Some instance\<rparr>)\<rparr>;
          st3 = snd (Declare env ''this'' (InstanceObj instance) st2);
          c = Class (instances st3 instance);
          st4 = (case Parent (classes st3 c) of
                   Some p \<Rightarrow> snd (Declare env ''SUPER'' (SuperObj instance (Some p)) st3)
                 | None \<Rightarrow> st3);
          st5 = bindOwnMethods env instance c st4;
          st6 = fold (bindInheritedMethods env instance) (ancestors st5 c) st5
      in (env, st6))"

fun declareParams :: "addr \<Rightarrow> parameter list \<Rightarrow> obj list \<Rightarrow> interp \<Rightarrow> interp" where
  "declareParams env (param # params) (arg # args) st =
     declareParams env params args (snd (Declare env (Name param) arg st))"
| "declareParams env params args st = st"

fun extendParams :: "addr \<Rightarrow> parameter list \<Rightarrow> obj list \<Rightarrow> interp \<Rightarrow> interp" where
  "extendParams env (param # params) (arg # args) st =
     extendParams env params args
       (if ByRef param then snd (Declare env (Name param) arg st)
        else snd (Declare env (Name param) arg st))"
| "extendParams env params args st = st"

definition extendFunctionEnv :: "addr \<Rightarrow> obj list \<Rightarrow> parameter list \<Rightarrow> addr \<Rightarrow> interp \<Rightarrow> addr \<times> interp" where
  "extendFunctionEnv fnEnv args params callerEnv st =
     (let (env, st1) = NewEnclosedEnvironment fnEnv st
      in (env, extendParams env params args st1))"

section \<open>The evaluator (interpreter.go)\<close>

text \<open>
  \<open>evalStatement\<close> and \<open>evalExpression\<close> call each other through every other function
  of the evaluator, and a program may loop or recurse forever. Each function below takes
  as first argument the evaluator \<open>ev\<close> it uses for the statements and expressions nested
  in its argument; \<open>evaluator n\<close> at the end ties the knot: it allows \<open>n\<close> levels of
  nesting (of syntax and of calls) and \<open>n\<close> iterations of each loop, and answers
  \<open>OutOfFuel\<close> beyond.
\<close>

record eval_fns =
  stmtEval :: "stmt \<Rightarrow> addr \<Rightarrow> interp \<Rightarrow> (obj \<times> interp) run"
  exprEval :: "expr \<Rightarrow> addr \<Rightarrow> interp \<Rightarrow> (obj \<times> interp) run"
  fuel :: nat

fun evalStatementsFrom :: "eval_fns \<Rightarrow> obj \<Rightarrow> stmt list \<Rightarrow> addr \<Rightarrow> interp \<Rightarrow> (obj \<times> interp) run" where
  "evalStatementsFrom ev result [] env st = Done (result, st)"
| "evalStatementsFrom ev result (s # ss) env st =
     andThen (stmtEval ev s env st) (\<lambda>(r, st1).
       if isReturnValue r \<or> isError r then Done (r, st1)
       else evalStatementsFrom ev r ss env st1)"

definition evalStatements :: "eval_fns \<Rightarrow> stmt list \<Rightarrow> addr \<Rightarrow> interp \<Rightarrow> (obj \<times> interp) run" where
  "evalStatements ev stmts env st = evalStatementsFrom ev NilObj stmts env st"

fun evalExpressionsFrom :: "eval_fns \<Rightarrow> obj list \<Rightarrow> expr list \<Rightarrow> addr \<Rightarrow> interp \<Rightarrow> (obj list \<times> interp) run" where
  "evalExpressionsFrom ev result [] env st = Done (result, st)"
| "evalExpressionsFrom ev result (e # es) env st =
     andThen (exprEval ev e env st) (\<lambda>(evaluated, st1).
       if isError evaluated then Done ([evaluated], st1)
       else evalExpressionsFrom ev (result @ [evaluated]) es env st1)"

definition evalExpressions :: "eval_fns \<Rightarrow> expr list \<Rightarrow> addr \<Rightarrow> interp \<Rightarrow> (obj list \<times> interp) run" where
  "evalExpressions ev exprs env st = evalExpressionsFrom ev [] exprs env st"

definition evalIdentifier :: "interp \<Rightarrow> string \<Rightarrow> addr \<Rightarrow> obj" where
  "evalIdentifier st name env =
     (case Get st env name of
        Some val \<Rightarrow> val
      | None \<Rightarrow>
          (case builtins st name of
             Some b \<Rightarrow> BuiltinObj name
           | None \<Rightarrow> ErrorObj (''identifier not found: '' @ name)))"

definition evalPrefixExpression :: "eval_fns \<Rightarrow> string \<Rightarrow> expr \<Rightarrow> addr \<Rightarrow> interp \<Rightarrow> (obj \<times> interp) run" where
  "evalPrefixExpression ev op rightE env st =
     andThen (exprEval ev rightE env st) (\<lambda>(right, st1).
       if isError right then Done (right, st1)
       else if op = ''-'' then andThen (evalMinusPrefixOperator right) (\<lambda>v. Done (v, st1))
       else if op = ''NOT'' then andThen (evalNotOperator right) (\<lambda>v. Done (v, st1))
       else Done (ErrorObj (''unknown operator: '' @ op), st1))"

definition evalInfixExpression :: "eval_fns \<Rightarrow> expr \<Rightarrow> string \<Rightarrow> expr \<Rightarrow> addr \<Rightarrow> interp \<Rightarrow> (obj \<times> interp) run" where
  "evalInfixExpression ev leftE op rightE env st =
     andThen (exprEval ev leftE env st) (\<lambda>(left, st1).
       if isError left then Done (left, st1)
       else andThen (exprEval ev rightE env st1) (\<lambda>(right, st2).
         if isError right then Done (right, st2)
         else andThen (infixDispatch st2 op left right) (\<lambda>v. Done (v, st2))))"

text \<open>The loop over the index expressions, the same in \<open>evalArrayAssignment\<close> and \<open>evalArrayAccess\<close>:
  \<open>Inl\<close> is the value the enclosing function returns at once.\<close>

fun evalIndices :: "eval_fns \<Rightarrow> int64 list \<Rightarrow> expr list \<Rightarrow> addr \<Rightarrow> interp \<Rightarrow> ((obj + int64 list) \<times> interp) run" where
  "evalIndices ev indices [] env st = Done (Inr indices, st)"
| "evalIndices ev indices (idx # rest) env st =
     andThen (exprEval ev idx env st) (\<lambda>(idxVal, st1).
       if isError idxVal then Done (Inl idxVal, st1)
       else (case idxVal of
               IntegerObj intVal \<Rightarrow> evalIndices ev (indices @ [intVal]) rest env st1
             | _ \<Rightarrow> Done (Inl (ErrorObj ''array index must be an integer''), st1)))"

definition setElement :: "addr \<Rightarrow> string \<Rightarrow> obj \<Rightarrow> interp \<Rightarrow> interp" where
  "setElement a key val st =
     st\<lparr>arrays := (arrays st)(a := (arrays st a)\<lparr>Elements := (Elements (arrays st a))(key \<mapsto> val)\<rparr>)\<rparr>"

definition evalArrayAssignment :: "eval_fns \<Rightarrow> expr \<Rightarrow> expr list \<Rightarrow> obj \<Rightarrow> addr \<Rightarrow> interp \<Rightarrow> (obj \<times> interp) run" where
  "evalArrayAssignment ev arrayE indexEs val env st =
     andThen (exprEval ev arrayE env st) (\<lambda>(arr, st1).
       if isError arr then Done (arr, st1)
       else (case arr of
               ArrayObj a \<Rightarrow>
                 andThen (evalIndices ev [] indexEs env st1) (\<lambda>(r, st2).
                   case r of
                     Inl early \<Rightarrow> Done (early, st2)
                   | Inr indices \<Rightarrow> Done (val, setElement a (GetIndex indices) val st2))
             | _ \<Rightarrow> Done (ErrorObj ''not an array'', st1)))"

definition evalArrayAccess :: "eval_fns \<Rightarrow> expr \<Rightarrow> expr list \<Rightarrow> addr \<Rightarrow> interp \<Rightarrow> (obj \<times> interp) run" where
  "evalArrayAccess ev arrayE indexEs env st =
     andThen (exprEval ev arrayE env st) (\<lambda>(arr, st1).
       if isError arr then Done (arr, st1)
       else (case arr of
               ArrayObj a \<Rightarrow>
                 andThen (evalIndices ev [] indexEs env st1) (\<lambda>(r, st2).
                   case r of
                     Inl early \<Rightarrow> Done (early, st2)
                   | Inr indices \<Rightarrow>
                       (case Elements (arrays st2 a) (GetIndex indices) of
                          Some val \<Rightarrow> Done (val, st2)
                        | None \<Rightarrow> Done (NullObj, st2)))
             | _ \<Rightarrow> Done (ErrorObj ''not an array'', st1)))"

definition evalMemberAssignment :: "eval_fns \<Rightarrow> expr \<Rightarrow> string \<Rightarrow> obj \<Rightarrow> addr \<Rightarrow> interp \<Rightarrow> (obj \<times> interp) run" where
  "evalMemberAssignment ev objectE member val env st =
     andThen (exprEval ev objectE env st) (\<lambda>(ob, st1).
       if isError ob then Done (ob, st1)
       else (case ob of
               RecordObj r \<Rightarrow>
                 Done (val, st1\<lparr>recordvs := (recordvs st1)
                         (r := (recordvs st1 r)\<lparr>rec_Fields := (rec_Fields (recordvs st1 r))(member \<mapsto> val)\<rparr>)\<rparr>)
             | InstanceObj i \<Rightarrow> Done (val, setField i member val st1)
             | _ \<Rightarrow> Done (ErrorObj ''cannot access member of non-record/instance'', st1)))"

definition evalMemberAccess :: "eval_fns \<Rightarrow> expr \<Rightarrow> string \<Rightarrow> addr \<Rightarrow> interp \<Rightarrow> (obj \<times> interp) run" where
  "evalMemberAccess ev objectE member env st =
     andThen (exprEval ev objectE env st) (\<lambda>(ob, st1).
       if isError ob then Done (ob, st1)
       else (case ob of
               RecordObj r \<Rightarrow>
                 (case rec_Fields (recordvs st1 r) member of
                    Some val \<Rightarrow> Done (val, st1)
                  | None \<Rightarrow> Done (ErrorObj (''field not found: '' @ member), st1))
             | InstanceObj i \<Rightarrow>
                 (case Fields (instances st1 i) member of
                    Some val \<Rightarrow> Done (val, st1)
                  | None \<Rightarrow>
                      (case lookupMethod st1 (Class (instances st1 i)) member of
                         Some method \<Rightarrow> Done (BoundMethodObj i method, st1)
                       | None \<Rightarrow> Done (ErrorObj (''member not found: '' @ member), st1)))
             | SuperObj i c \<Rightarrow>
                 (case c of
                    None \<Rightarrow> Done (ErrorObj ''no parent class'', st1)
                  | Some p \<Rightarrow>
                      (case lookupMethod st1 p member of
                         Some method \<Rightarrow> Done (BoundMethodObj i method, st1)
                       | None \<Rightarrow>
                           Done (ErrorObj (''method not found in parent class: '' @ member), st1)))
             | _ \<Rightarrow> Done (ErrorObj ''cannot access member of non-record/instance'', st1)))"

definition applyBoundMethod :: "eval_fns \<Rightarrow> addr \<Rightarrow> obj \<Rightarrow> obj list \<Rightarrow> addr \<Rightarrow> interp \<Rightarrow> (obj \<times> interp) run" where
  "applyBoundMethod ev instance method args callerEnv st =
     (let (methodEnv, st1) = createMethodEnv instance callerEnv st in
      case method of
        FunctionObj name params body fnEnv \<Rightarrow>
          andThen (evalStatements ev body methodEnv (declareParams methodEnv params args st1))
            (\<lambda>(evaluated, st2). Done (unwrapReturnValue evaluated, st2))
      | ProcedureObj name params body fnEnv \<Rightarrow>
          andThen (evalStatements ev body methodEnv (declareParams methodEnv params args st1))
            (\<lambda>(evaluated, st2). Done (unwrapReturnValue evaluated, st2))
      | _ \<Rightarrow> Done (ErrorObj ''invalid method type'', st1))"

definition applyFunction :: "eval_fns \<Rightarrow> obj \<Rightarrow> obj list \<Rightarrow> addr \<Rightarrow> interp \<Rightarrow> (obj \<times> interp) run" where
  "applyFunction ev fn args callerEnv st =
     (case fn of
        FunctionObj name params body fnEnv \<Rightarrow>
          (let (extendedEnv, st1) = extendFunctionEnv fnEnv args params callerEnv st in
           andThen (evalStatements ev body extendedEnv st1)
             (\<lambda>(evaluated, st2). Done (unwrapReturnValue evaluated, st2)))
      | ProcedureObj name params body fnEnv \<Rightarrow>
          (let (extendedEnv, st1) = extendFunctionEnv fnEnv args params callerEnv st in
           andThen (evalStatements ev body extendedEnv st1)
             (\<lambda>(evaluated, st2). Done (unwrapReturnValue evaluated, st2)))
      | BoundMethodObj instance method \<Rightarrow> applyBoundMethod ev instance method args callerEnv st
      | BuiltinObj name \<Rightarrow>
          (case builtins st name of
             Some f \<Rightarrow> Done (f args, st)
           | None \<Rightarrow> Panic)
      | _ \<Rightarrow>
          (case Type fn of
             None \<Rightarrow> Panic
           | Some t \<Rightarrow> Done (ErrorObj (''not a function: '' @ t), st)))"

definition evalCallExpression :: "eval_fns \<Rightarrow> expr \<Rightarrow> expr list \<Rightarrow> addr \<Rightarrow> interp \<Rightarrow> (obj \<times> interp) run" where
  "evalCallExpression ev functionE argumentEs env st =
     andThen (exprEval ev functionE env st) (\<lambda>(fn, st1).
       if isError fn then Done (fn, st1)
       else andThen (evalExpressions ev argumentEs env st1) (\<lambda>(args, st2).
         case args of
           [a] \<Rightarrow> if isError a then Done (a, st2) else applyFunction ev fn args env st2
         | _ \<Rightarrow> applyFunction ev fn args env st2))"

definition newInstance :: "addr \<Rightarrow> interp \<Rightarrow> addr \<times> interp" where
  "newInstance c st =
     (instances_next st,
      st\<lparr>instances := (instances st)(instances_next st := \<lparr>Class = c, Fields = Map.empty\<rparr>),
         instances_next := Suc (instances_next st)\<rparr>)"

definition evalNewExpression :: "eval_fns \<Rightarrow> string \<Rightarrow> expr list \<Rightarrow> addr \<Rightarrow> interp \<Rightarrow> (obj \<times> interp) run" where
  "evalNewExpression ev className argumentEs env st =
     (case Get st env className of
        None \<Rightarrow> Done (ErrorObj (''class not found: '' @ className), st)
      | Some classObj \<Rightarrow>
          (case classObj of
             ClassObj c \<Rightarrow>
               (let (instance, st1) = newInstance c st;
                    st2 = initializeInstanceFields instance c st1 in
                case Methods (classes st2 c) ''NEW'' of
                  None \<Rightarrow> Done (InstanceObj instance, st2)
                | Some constructor \<Rightarrow>
                    andThen (evalExpressions ev argumentEs env st2) (\<lambda>(args, st3).
                      let construct =
                        (let (ctorEnv, st4) = createMethodEnv instance env st3 in
                         case constructor of
                           ProcedureObj name params body fnEnv \<Rightarrow>
                             andThen (evalStatements ev body ctorEnv (declareParams ctorEnv params args st4))
                               (\<lambda>(evaluated, st5). Done (InstanceObj instance, st5))
                         | _ \<Rightarrow> Done (InstanceObj instance, st4))
                      in case args of
                           [a] \<Rightarrow> if isError a then Done (a, st3) else construct
                         | _ \<Rightarrow> construct))
           | _ \<Rightarrow> Done (ErrorObj (className @ '' is not a class''), st)))"

definition evalSuperExpression :: "interp \<Rightarrow> addr \<Rightarrow> obj" where
  "evalSuperExpression st env =
     (case Get st env ''SUPER'' of
        Some superObj \<Rightarrow> superObj
      | None \<Rightarrow> ErrorObj ''SUPER can only be used within a class method'')"

definition evalExpression :: "eval_fns \<Rightarrow> expr \<Rightarrow> addr \<Rightarrow> interp \<Rightarrow> (obj \<times> interp) run" where
  "evalExpression ev e env st =
     (case e of
        IntegerLiteral v \<Rightarrow> Done (IntegerObj v, st)
      | RealLiteral v \<Rightarrow> Done (RealObj v, st)
      | StringLiteral v \<Rightarrow> Done (StringObj v, st)
      | CharLiteral v \<Rightarrow>
          (case v of
             c # cs \<Rightarrow> Done (CharObj (of_nat (of_char c)), st)
           | [] \<Rightarrow> Done (CharObj 32, st))
      | BooleanLiteral v \<Rightarrow> Done (BooleanObj v, st)
      | Identifier name \<Rightarrow> Done (evalIdentifier st name env, st)
      | PrefixExpression op right \<Rightarrow> evalPrefixExpression ev op right env st
      | InfixExpression left op right \<Rightarrow> evalInfixExpression ev left op right env st
      | ArrayAccess a indices \<Rightarrow> evalArrayAccess ev a indices env st
      | MemberAccess ob member \<Rightarrow> evalMemberAccess ev ob member env st
      | CallExpression fn args \<Rightarrow> evalCallExpression ev fn args env st
      | NewExpression className args \<Rightarrow> evalNewExpression ev className args env st
      | SuperExpression \<Rightarrow> Done (evalSuperExpression st env, st)
      | RangeExpression a b \<Rightarrow>
          Done (ErrorObj ''unknown expression type: *ast.RangeExpression'', st))"


section \<open>Statements (interpreter.go)\<close>

definition newArray :: "(int \<times> int) list \<Rightarrow> interp \<Rightarrow> addr \<times> interp" where
  "newArray dims st =
     (arrays_next st,
      st\<lparr>arrays := (arrays st)(arrays_next st := \<lparr>Elements = Map.empty, Dimensions = dims\<rparr>),
         arrays_next := Suc (arrays_next st)\<rparr>)"

definition newRecord :: "string \<Rightarrow> (string \<rightharpoonup> obj) \<Rightarrow> interp \<Rightarrow> addr \<times> interp" where
  "newRecord name fs st =
     (recordvs_next st,
      st\<lparr>recordvs := (recordvs st)(recordvs_next st := \<lparr>TypeName = name, rec_Fields = fs\<rparr>),
         recordvs_next := Suc (recordvs_next st)\<rparr>)"

definition evalDeclareStatement :: "string \<Rightarrow> dataType \<Rightarrow> addr \<Rightarrow> interp \<Rightarrow> obj \<times> interp" where
  "evalDeclareStatement name dt env st =
     (case dt of
        PrimitiveType tn \<Rightarrow>
          Declare env name
            (if tn = ''INTEGER'' then IntegerObj 0
             else if tn = ''REAL'' then RealObj (Finite 0)
             else if tn = ''STRING'' then StringObj []
             else if tn = ''CHAR'' then CharObj 32
             else if tn = ''BOOLEAN'' then BooleanObj False
             else if tn = ''DATE'' then DateObj 1 1 1970
             else NullObj) st
      | ArrayType dims elemType \<Rightarrow>
          (let (a, st1) = newArray dims st in Declare env name (ArrayObj a) st1)
      | CustomType tn \<Rightarrow>
          (case GetType st env tn of
             Some (RecordObj t) \<Rightarrow>
               (let (r, st1) =
                      newRecord tn
                        (\<lambda>f. if rec_Fields (recordvs st t) f \<noteq> None then Some NullObj else None) st
                in Declare env name (RecordObj r) st1)
           | _ \<Rightarrow> Declare env name NullObj st)
      | _ \<Rightarrow> Declare env name NullObj st)"

definition evalConstantStatement :: "eval_fns \<Rightarrow> string \<Rightarrow> expr \<Rightarrow> addr \<Rightarrow> interp \<Rightarrow> (obj \<times> interp) run" where
  "evalConstantStatement ev name valueE env st =
     andThen (exprEval ev valueE env st) (\<lambda>(val, st1).
       if isError val then Done (val, st1)
       else Done (DeclareConstant env name val st1))"

definition evalAssignmentStatement :: "eval_fns \<Rightarrow> expr \<Rightarrow> expr \<Rightarrow> addr \<Rightarrow> interp \<Rightarrow> (obj \<times> interp) run" where
  "evalAssignmentStatement ev target valueE env st =
     andThen (exprEval ev valueE env st) (\<lambda>(val, st1).
       if isError val then Done (val, st1)
       else (case target of
               Identifier name \<Rightarrow> Done (SetInPlace env name val st1)
             | ArrayAccess a indices \<Rightarrow> evalArrayAssignment ev a indices val env st1
             | MemberAccess ob member \<Rightarrow> evalMemberAssignment ev ob member val env st1
             | _ \<Rightarrow> Done (ErrorObj ''invalid assignment target'', st1)))"

definition evalIfStatement :: "eval_fns \<Rightarrow> expr \<Rightarrow> stmt list \<Rightarrow> stmt list option \<Rightarrow> addr \<Rightarrow> interp \<Rightarrow> (obj \<times> interp) run" where
  "evalIfStatement ev conditionE consequence alternative env st =
     andThen (exprEval ev conditionE env st) (\<lambda>(condition, st1).
       if isError condition then Done (condition, st1)
       else if isTruthy condition then evalStatements ev consequence env st1
       else (case alternative of
               Some alt \<Rightarrow> evalStatements ev alt env st1
             | None \<Rightarrow> Done (NullObj, st1)))"

definition matchesCaseValue :: "eval_fns \<Rightarrow> obj \<Rightarrow> expr \<Rightarrow> addr \<Rightarrow> interp \<Rightarrow> (bool \<times> interp) run" where
  "matchesCaseValue ev val caseValue env st =
     (case caseValue of
        RangeExpression startE endE \<Rightarrow>
          andThen (exprEval ev startE env st) (\<lambda>(start, st1).
            andThen (exprEval ev endE env st1) (\<lambda>(endv, st2).
              Done (valueInRange val start endv, st2)))
      | _ \<Rightarrow>
          andThen (exprEval ev caseValue env st) (\<lambda>(evalValue, st1).
            Done (objectsEqual val evalValue, st1)))"

fun matchesAny :: "eval_fns \<Rightarrow> obj \<Rightarrow> expr list \<Rightarrow> addr \<Rightarrow> interp \<Rightarrow> (bool \<times> interp) run" where
  "matchesAny ev val [] env st = Done (False, st)"
| "matchesAny ev val (caseValue # rest) env st =
     andThen (matchesCaseValue ev val caseValue env st) (\<lambda>(m, st1).
       if m then Done (True, st1) else matchesAny ev val rest env st1)"

fun caseLoop :: "eval_fns \<Rightarrow> obj \<Rightarrow> (expr list \<times> stmt list) list \<Rightarrow> stmt list option \<Rightarrow> addr \<Rightarrow> interp \<Rightarrow> (obj \<times> interp) run" where
  "caseLoop ev val [] otherwise env st =
     (case otherwise of
        Some body \<Rightarrow> evalStatements ev body env st
      | None \<Rightarrow> Done (NullObj, st))"
| "caseLoop ev val ((values, body) # rest) otherwise env st =
     andThen (matchesAny ev val values env st) (\<lambda>(m, st1).
       if m then evalStatements ev body env st1
       else caseLoop ev val rest otherwise env st1)"

definition evalCaseStatement :: "eval_fns \<Rightarrow> expr \<Rightarrow> (expr list \<times> stmt list) list \<Rightarrow> stmt list option \<Rightarrow> addr \<Rightarrow> interp \<Rightarrow> (obj \<times> interp) run" where
  "evalCaseStatement ev subject cases otherwise env st =
     andThen (exprEval ev subject env st) (\<lambda>(val, st1).
       if isError val then Done (val, st1)
       else caseLoop ev val cases otherwise env st1)"

text \<open>
  The loop of \<open>evalForStatement\<close>, with the iterations left as first numeric argument.
  \<open>current += step\<close> wraps around; the comparisons are signed.
\<close>

fun forLoop :: "eval_fns \<Rightarrow> nat \<Rightarrow> obj \<Rightarrow> int64 \<Rightarrow> int64 \<Rightarrow> int64 \<Rightarrow> string \<Rightarrow> stmt list \<Rightarrow> addr \<Rightarrow> interp \<Rightarrow> (obj \<times> interp) run" where
  "forLoop ev 0 result current endInt step var body loopEnv st = OutOfFuel"
| "forLoop ev (Suc k) result current endInt step var body loopEnv st =
     (if 0 <s step \<and> endInt <s current then Done (result, st)
      else if step <s 0 \<and> current <s endInt then Done (result, st)
      else andThen (evalStatements ev body loopEnv (snd (SetInPlace loopEnv var (IntegerObj current) st)))
             (\<lambda>(result1, st1).
                if isError result1 then Done (result1, st1)
                else if isReturnValue result1 then Done (result1, st1)
                else forLoop ev k result1 (current + step) endInt step var body loopEnv st1))"

text \<open>The step of a FOR statement: \<open>Inl\<close> is the error the statement returns at once.\<close>

definition evalStep :: "eval_fns \<Rightarrow> expr option \<Rightarrow> addr \<Rightarrow> interp \<Rightarrow> ((obj + int64) \<times> interp) run" where
  "evalStep ev stepE env st =
     (case stepE of
        None \<Rightarrow> Done (Inr 1, st)
      | Some e \<Rightarrow>
          andThen (exprEval ev e env st) (\<lambda>(stepVal, st1).
            if isError stepVal then Done (Inl stepVal, st1)
            else (case stepVal of
                    IntegerObj s \<Rightarrow> Done (Inr s, st1)
                  | _ \<Rightarrow> Done (Inr 1, st1))))"

definition evalForStatement :: "eval_fns \<Rightarrow> string \<Rightarrow> expr \<Rightarrow> expr \<Rightarrow> expr option \<Rightarrow> stmt list \<Rightarrow> addr \<Rightarrow> interp \<Rightarrow> (obj \<times> interp) run" where
  "evalForStatement ev var startE endE stepE body env st =
     andThen (exprEval ev startE env st) (\<lambda>(start, st1).
       if isError start then Done (start, st1)
       else andThen (exprEval ev endE env st1) (\<lambda>(endv, st2).
         if isError endv then Done (endv, st2)
         else andThen (evalStep ev stepE env st2) (\<lambda>(stepR, st3).
           case stepR of
             Inl early \<Rightarrow> Done (early, st3)
           | Inr step \<Rightarrow>
               (case start of
                  IntegerObj startInt \<Rightarrow>
                    (case endv of
                       IntegerObj endInt \<Rightarrow>
                         (let (loopEnv, st4) = NewEnclosedEnvironment env st3;
                              st5 = snd (Declare loopEnv var start st4)
                          in forLoop ev (fuel ev) NilObj startInt endInt step var body loopEnv st5)
                     | _ \<Rightarrow> Done (ErrorObj ''FOR loop end must be an integer'', st3))
                | _ \<Rightarrow> Done (ErrorObj ''FOR loop start must be an integer'', st3)))))"

fun whileLoop :: "eval_fns \<Rightarrow> nat \<Rightarrow> obj \<Rightarrow> expr \<Rightarrow> stmt list \<Rightarrow> addr \<Rightarrow> interp \<Rightarrow> (obj \<times> interp) run" where
  "whileLoop ev 0 result conditionE body env st = OutOfFuel"
| "whileLoop ev (Suc k) result conditionE body env st =
     andThen (exprEval ev conditionE env st) (\<lambda>(condition, st1).
       if isError condition then Done (condition, st1)
       else if \<not> isTruthy condition then Done (result, st1)
       else andThen (evalStatements ev body env st1) (\<lambda>(result1, st2).
         if isError result1 then Done (result1, st2)
         else if isReturnValue result1 then Done (result1, st2)
         else whileLoop ev k result1 conditionE body env st2))"

definition evalWhileStatement :: "eval_fns \<Rightarrow> expr \<Rightarrow> stmt list \<Rightarrow> addr \<Rightarrow> interp \<Rightarrow> (obj \<times> interp) run" where
  "evalWhileStatement ev conditionE body env st = whileLoop ev (fuel ev) NilObj conditionE body env st"

fun repeatLoop :: "eval_fns \<Rightarrow> nat \<Rightarrow> stmt list \<Rightarrow> expr \<Rightarrow> addr \<Rightarrow> interp \<Rightarrow> (obj \<times> interp) run" where
  "repeatLoop ev 0 body conditionE env st = OutOfFuel"
| "repeatLoop ev (Suc k) body conditionE env st =
     andThen (evalStatements ev body env st) (\<lambda>(result, st1).
       if isError result then Done (result, st1)
       else if isReturnValue result then Done (result, st1)
       else andThen (exprEval ev conditionE env st1) (\<lambda>(condition, st2).
         if isError condition then Done (condition, st2)
         else if isTruthy condition then Done (result, st2)
         else repeatLoop ev k body conditionE env st2))"

definition evalRepeatStatement :: "eval_fns \<Rightarrow> stmt list \<Rightarrow> expr \<Rightarrow> addr \<Rightarrow> interp \<Rightarrow> (obj \<times> interp) run" where
  "evalRepeatStatement ev body conditionE env st = repeatLoop ev (fuel ev) body conditionE env st"

definition evalProcedureStatement :: "string \<Rightarrow> parameter list \<Rightarrow> stmt list \<Rightarrow> addr \<Rightarrow> interp \<Rightarrow> obj \<times> interp" where
  "evalProcedureStatement name params body env st =
     Declare env name (ProcedureObj name params body env) st"

definition evalFunctionStatement :: "string \<Rightarrow> parameter list \<Rightarrow> stmt list \<Rightarrow> addr \<Rightarrow> interp \<Rightarrow> obj \<times> interp" where
  "evalFunctionStatement name params body env st =
     Declare env name (FunctionObj name params body env) st"

definition evalCallStatement :: "eval_fns \<Rightarrow> expr \<Rightarrow> expr list \<Rightarrow> addr \<Rightarrow> interp \<Rightarrow> (obj \<times> interp) run" where
  "evalCallStatement ev nameE argumentEs env st = evalCallExpression ev nameE argumentEs env st"

definition evalReturnStatement :: "eval_fns \<Rightarrow> expr option \<Rightarrow> addr \<Rightarrow> interp \<Rightarrow> (obj \<times> interp) run" where
  "evalReturnStatement ev valueE env st =
     (case valueE of
        None \<Rightarrow> Done (ReturnValueObj NullObj, st)
      | Some e \<Rightarrow>
          andThen (exprEval ev e env st) (\<lambda>(val, st1).
            if isError val then Done (val, st1)
            else Done (ReturnValueObj val, st1)))"

text \<open>
  \<open>bufio.NewReader(i.input).ReadString('\n')\<close>: the fresh buffered reader calls \<open>Read\<close>
  until the bytes it holds contain a newline, or the input ends or fails. It returns the
  bytes up to and including the first newline; what it had read beyond is lost with it.
\<close>

datatype ioError = EOF | OtherError string

fun ReadString :: "readResult list \<Rightarrow> string \<Rightarrow> string \<times> ioError option \<times> readResult list" where
  "ReadString [] buf = (buf, Some EOF, [])"
| "ReadString (ReadErr m # rest) buf = (buf, Some (OtherError m), rest)"
| "ReadString (Data d # rest) buf =
     (if CHR 0x0A \<in> set d then (buf @ takeWhile (\<lambda>c. c \<noteq> CHR 0x0A) d @ [CHR 0x0A], None, rest)
      else ReadString rest (buf @ d))"

text \<open>\<open>strings.TrimRight(line, "\r\n")\<close> removes every trailing carriage return and newline.\<close>

definition TrimRight :: "string \<Rightarrow> string" where
  "TrimRight line = rev (dropWhile (\<lambda>c. c = CHR 0x0D \<or> c = CHR 0x0A) (rev line))"

definition evalInputStatement :: "eval_fns \<Rightarrow> expr \<Rightarrow> addr \<Rightarrow> interp \<Rightarrow> (obj \<times> interp) run" where
  "evalInputStatement ev variable env st =
     (case ReadString (reads st) [] of
        (line, err, rest) \<Rightarrow>
          (let st1 = st\<lparr>reads := rest\<rparr> in
           case err of
             Some (OtherError m) \<Rightarrow> Done (ErrorObj (''input error: '' @ m), st1)
           | _ \<Rightarrow>
               (case variable of
                  Identifier name \<Rightarrow>
                    Done (NullObj, snd (SetInPlace env name (StringObj (TrimRight line)) st1))
                | ArrayAccess a indices \<Rightarrow>
                    evalArrayAssignment ev a indices (StringObj (TrimRight line)) env st1
                | _ \<Rightarrow> Done (NullObj, st1))))"

fun outputParts :: "eval_fns \<Rightarrow> string list \<Rightarrow> expr list \<Rightarrow> addr \<Rightarrow> interp \<Rightarrow> ((obj + string list) \<times> interp) run" where
  "outputParts ev parts [] env st = Done (Inr parts, st)"
| "outputParts ev parts (e # es) env st =
     andThen (exprEval ev e env st) (\<lambda>(val, st1).
       if isError val then Done (Inl val, st1)
       else (case Inspect st1 val of
               None \<Rightarrow> Panic
             | Some s \<Rightarrow> outputParts ev (parts @ [s]) es env st1))"

definition evalOutputStatement :: "eval_fns \<Rightarrow> expr list \<Rightarrow> addr \<Rightarrow> interp \<Rightarrow> (obj \<times> interp) run" where
  "evalOutputStatement ev valueEs env st =
     andThen (outputParts ev [] valueEs env st) (\<lambda>(r, st1).
       case r of
         Inl early \<Rightarrow> Done (early, st1)
       | Inr parts \<Rightarrow> Done (NullObj, st1\<lparr>written := written st1 @ concat parts @ [CHR 0x0A]\<rparr>))"


section \<open>File statements (interpreter.go)\<close>

text \<open>
  The operating system is reduced to \<open>disk\<close>, a map from file names to contents:
  opening a file for reading fails exactly when the name is absent, creating, appending
  and writing always succeed, and a \<open>bufio.Scanner\<close> hands out the lines of the contents
  the file had when it was opened (a line longer than the scanner's buffer is not modelled).
\<close>

definition dropCR :: "string \<Rightarrow> string" where
  "dropCR s = (if s \<noteq> [] \<and> last s = CHR 0x0D then butlast s else s)"

fun scanLines :: "string \<Rightarrow> string \<Rightarrow> string list" where
  "scanLines cur [] = (if cur = [] then [] else [dropCR cur])"
| "scanLines cur (c # cs) =
     (if c = CHR 0x0A then dropCR cur # scanLines [] cs else scanLines (cur @ [c]) cs)"

definition evalOpenFileStatement :: "eval_fns \<Rightarrow> expr \<Rightarrow> string \<Rightarrow> addr \<Rightarrow> interp \<Rightarrow> (obj \<times> interp) run" where
  "evalOpenFileStatement ev filenameE fmode env st =
     andThen (exprEval ev filenameE env st) (\<lambda>(filename, st1).
       if isError filename then Done (filename, st1)
       else (case filename of
               StringObj f \<Rightarrow>
                 if fmode = ''READ'' then
                   (case disk st1 f of
                      None \<Rightarrow>
                        Done (ErrorObj (''cannot open file: open '' @ f @ '': no such file or directory''), st1)
                    | Some content \<Rightarrow>
                        Done (NullObj,
                              st1\<lparr>files := (files st1)
                                   (f \<mapsto> \<lparr>mode = fmode, pending = scanLines [] content, atEOF = False\<rparr>)\<rparr>))
                 else if fmode = ''WRITE'' then
                   Done (NullObj,
                         st1\<lparr>files := (files st1)(f \<mapsto> \<lparr>mode = fmode, pending = [], atEOF = False\<rparr>),
                             disk := (disk st1)(f \<mapsto> [])\<rparr>)
                 else if fmode = ''APPEND'' then
                   Done (NullObj,
                         st1\<lparr>files := (files st1)(f \<mapsto> \<lparr>mode = fmode, pending = [], atEOF = False\<rparr>),
                             disk := (disk st1)(f \<mapsto> (case disk st1 f of None \<Rightarrow> [] | Some content \<Rightarrow> content))\<rparr>)
                 else
                   Done (NullObj,
                         st1\<lparr>files := (files st1)(f \<mapsto> \<lparr>mode = fmode, pending = [], atEOF = False\<rparr>)\<rparr>)
             | _ \<Rightarrow> Done (ErrorObj ''filename must be a string'', st1)))"

definition evalCloseFileStatement :: "eval_fns \<Rightarrow> expr \<Rightarrow> addr \<Rightarrow> interp \<Rightarrow> (obj \<times> interp) run" where
  "evalCloseFileStatement ev filenameE env st =
     andThen (exprEval ev filenameE env st) (\<lambda>(filename, st1).
       if isError filename then Done (filename, st1)
       else (case filename of
               StringObj f \<Rightarrow>
                 (case files st1 f of
                    None \<Rightarrow> Done (ErrorObj ''file not open'', st1)
                  | Some fs \<Rightarrow> Done (NullObj, st1\<lparr>files := (files st1)(f := None)\<rparr>))
             | _ \<Rightarrow> Done (ErrorObj ''filename must be a string'', st1)))"

definition evalReadFileStatement :: "eval_fns \<Rightarrow> expr \<Rightarrow> expr \<Rightarrow> addr \<Rightarrow> interp \<Rightarrow> (obj \<times> interp) run" where
  "evalReadFileStatement ev filenameE variable env st =
     andThen (exprEval ev filenameE env st) (\<lambda>(filename, st1).
       if isError filename then Done (filename, st1)
       else (case filename of
               StringObj f \<Rightarrow>
                 (case files st1 f of
                    None \<Rightarrow> Done (ErrorObj ''file not open'', st1)
                  | Some fs \<Rightarrow>
                      if mode fs \<noteq> ''READ'' then Done (ErrorObj ''file not open for reading'', st1)
                      else (case pending fs of
                              line # rest \<Rightarrow>
                                (let st2 = st1\<lparr>files := (files st1)(f \<mapsto> fs\<lparr>pending := rest\<rparr>)\<rparr> in
                                 case variable of
                                   Identifier name \<Rightarrow>
                                     Done (NullObj, snd (SetInPlace env name (StringObj line) st2))
                                 | ArrayAccess a indices \<Rightarrow>
                                     evalArrayAssignment ev a indices (StringObj line) env st2
                                 | _ \<Rightarrow> Done (NullObj, st2))
                            | [] \<Rightarrow>
                                Done (NullObj, st1\<lparr>files := (files st1)(f \<mapsto> fs\<lparr>atEOF := True\<rparr>)\<rparr>)))
             | _ \<Rightarrow> Done (ErrorObj ''filename must be a string'', st1)))"

definition evalWriteFileStatement :: "eval_fns \<Rightarrow> expr \<Rightarrow> expr \<Rightarrow> addr \<Rightarrow> interp \<Rightarrow> (obj \<times> interp) run" where
  "evalWriteFileStatement ev filenameE dataE env st =
     andThen (exprEval ev filenameE env st) (\<lambda>(filename, st1).
       if isError filename then Done (filename, st1)
       else (case filename of
               StringObj f \<Rightarrow>
                 (case files st1 f of
                    None \<Rightarrow> Done (ErrorObj ''file not open'', st1)
                  | Some fs \<Rightarrow>
                      if mode fs \<noteq> ''WRITE'' \<and> mode fs \<noteq> ''APPEND''
                      then Done (ErrorObj ''file not open for writing'', st1)
                      else andThen (exprEval ev dataE env st1) (\<lambda>(d, st2).
                             if isError d then Done (d, st2)
                             else (case Inspect st2 d of
                                     None \<Rightarrow> Panic
                                   | Some s \<Rightarrow>
                                       Done (NullObj,
                                             st2\<lparr>disk := (disk st2)
                                                  (f \<mapsto> (case disk st2 f of None \<Rightarrow> [] | Some content \<Rightarrow> content)
                                                         @ s @ [CHR 0x0A])\<rparr>))))
             | _ \<Rightarrow> Done (ErrorObj ''filename must be a string'', st1)))"

section \<open>Type and class declarations (interpreter.go)\<close>

fun declareEnum :: "addr \<Rightarrow> nat \<Rightarrow> string list \<Rightarrow> interp \<Rightarrow> interp" where
  "declareEnum env idx [] st = st"
| "declareEnum env idx (v # vs) st =
     declareEnum env (Suc idx) vs (snd (Declare env v (IntegerObj (of_nat idx)) st))"

definition evalTypeStatement :: "string \<Rightarrow> dataType \<Rightarrow> addr \<Rightarrow> interp \<Rightarrow> obj \<times> interp" where
  "evalTypeStatement name definition env st =
     (case definition of
        RecordType fs \<Rightarrow>
          (let (r, st1) = newRecord name (\<lambda>f. if f \<in> fst ` set fs then Some NullObj else None) st
           in (NullObj, DefineType env name (RecordObj r) st1))
      | EnumType vs \<Rightarrow> (NullObj, declareEnum env 0 vs st)
      | _ \<Rightarrow> (NullObj, st))"

fun addMember :: "addr \<Rightarrow> stmt \<Rightarrow> classv \<Rightarrow> classv" where
  "addMember classEnv (DeclareStatement name dt) c =
     c\<lparr>class_Fields := (class_Fields c)(name \<mapsto> dt)\<rparr>"
| "addMember classEnv (ProcedureStatement name params body) c =
     c\<lparr>Methods := (Methods c)(name \<mapsto> ProcedureObj name params body classEnv)\<rparr>"
| "addMember classEnv (FunctionStatement name params body) c =
     c\<lparr>Methods := (Methods c)(name \<mapsto> FunctionObj name params body classEnv)\<rparr>"
| "addMember classEnv member c = c"

definition evalClassStatement :: "string \<Rightarrow> string \<Rightarrow> stmt list \<Rightarrow> addr \<Rightarrow> interp \<Rightarrow> obj \<times> interp" where
  "evalClassStatement name parentName members env st =
     (let parent = (if parentName \<noteq> [] then
                      (case Get st env parentName of
                         Some (ClassObj p) \<Rightarrow> Some p
                       | _ \<Rightarrow> None)
                    else None);
          (classEnv, st1) = NewEnclosedEnvironment env st;
          c = fold (addMember classEnv) members
                \<lparr>class_Name = name, Parent = parent, Methods = Map.empty, class_Fields = Map.empty\<rparr>;
          st2 = st1\<lparr>classes := (classes st1)(classes_next st1 := c),
                    classes_next := Suc (classes_next st1)\<rparr>
      in Declare env name (ClassObj (classes_next st1)) st2)"

section \<open>The dispatch on statements, and the evaluator of every depth\<close>

definition evalStatement :: "eval_fns \<Rightarrow> stmt \<Rightarrow> addr \<Rightarrow> interp \<Rightarrow> (obj \<times> interp) run" where
  "evalStatement ev s env st =
     (case s of
        DeclareStatement name dt \<Rightarrow> Done (evalDeclareStatement name dt env st)
      | ConstantStatement name v \<Rightarrow> evalConstantStatement ev name v env st
      | AssignmentStatement target v \<Rightarrow> evalAssignmentStatement ev target v env st
      | IfStatement c t e \<Rightarrow> evalIfStatement ev c t e env st
      | CaseStatement e cs ow \<Rightarrow> evalCaseStatement ev e cs ow env st
      | ForStatement var a b step body \<Rightarrow> evalForStatement ev var a b step body env st
      | WhileStatement c body \<Rightarrow> evalWhileStatement ev c body env st
      | RepeatStatement body c \<Rightarrow> evalRepeatStatement ev body c env st
      | ProcedureStatement name ps body \<Rightarrow> Done (evalProcedureStatement name ps body env st)
      | FunctionStatement name ps body \<Rightarrow> Done (evalFunctionStatement name ps body env st)
      | CallStatement f args \<Rightarrow> evalCallStatement ev f args env st
      | ReturnStatement v \<Rightarrow> evalReturnStatement ev v env st
      | InputStatement v \<Rightarrow> evalInputStatement ev v env st
      | OutputStatement vs \<Rightarrow> evalOutputStatement ev vs env st
      | OpenFileStatement f m \<Rightarrow> evalOpenFileStatement ev f m env st
      | CloseFileStatement f \<Rightarrow> evalCloseFileStatement ev f env st
      | ReadFileStatement f v \<Rightarrow> evalReadFileStatement ev f v env st
      | WriteFileStatement f d \<Rightarrow> evalWriteFileStatement ev f d env st
      | TypeStatement name d \<Rightarrow> Done (evalTypeStatement name d env st)
      | ClassStatement name parent members \<Rightarrow> Done (evalClassStatement name parent members env st)
      | ExpressionStatement e \<Rightarrow> exprEval ev e env st)"

primrec evaluator :: "nat \<Rightarrow> eval_fns" where
  "evaluator 0 =
     \<lparr>stmtEval = (\<lambda>s env st. OutOfFuel), exprEval = (\<lambda>e env st. OutOfFuel), fuel = 0\<rparr>"
| "evaluator (Suc n) =
     \<lparr>stmtEval = evalStatement (evaluator n), exprEval = evalExpression (evaluator n), fuel = Suc n\<rparr>"

text \<open>\<open>Eval\<close>: the loop over the statements of the program, in the interpreter's own environment.\<close>

fun EvalFrom :: "eval_fns \<Rightarrow> obj \<Rightarrow> stmt list \<Rightarrow> interp \<Rightarrow> (obj \<times> interp) run" where
  "EvalFrom ev result [] st = Done (result, st)"
| "EvalFrom ev result (s # ss) st =
     andThen (stmtEval ev s (global_env st) st) (\<lambda>(r, st1).
       case r of
         ReturnValueObj v \<Rightarrow> Done (v, st1)
       | ErrorObj m \<Rightarrow> Done (r, st1)
       | _ \<Rightarrow> EvalFrom ev r ss st1)"

definition Eval :: "nat \<Rightarrow> stmt list \<Rightarrow> interp \<Rightarrow> (obj \<times> interp) run" where
  "Eval n program st = EvalFrom (evaluator n) NilObj program st"

text \<open>
  \<open>New\<close>: a fresh interpreter, with nothing allocated but its global environment, on
  a host with the given formatting functions and an empty disk. \<open>SetBuiltins\<close> and
  \<open>SetInput\<close> install the table of built-in functions and the input.
\<close>

definition New :: "(float64 \<Rightarrow> string) \<Rightarrow> (int \<Rightarrow> int \<Rightarrow> int \<Rightarrow> string) \<Rightarrow> interp" where
  "New g d =
     \<lparr>global_env = 0, builtins = Map.empty, files = Map.empty, reads = [], written = [],
      disk = Map.empty, fmt_g = g, fmt_date = d,
      envs = (\<lambda>a. emptyEnvironment), envs_next = 1,
      arrays = (\<lambda>a. \<lparr>Elements = Map.empty, Dimensions = []\<rparr>), arrays_next = 0,
      recordvs = (\<lambda>a. \<lparr>TypeName = [], rec_Fields = Map.empty\<rparr>), recordvs_next = 0,
      classes = (\<lambda>a. \<lparr>class_Name = [], Parent = None, Methods = Map.empty, class_Fields = Map.empty\<rparr>),
      classes_next = 0,
      instances = (\<lambda>a. \<lparr>Class = 0, Fields = Map.empty\<rparr>), instances_next = 0\<rparr>"

definition SetBuiltins :: "(string \<rightharpoonup> (obj list \<Rightarrow> obj)) \<Rightarrow> interp \<Rightarrow> interp" where
  "SetBuiltins bs st = st\<lparr>builtins := bs\<rparr>"

definition SetInput :: "readResult list \<Rightarrow> interp \<Rightarrow> interp" where
  "SetInput rs st = st\<lparr>reads := rs\<rparr>"

text \<open>The fresh interpreter used for the concrete runs below; its host formats nothing.\<close>

definition fresh :: interp where
  "fresh = New (\<lambda>r. []) (\<lambda>d m y. [])"

section \<open>The environment chain\<close>

text \<open>
  The environment chain seen from a scope: the scope itself, its outer scope, and so on
  to the outermost one (used to state where a name is bound; the test \<open>p < e\<close> is the
  one of \<open>Get\<close> and \<open>SetInPlace\<close>).
\<close>

function scopes :: "interp \<Rightarrow> addr \<Rightarrow> addr list" where
  "scopes st e =
     e # (case outer (envs st e) of
            None \<Rightarrow> []
          | Some p \<Rightarrow> if p < e then scopes st p else [])"
  by pat_completeness auto
termination
  by (relation "measure (\<lambda>(st, e). e)") auto

declare scopes.simps [simp del]

section \<open>Operator lists and sample programs used in the statements below\<close>

definition realOperators :: "string list" where
  "realOperators = [''+'', ''-'', ''*'', ''/'', ''<'', ''>'', ''<='', ''>='', ''='', ''<>'']"

definition return5 :: stmt where
  "return5 = ReturnStatement (Some (IntegerLiteral 5))"

definition seven :: stmt where
  "seven = ExpressionStatement (IntegerLiteral 7)"

definition procedureP :: obj where
  "procedureP = ProcedureObj ''P'' [] [return5] 0"

definition procedureProgram :: "stmt list" where
  "procedureProgram =
     [ProcedureStatement ''P'' [] [return5],
      AssignmentStatement (Identifier ''x'') (CallExpression (Identifier ''P'') [])]"

definition forStringStep :: stmt where
  "forStringStep =
     ForStatement ''i'' (IntegerLiteral 1) (IntegerLiteral 4) (Some (StringLiteral ''2''))
       [ExpressionStatement (Identifier ''i'')]"

definition shadowProgram :: "stmt list" where
  "shadowProgram =
     [ConstantStatement ''X'' (IntegerLiteral 5),
      ProcedureStatement ''P'' []
        [DeclareStatement ''X'' (PrimitiveType ''INTEGER''),
         AssignmentStatement (Identifier ''X'') (IntegerLiteral 7)],
      CallStatement (Identifier ''P'') []]"

definition constantProgram :: "stmt list" where
  "constantProgram =
     [ConstantStatement ''X'' (IntegerLiteral 5),
      ProcedureStatement ''P'' [] [AssignmentStatement (Identifier ''X'') (IntegerLiteral 7)],
      CallStatement (Identifier ''P'') []]"

definition undeclaredProgram :: "stmt list" where
  "undeclaredProgram =
     [ProcedureStatement ''P'' [] [AssignmentStatement (Identifier ''y'') (IntegerLiteral 1)],
      CallStatement (Identifier ''P'') []]"

text \<open>A fresh interpreter after \<open>CONSTANT X = 5\<close>, and the same with a nested scope 1.\<close>

definition withConstant :: interp where
  "withConstant = snd (DeclareConstant 0 ''X'' (IntegerObj 5) fresh)"

definition withConstantNested :: interp where
  "withConstantNested = snd (NewEnclosedEnvironment 0 withConstant)"

definition swapParams :: "parameter list" where
  "swapParams = [Parameter ''A'' True, Parameter ''B'' True]"

definition swapBody :: "stmt list" where
  "swapBody =
     [DeclareStatement ''Temp'' (PrimitiveType ''INTEGER''),
      AssignmentStatement (Identifier ''Temp'') (Identifier ''A''),
      AssignmentStatement (Identifier ''A'') (Identifier ''B''),
      AssignmentStatement (Identifier ''B'') (Identifier ''Temp'')]"

text \<open>A fresh interpreter after \<open>x\<close> and \<open>y\<close> are declared with the values 1 and 2.\<close>

definition withXY :: interp where
  "withXY = snd (Declare 0 ''y'' (IntegerObj 2) (snd (Declare 0 ''x'' (IntegerObj 1) fresh)))"

definition swapProgram :: "stmt list" where
  "swapProgram =
     [ProcedureStatement ''Swap'' swapParams swapBody,
      DeclareStatement ''x'' (PrimitiveType ''INTEGER''),
      DeclareStatement ''y'' (PrimitiveType ''INTEGER''),
      AssignmentStatement (Identifier ''x'') (IntegerLiteral 1),
      AssignmentStatement (Identifier ''y'') (IntegerLiteral 2),
      CallStatement (Identifier ''Swap'') [Identifier ''x'', Identifier ''y'']]"

definition inputProgram :: "stmt list" where
  "inputProgram =
     [DeclareStatement ''n'' (PrimitiveType ''INTEGER''),
      InputStatement (Identifier ''n'')]"

definition constantInputProgram :: "stmt list" where
  "constantInputProgram =
     [ConstantStatement ''C'' (IntegerLiteral 1),
      InputStatement (Identifier ''C'')]"

definition typed42 :: "readResult list" where
  "typed42 = [Data (''42'' @ [CHR 0x0D, CHR 0x0A])]"

text \<open>A fresh interpreter after \<open>DECLARE n : INTEGER\<close>, with a line typed on its input.\<close>

definition withArray :: interp where
  "withArray =
     SetInput typed42
       (snd (evalDeclareStatement ''arr'' (ArrayType [(1, 3)] (PrimitiveType ''INTEGER'')) 0 fresh))"

definition withInteger :: interp where
  "withInteger = SetInput typed42 (snd (evalDeclareStatement ''n'' (PrimitiveType ''INTEGER'') 0 fresh))"

text \<open>
  A method that reads a name bound only in the function that calls it:
  \<open>CLASS C\<close> with \<open>FUNCTION Peek() RETURN hidden\<close>, and a function \<open>Caller\<close> that
  declares \<open>hidden\<close>, sets it to 42, creates a \<open>C\<close> and returns \<open>o.Peek()\<close>.
\<close>

definition peekProgram :: "stmt list" where
  "peekProgram =
     [ClassStatement ''C'' []
        [FunctionStatement ''Peek'' [] [ReturnStatement (Some (Identifier ''hidden''))]],
      FunctionStatement ''Caller'' []
        [DeclareStatement ''hidden'' (PrimitiveType ''INTEGER''),
         AssignmentStatement (Identifier ''hidden'') (IntegerLiteral 42),
         AssignmentStatement (Identifier ''o'') (NewExpression ''C'' []),
         ReturnStatement (Some (CallExpression (MemberAccess (Identifier ''o'') ''Peek'') []))],
      ExpressionStatement (CallExpression (Identifier ''Caller'') [])]"

text \<open>
  The classes of the README: \<open>Animal\<close> with a field \<open>Name\<close>, the constructor
  \<open>NEW(GivenName)\<close> that assigns it and \<open>GetName\<close>; \<open>Dog INHERITS Animal\<close> with
  \<open>Speak\<close> only. \<open>dogCreation\<close> declares them and creates a \<open>Dog\<close>,
  \<open>animalCreation\<close> creates an \<open>Animal\<close> instead.
\<close>

definition newMethod :: obj where
  "newMethod =
     ProcedureObj ''NEW'' [Parameter ''GivenName'' False]
       [AssignmentStatement (Identifier ''Name'') (Identifier ''GivenName'')] 1"

definition getNameMethod :: obj where
  "getNameMethod = FunctionObj ''GetName'' [] [ReturnStatement (Some (Identifier ''Name''))] 1"

definition speakMethod :: obj where
  "speakMethod =
     ProcedureObj ''Speak'' []
       [OutputStatement [CallExpression (Identifier ''GetName'') [], StringLiteral '' says Woof!'']] 2"

definition animalClass :: stmt where
  "animalClass =
     ClassStatement ''Animal'' []
       [DeclareStatement ''Name'' (PrimitiveType ''STRING''),
        ProcedureStatement ''NEW'' [Parameter ''GivenName'' False]
          [AssignmentStatement (Identifier ''Name'') (Identifier ''GivenName'')],
        FunctionStatement ''GetName'' [] [ReturnStatement (Some (Identifier ''Name''))]]"

definition dogClass :: stmt where
  "dogClass =
     ClassStatement ''Dog'' ''Animal''
       [ProcedureStatement ''Speak'' []
          [OutputStatement [CallExpression (Identifier ''GetName'') [], StringLiteral '' says Woof!'']]]"

definition dogCreation :: "stmt list" where
  "dogCreation =
     [animalClass, dogClass,
      DeclareStatement ''MyDog'' (CustomType ''Dog''),
      AssignmentStatement (Identifier ''MyDog'') (NewExpression ''Dog'' [StringLiteral ''Buddy''])]"


text \<open>
  The interpreter after \<open>dogCreation\<close>, the same with one more scope 3 nested in the
  global one, and the state that \<open>createMethodEnv\<close> leaves for a call from that scope on the dog.
\<close>

definition afterDogCreation :: interp where
  "afterDogCreation =
     (case Eval (Suc (Suc (Suc 0))) dogCreation fresh of Done (v, st) \<Rightarrow> st | _ \<Rightarrow> fresh)"

definition withDog :: interp where
  "withDog = snd (NewEnclosedEnvironment 0 afterDogCreation)"

definition dogScope :: interp where
  "dogScope = snd (createMethodEnv 0 3 withDog)"

text \<open>
  The iterations of a FOR loop with step 1 as the specification describes them: the loop
  variable takes the values \<open>start\<close>, \<open>start + 1\<close>, ... up to \<open>end\<close>, and the body is
  run once for each, after the variable is set; an Error or a ReturnSignal of the body
  ends the loop at once, otherwise the result is that of the last run of the body.
\<close>

definition countUp :: "int64 \<Rightarrow> nat \<Rightarrow> int64 list" where
  "countUp a n = map (\<lambda>j. a + of_nat j) [0..<n]"

fun runBody :: "eval_fns \<Rightarrow> obj \<Rightarrow> int64 list \<Rightarrow> string \<Rightarrow> stmt list \<Rightarrow> addr \<Rightarrow> interp \<Rightarrow> (obj \<times> interp) run" where
  "runBody ev result [] var body loopEnv st = Done (result, st)"
| "runBody ev result (current # rest) var body loopEnv st =
     andThen (evalStatements ev body loopEnv (snd (SetInPlace loopEnv var (IntegerObj current) st)))
       (\<lambda>(result1, st1).
          if isError result1 then Done (result1, st1)
          else if isReturnValue result1 then Done (result1, st1)
          else runBody ev result1 rest var body loopEnv st1)"

definition forOutput :: stmt where
  "forOutput =
     ForStatement ''i'' (IntegerLiteral 1) (IntegerLiteral 4) (Some (StringLiteral ''2''))
       [OutputStatement [Identifier ''i'']]"

section \<open>Basic facts\<close>

lemma andThen_Done [simp]: "andThen (Done x) f = f x"
  by (simp add: andThen_def)

lemma andThen_OutOfFuel [simp]: "andThen OutOfFuel f = OutOfFuel"
  by (simp add: andThen_def)

lemma andThen_Panic [simp]: "andThen Panic f = Panic"
  by (simp add: andThen_def)

lemma andThen_eq_Done:
  "andThen m f = Done y \<longleftrightarrow> (\<exists>x. m = Done x \<and> f x = Done y)"
  by (cases m) simp_all

lemma fuel_evaluator [simp]: "fuel (evaluator n) = n"
  by (cases n) simp_all

lemma evalExpression_IntegerLiteral [simp]:
  "evalExpression ev (IntegerLiteral v) env st = Done (IntegerObj v, st)"
  by (simp add: evalExpression_def)

lemma evalExpression_RealLiteral [simp]:
  "evalExpression ev (RealLiteral v) env st = Done (RealObj v, st)"
  by (simp add: evalExpression_def)

lemma evalExpression_StringLiteral [simp]:
  "evalExpression ev (StringLiteral v) env st = Done (StringObj v, st)"
  by (simp add: evalExpression_def)

lemma evalExpression_BooleanLiteral [simp]:
  "evalExpression ev (BooleanLiteral v) env st = Done (BooleanObj v, st)"
  by (simp add: evalExpression_def)

lemma evalExpression_Identifier [simp]:
  "evalExpression ev (Identifier name) env st = Done (evalIdentifier st name env, st)"
  by (simp add: evalExpression_def)

lemma isError_simps [simp]:
  "isError (ErrorObj m)" "\<not> isError NilObj" "\<not> isError (IntegerObj i)" "\<not> isError (RealObj r)"
  "\<not> isError (StringObj s)" "\<not> isError (CharObj c)" "\<not> isError (BooleanObj b)" "\<not> isError NullObj"
  "\<not> isError (ReturnValueObj v)" "\<not> isError (FunctionObj n ps body e)"
  "\<not> isError (ProcedureObj n ps body e)" "\<not> isError (BuiltinObj n)" "\<not> isError (ArrayObj a)"
  "\<not> isError (RecordObj a)" "\<not> isError (ClassObj a)" "\<not> isError (InstanceObj a)"
  "\<not> isError (BoundMethodObj a v)" "\<not> isError (SuperObj a p)" "\<not> isError (DateObj dd mm yy)"
  by (simp_all add: isError_def)

lemma isReturnValue_simps [simp]:
  "isReturnValue (ReturnValueObj v)" "\<not> isReturnValue NilObj" "\<not> isReturnValue (IntegerObj i)"
  "\<not> isReturnValue (RealObj r)" "\<not> isReturnValue (StringObj s)" "\<not> isReturnValue (CharObj c)"
  "\<not> isReturnValue (BooleanObj b)" "\<not> isReturnValue NullObj" "\<not> isReturnValue (ErrorObj m)"
  "\<not> isReturnValue (FunctionObj n ps body e)" "\<not> isReturnValue (ProcedureObj n ps body e)"
  "\<not> isReturnValue (BuiltinObj n)" "\<not> isReturnValue (ArrayObj a)" "\<not> isReturnValue (RecordObj a)"
  "\<not> isReturnValue (ClassObj a)" "\<not> isReturnValue (InstanceObj a)"
  "\<not> isReturnValue (BoundMethodObj a v)" "\<not> isReturnValue (SuperObj a p)"
  "\<not> isReturnValue (DateObj dd mm yy)"
  by (simp_all add: isReturnValue_def)

section \<open>Running the evaluator on concrete programs\<close>

lemma stmtEval_evaluator_Suc [simp]: "stmtEval (evaluator (Suc n)) = evalStatement (evaluator n)"
  by simp

lemma exprEval_evaluator_Suc [simp]: "exprEval (evaluator (Suc n)) = evalExpression (evaluator n)"
  by simp

lemma stmtEval_evaluator_0 [simp]: "stmtEval (evaluator 0) s env st = OutOfFuel"
  by simp

lemma exprEval_evaluator_0 [simp]: "exprEval (evaluator 0) e env st = OutOfFuel"
  by simp

declare evaluator.simps [simp del]

named_theorems run_simps

lemmas [run_simps] =
  emptyEnvironment_def NewEnvironment_def NewEnclosedEnvironment_def Get.simps isConstant.simps
  setStore_def setField_def Set_def Declare_def DeclareConstant_def fieldOwner_def SetInPlace.simps
  DefineType_def GetType.simps isTruthy_def unwrapReturnValue_def objectsEqual_def valueInRange_def
  GetIndex_def errorf3_def evalIntegerInfixExpression_def toFloat_def evalRealInfixExpression_def
  evalStringInfixExpression_def evalBooleanInfixExpression_def objectToString_def
  evalConcatenation_def infixDispatch_def evalMinusPrefixOperator_def evalNotOperator_def
  ancestors.simps lookupMethod_def nullFields_def initializeInstanceFields_def bindOwnMethods_def
  bindInheritedMethods_def createMethodEnv_def extendFunctionEnv_def evalStatements_def
  evalExpressions_def evalIdentifier_def evalPrefixExpression_def evalInfixExpression_def
  setElement_def evalArrayAssignment_def evalArrayAccess_def evalMemberAssignment_def
  evalMemberAccess_def applyBoundMethod_def applyFunction_def evalCallExpression_def
  newInstance_def evalNewExpression_def evalSuperExpression_def evalExpression_def newArray_def
  newRecord_def evalDeclareStatement_def evalConstantStatement_def evalAssignmentStatement_def
  evalIfStatement_def matchesCaseValue_def evalCaseStatement_def evalStep_def evalForStatement_def
  evalWhileStatement_def evalRepeatStatement_def evalProcedureStatement_def
  evalFunctionStatement_def evalCallStatement_def evalReturnStatement_def TrimRight_def
  evalInputStatement_def evalOutputStatement_def evalTypeStatement_def evalClassStatement_def
  evalStatement_def Eval_def New_def SetBuiltins_def SetInput_def fresh_def

section \<open>Arithmetic\<close>

lemma int64_quo_10_3: "int64_quo 10 3 = 3"
  by (simp add: int64_quo_def signed_divide_int_def)

lemma int64_rem_10_3: "int64_rem 10 3 = 1"
  by (simp add: int64_rem_def signed_modulo_int_def)

lemma infixDispatch_Integer_Integer:
  "infixDispatch st op (IntegerObj a) (IntegerObj b) =
     evalIntegerInfixExpression op (IntegerObj a) (IntegerObj b)"
  by (simp add: infixDispatch_def)

lemma infixDispatch_Real_left:
  "infixDispatch st op (RealObj x) right = evalRealInfixExpression op (RealObj x) right"
  by (simp add: infixDispatch_def)

lemma infixDispatch_Integer_Real:
  "infixDispatch st op (IntegerObj a) (RealObj y) =
     evalRealInfixExpression op (IntegerObj a) (RealObj y)"
  by (simp add: infixDispatch_def)

lemma evalInfixExpression_literals:
  assumes "exprEval ev l env st = Done (a, st)" and "exprEval ev r env st = Done (b, st)"
    and "\<not> isError a" and "\<not> isError b"
  shows "evalInfixExpression ev l op r env st = andThen (infixDispatch st op a b) (\<lambda>v. Done (v, st))"
  using assms by (simp add: evalInfixExpression_def)

lemma evalExpression_Infix_Integer:
  "exprEval (evaluator (Suc (Suc n))) (InfixExpression (IntegerLiteral a) op (IntegerLiteral b)) env st =
     andThen (evalIntegerInfixExpression op (IntegerObj a) (IntegerObj b)) (\<lambda>v. Done (v, st))"
  by (simp add: evalExpression_def evalInfixExpression_def infixDispatch_Integer_Integer)

lemma evalExpression_Infix_Real:
  "exprEval (evaluator (Suc (Suc n))) (InfixExpression (RealLiteral a) op (RealLiteral b)) env st =
     andThen (evalRealInfixExpression op (RealObj a) (RealObj b)) (\<lambda>v. Done (v, st))"
  by (simp add: evalExpression_def evalInfixExpression_def infixDispatch_Real_left)

lemma evalRealInfixExpression_promote_left:
  "op \<in> set realOperators \<Longrightarrow>
   evalRealInfixExpression op (IntegerObj a) right =
     evalRealInfixExpression op (RealObj (float64_of_int64 a)) right"
  by (auto simp: realOperators_def evalRealInfixExpression_def toFloat_def)

lemma evalRealInfixExpression_promote_right:
  "op \<in> set realOperators \<Longrightarrow>
   evalRealInfixExpression op left (IntegerObj b) =
     evalRealInfixExpression op left (RealObj (float64_of_int64 b))"
  by (auto simp: realOperators_def evalRealInfixExpression_def toFloat_def)

text \<open>Rounding: a number with a significand of at most 53 bits and an exponent in range is not changed.\<close>

lemma roundHalfEven_of_int: "roundHalfEven (of_int n) = n"
  by (simp add: roundHalfEven_def)

lemma exponent64_ge: "- 1022 \<le> exponent64 a"
  unfolding exponent64_def by linarith

lemma exponent64_le:
  assumes "a < power_int 2 (u + 1)" and "- 1022 \<le> u"
  shows "exponent64 a \<le> u"
proof -
  let ?P = "\<lambda>k::int. power_int (2::real) k \<le> a"
  have sub: "{k \<in> {-1021..1023}. ?P k} \<subseteq> {-1021..u}"
  proof
    fix k assume "k \<in> {k \<in> {-1021..1023}. ?P k}"
    then have k: "-1021 \<le> k" "power_int (2::real) k \<le> a" by auto
    with assms(1) have less: "power_int (2::real) k < power_int 2 (u + 1)" by simp
    have "k < u + 1"
    proof (rule ccontr)
      assume "\<not> k < u + 1"
      then have "power_int (2::real) (u + 1) \<le> power_int 2 k"
        by (intro power_int_increasing) simp_all
      with less show False by simp
    qed
    with k show "k \<in> {-1021..u}" by simp
  qed
  have "distinct (filter ?P [-1021..1023])"
    by (simp only: distinct_filter distinct_upto)
  then have "length (filter ?P [-1021..1023]) = card (set (filter ?P [-1021..1023]))"
    by (rule distinct_card [symmetric])
  also have "set (filter ?P [-1021..1023]) = {k \<in> {-1021..1023}. ?P k}"
    by (simp only: set_filter set_upto)
  also have "card \<dots> \<le> card {-1021..u}"
    by (rule card_mono [OF _ sub]) (rule finite_atLeastAtMost_int)
  also have "\<dots> = nat (u + 1022)"
    by simp
  finally show ?thesis
    using assms(2) unfolding exponent64_def by linarith
qed

lemma exponent64_lower:
  assumes "power_int 2 e \<le> a" and "e \<le> 1023"
  shows "e \<le> exponent64 a"
proof -
  let ?P = "\<lambda>k::int. power_int (2::real) k \<le> a"
  have sub: "{-1021..e} \<subseteq> {k \<in> {-1021..1023}. ?P k}"
  proof
    fix k assume "k \<in> {-1021..e}"
    then have k: "-1021 \<le> k" "k \<le> e" by auto
    then have "power_int (2::real) k \<le> power_int 2 e"
      by (intro power_int_increasing) simp_all
    with assms k show "k \<in> {k \<in> {-1021..1023}. ?P k}" by simp
  qed
  have "distinct (filter ?P [-1021..1023])"
    by (simp only: distinct_filter distinct_upto)
  then have "length (filter ?P [-1021..1023]) = card (set (filter ?P [-1021..1023]))"
    by (rule distinct_card [symmetric])
  also have "set (filter ?P [-1021..1023]) = {k \<in> {-1021..1023}. ?P k}"
    by (simp only: set_filter set_upto)
  finally have len: "length (filter ?P [-1021..1023]) = card {k \<in> {-1021..1023}. ?P k}" .
  have "card {-1021..e} \<le> card {k \<in> {-1021..1023}. ?P k}"
    by (rule card_mono [OF _ sub]) (rule finite_subset [of _ "{-1021..1023}"], blast, rule finite_atLeastAtMost_int)
  moreover have "card {-1021..e} = nat (e + 1022)"
    by simp
  ultimately show ?thesis
    unfolding exponent64_def len by linarith
qed

lemma exponent64_eq:
  assumes "power_int 2 e \<le> a" and "a < power_int 2 (e + 1)" and "- 1022 \<le> e" and "e \<le> 1023"
  shows "exponent64 a = e"
  using exponent64_le [OF assms(2,3)] exponent64_lower [OF assms(1,4)] by simp

lemma round64_exact:
  assumes x: "x = of_int m * power_int 2 k" and m: "m \<noteq> 0" "\<bar>m\<bar> < 2 ^ 53"
    and k: "- 1074 \<le> k" "k \<le> 971"
  shows "round64 x = Finite x"
proof -
  define a where "a = \<bar>x\<bar>"
  define e where "e = exponent64 a"
  define q :: real where "q = power_int 2 (e - 52)"
  have a: "a = of_int \<bar>m\<bar> * power_int 2 k"
    by (simp add: a_def x abs_mult)
  have x0: "x \<noteq> 0"
    using m by (simp add: x)
  have "of_int \<bar>m\<bar> < (2::real) ^ 53"
    using m(2) by (metis of_int_less_numeral_power_cancel_iff)
  then have "a < 2 ^ 53 * power_int 2 k"
    unfolding a by (intro mult_strict_right_mono) simp_all
  also have "\<dots> = power_int 2 (k + 52 + 1)"
    by (simp add: power_int_add)
  finally have lt: "a < power_int 2 (k + 52 + 1)" .
  from k have "- 1022 \<le> k + 52" by simp
  with lt have e_le: "e \<le> k + 52"
    unfolding e_def by (rule exponent64_le)
  define d where "d = nat (k + 52 - e)"
  have d: "int d = k + 52 - e"
    using e_le by (simp add: d_def)
  have q0: "q > 0" by (simp add: q_def)
  have "power_int (2::real) k = power_int 2 (int d) * q"
    unfolding d q_def by (simp add: power_int_add [symmetric])
  then have aq: "a = of_int (\<bar>m\<bar> * 2 ^ d) * q"
    unfolding a by (simp add: power_int_def)
  with q0 have "a / q = of_int (\<bar>m\<bar> * 2 ^ d)"
    by simp
  then have n: "roundHalfEven (a / q) = \<bar>m\<bar> * 2 ^ d"
    by (simp only: roundHalfEven_of_int)
  have n0: "\<bar>m\<bar> * 2 ^ d \<noteq> 0"
    using m by simp
  have y: "of_int (\<bar>m\<bar> * 2 ^ d) * q = a"
    using aq by simp
  have "power_int (2::real) (k + 52 + 1) \<le> power_int 2 1024"
    using k(2) by (intro power_int_increasing) simp_all
  with lt have small: "\<not> power_int 2 1024 \<le> a" by simp
  have "round64 x = Finite (if x < 0 then - a else a)"
    using x0 n0 small
    by (simp only: round64_def Let_def a_def [symmetric] e_def [symmetric] q_def [symmetric] n y if_False)
  then show ?thesis
    by (simp add: a_def)
qed

lemma round64_of_int:
  "\<bar>m\<bar> < 2 ^ 53 \<Longrightarrow> round64 (of_int m) = Finite (of_int m)"
proof (cases "m = 0")
  case True
  then show ?thesis by (simp add: round64_def)
next
  case False
  assume "\<bar>m\<bar> < 2 ^ 53"
  with False show ?thesis
    by (intro round64_exact [where m = m and k = 0]) simp_all
qed

lemma float64_of_int64_exact:
  "\<bar>sint a\<bar> < 2 ^ 53 \<Longrightarrow> float64_of_int64 a = Finite (real_of_int (sint a))"
  unfolding float64_of_int64_def by (rule round64_of_int)

lemma fdiv_exact:
  assumes "x \<noteq> 0" and "y \<noteq> 0" and "x / y = of_int m * power_int 2 k"
    and "\<bar>m\<bar> < 2 ^ 53" and "- 1074 \<le> k" and "k \<le> 971"
  shows "fdiv (Finite x) (Finite y) = Finite (x / y)"
proof -
  from assms(1-3) have "m \<noteq> 0" by auto
  with assms(3-6) have "round64 (x / y) = Finite (x / y)"
    by (intro round64_exact [where m = m and k = k])
  with assms(1,2) show ?thesis
    by (simp add: fdiv_def isFinite64_def fval_def)
qed

text \<open>
  Beyond 53 bits the conversion rounds: \<open>2 ^ 53 + 1\<close> lies half-way between two
  \<open>float64\<close> numbers and becomes \<open>2 ^ 53\<close>, the one with the even significand.
\<close>

lemma round64_rounds: "round64 9007199254740993 = Finite 9007199254740992"
proof -
  have e: "exponent64 9007199254740993 = 53"
    by (rule exponent64_eq) (simp_all add: power_int_def)
  have "roundHalfEven (9007199254740993 / 2) = 4503599627370496"
    by (simp add: roundHalfEven_def)
  then show ?thesis
    by (simp add: round64_def e power_int_def)
qed

lemma float64_of_int64_rounds:
  "float64_of_int64 9007199254740993 = Finite 9007199254740992"
  by (simp add: float64_of_int64_def round64_rounds)

lemma fdiv_5_2: "fdiv (float64_of_int64 5) (float64_of_int64 2) = Finite 2.5"
proof -
  have "fdiv (Finite 5) (Finite 2) = Finite (5 / 2)"
    by (rule fdiv_exact [where m = 5 and k = "- 1"]) (simp_all add: power_int_def)
  then show ?thesis
    by (simp add: float64_of_int64_exact)
qed

lemma fdiv_int_dvd:
  fixes i j :: int
  assumes "i \<noteq> 0" and "j \<noteq> 0" and "\<bar>i\<bar> < 2 ^ 53" and "j dvd i"
  shows "fdiv (Finite (of_int i)) (Finite (of_int j)) = Finite (of_int (i div j))"
proof -
  from assms(4) obtain c where c: "i = j * c" ..
  with assms(2) have d: "i div j = c" by simp
  from assms(2) have "1 \<le> \<bar>j\<bar>" by simp
  then have "\<bar>c\<bar> \<le> \<bar>j\<bar> * \<bar>c\<bar>"
    by (simp add: mult_le_cancel_right1)
  with assms(3) have small: "\<bar>c\<bar> < 2 ^ 53"
    by (simp add: c abs_mult)
  have q: "real_of_int i / real_of_int j = of_int c"
    using assms(2) by (simp add: c)
  have "fdiv (Finite (real_of_int i)) (Finite (real_of_int j)) = Finite (real_of_int i / real_of_int j)"
    by (rule fdiv_exact [where m = c and k = 0]) (use assms(1,2) q small in simp_all)
  then show ?thesis
    by (simp only: q d)
qed

lemma fdiv_dvd:
  assumes "a \<noteq> 0" and "b \<noteq> 0" and "\<bar>sint a\<bar> < 2 ^ 53" and "\<bar>sint b\<bar> < 2 ^ 53"
    and "sint b dvd sint a"
  shows "fdiv (float64_of_int64 a) (float64_of_int64 b) = Finite (of_int (sint a div sint b))"
proof -
  from assms(1,2) have nz: "sint a \<noteq> 0" "sint b \<noteq> 0"
    by (simp_all add: signed_eq_0_iff)
  show ?thesis
    by (simp only: float64_of_int64_exact [OF assms(3)] float64_of_int64_exact [OF assms(4)]
          fdiv_int_dvd [OF nz assms(3,5)])
qed

text \<open>
  C6. On two Integers \<open>/\<close> yields a Real, the \<open>float64\<close> quotient of the two converted
  operands, also when the division is exact (then, for operands of at most 53 bits, the
  Real is the exact quotient), and an Error when the divisor is 0. \<open>5 / 2\<close> is
  Real 2.5, \<open>4 / 2\<close> is Real 2, \<open>10 DIV 3\<close> is Integer 3, \<open>10 MOD 3\<close> is Integer 1;
  \<open>5 DIV 0\<close>, \<open>5 MOD 0\<close> and \<open>5.0 / 0.0\<close> are the Error "division by zero". When
  one operand is a Real and the other an Integer, the real operation is applied, and for
  every arithmetic and comparison operator its result is the one for the Integer
  converted to Real.
\<close>

theorem numeric_promotion:
  "(\<forall>a b. evalIntegerInfixExpression ''/'' (IntegerObj a) (IntegerObj b) =
            Done (if b = 0 then ErrorObj ''division by zero''
                  else RealObj (fdiv (float64_of_int64 a) (float64_of_int64 b))))
   \<and> (\<forall>a b. a \<noteq> 0 \<and> b \<noteq> 0 \<and> \<bar>sint a\<bar> < 2 ^ 53 \<and> \<bar>sint b\<bar> < 2 ^ 53 \<and> sint b dvd sint a \<longrightarrow>
         evalIntegerInfixExpression ''/'' (IntegerObj a) (IntegerObj b) =
           Done (RealObj (Finite (of_int (sint a div sint b)))))
   \<and> exprEval (evaluator (Suc (Suc n))) (InfixExpression (IntegerLiteral 5) ''/'' (IntegerLiteral 2)) env st
       = Done (RealObj (Finite 2.5), st)
   \<and> exprEval (evaluator (Suc (Suc n))) (InfixExpression (IntegerLiteral 4) ''/'' (IntegerLiteral 2)) env st
       = Done (RealObj (Finite 2), st)
   \<and> exprEval (evaluator (Suc (Suc n))) (InfixExpression (IntegerLiteral 10) ''DIV'' (IntegerLiteral 3)) env st
       = Done (IntegerObj 3, st)
   \<and> exprEval (evaluator (Suc (Suc n))) (InfixExpression (IntegerLiteral 10) ''MOD'' (IntegerLiteral 3)) env st
       = Done (IntegerObj 1, st)
   \<and> exprEval (evaluator (Suc (Suc n))) (InfixExpression (IntegerLiteral 5) ''DIV'' (IntegerLiteral 0)) env st
       = Done (ErrorObj ''division by zero'', st)
   \<and> exprEval (evaluator (Suc (Suc n))) (InfixExpression (IntegerLiteral 5) ''MOD'' (IntegerLiteral 0)) env st
       = Done (ErrorObj ''division by zero'', st)
   \<and> exprEval (evaluator (Suc (Suc n)))
        (InfixExpression (RealLiteral (Finite 5)) ''/'' (RealLiteral (Finite 0))) env st
       = Done (ErrorObj ''division by zero'', st)
   \<and> (\<forall>op \<in> set realOperators. \<forall>a b x y.
         infixDispatch st op (IntegerObj a) (RealObj y) =
           evalRealInfixExpression op (RealObj (float64_of_int64 a)) (RealObj y)
       \<and> infixDispatch st op (RealObj x) (IntegerObj b) =
           evalRealInfixExpression op (RealObj x) (RealObj (float64_of_int64 b)))"
proof -
  have division: "\<forall>a b. evalIntegerInfixExpression ''/'' (IntegerObj a) (IntegerObj b) =
            Done (if b = 0 then ErrorObj ''division by zero''
                  else RealObj (fdiv (float64_of_int64 a) (float64_of_int64 b)))"
    by (simp add: evalIntegerInfixExpression_def)
  have exact: "\<forall>a b. a \<noteq> 0 \<and> b \<noteq> 0 \<and> \<bar>sint a\<bar> < 2 ^ 53 \<and> \<bar>sint b\<bar> < 2 ^ 53 \<and> sint b dvd sint a \<longrightarrow>
         evalIntegerInfixExpression ''/'' (IntegerObj a) (IntegerObj b) =
           Done (RealObj (Finite (of_int (sint a div sint b))))"
    by (simp add: evalIntegerInfixExpression_def fdiv_dvd)
  have promotion: "\<forall>op \<in> set realOperators. \<forall>a b x y.
         infixDispatch st op (IntegerObj a) (RealObj y) =
           evalRealInfixExpression op (RealObj (float64_of_int64 a)) (RealObj y)
       \<and> infixDispatch st op (RealObj x) (IntegerObj b) =
           evalRealInfixExpression op (RealObj x) (RealObj (float64_of_int64 b))"
    by (simp add: infixDispatch_Integer_Real infixDispatch_Real_left
        evalRealInfixExpression_promote_left evalRealInfixExpression_promote_right)
  have "fdiv (float64_of_int64 4) (float64_of_int64 2) = Finite (of_int (sint (4::int64) div sint (2::int64)))"
    by (rule fdiv_dvd) simp_all
  then have fdiv_4_2: "fdiv (float64_of_int64 4) (float64_of_int64 2) = Finite 2"
    by simp
  have examples_int:
    "evalIntegerInfixExpression ''/'' (IntegerObj 5) (IntegerObj 2) = Done (RealObj (Finite 2.5))"
    "evalIntegerInfixExpression ''/'' (IntegerObj 4) (IntegerObj 2) = Done (RealObj (Finite 2))"
    "evalIntegerInfixExpression ''DIV'' (IntegerObj 10) (IntegerObj 3) = Done (IntegerObj 3)"
    "evalIntegerInfixExpression ''MOD'' (IntegerObj 10) (IntegerObj 3) = Done (IntegerObj 1)"
    "evalIntegerInfixExpression ''DIV'' (IntegerObj 5) (IntegerObj 0) = Done (ErrorObj ''division by zero'')"
    "evalIntegerInfixExpression ''MOD'' (IntegerObj 5) (IntegerObj 0) = Done (ErrorObj ''division by zero'')"
    by (simp_all add: evalIntegerInfixExpression_def fdiv_5_2 fdiv_4_2 int64_quo_10_3 int64_rem_10_3)
  have example_real:
    "evalRealInfixExpression ''/'' (RealObj (Finite 5)) (RealObj (Finite 0))
       = Done (ErrorObj ''division by zero'')"
    by (simp add: evalRealInfixExpression_def toFloat_def feq_def isFinite64_def fval_def)
  have examples:
    "exprEval (evaluator (Suc (Suc n))) (InfixExpression (IntegerLiteral 5) ''/'' (IntegerLiteral 2)) env st
       = Done (RealObj (Finite 2.5), st)"
    "exprEval (evaluator (Suc (Suc n))) (InfixExpression (IntegerLiteral 4) ''/'' (IntegerLiteral 2)) env st
       = Done (RealObj (Finite 2), st)"
    "exprEval (evaluator (Suc (Suc n))) (InfixExpression (IntegerLiteral 10) ''DIV'' (IntegerLiteral 3)) env st
       = Done (IntegerObj 3, st)"
    "exprEval (evaluator (Suc (Suc n))) (InfixExpression (IntegerLiteral 10) ''MOD'' (IntegerLiteral 3)) env st
       = Done (IntegerObj 1, st)"
    "exprEval (evaluator (Suc (Suc n))) (InfixExpression (IntegerLiteral 5) ''DIV'' (IntegerLiteral 0)) env st
       = Done (ErrorObj ''division by zero'', st)"
    "exprEval (evaluator (Suc (Suc n))) (InfixExpression (IntegerLiteral 5) ''MOD'' (IntegerLiteral 0)) env st
       = Done (ErrorObj ''division by zero'', st)"
    "exprEval (evaluator (Suc (Suc n)))
        (InfixExpression (RealLiteral (Finite 5)) ''/'' (RealLiteral (Finite 0))) env st
       = Done (ErrorObj ''division by zero'', st)"
    by (simp_all only: evalExpression_Infix_Integer evalExpression_Infix_Real examples_int example_real
        andThen_Done)
  show ?thesis
    by (intro conjI) (rule division exact examples promotion)+
qed

theorem numeric_promotion_witness:
  "''+'' \<in> set realOperators
   \<and> infixDispatch fresh ''+'' (IntegerObj 5) (RealObj (Finite 3.5)) = Done (RealObj (Finite 8.5))
   \<and> infixDispatch fresh ''*'' (RealObj (Finite 3.5)) (IntegerObj 2) = Done (RealObj (Finite 7))
   \<and> evalIntegerInfixExpression ''/'' (IntegerObj 6) (IntegerObj 3) = Done (RealObj (Finite 2))
   \<and> evalIntegerInfixExpression ''/'' (IntegerObj 9007199254740993) (IntegerObj 1)
       = Done (RealObj (Finite 9007199254740992))"
proof -
  have plus: "''+'' \<in> set realOperators" and times: "''*'' \<in> set realOperators"
    by (simp_all add: realOperators_def)
  note np = numeric_promotion [of 0 0 fresh]
  note division = np [THEN conjunct1, rule_format]
  note exact = np [THEN conjunct2, THEN conjunct1, rule_format]
  from np have promotion: "\<forall>op \<in> set realOperators. \<forall>a b x y.
         infixDispatch fresh op (IntegerObj a) (RealObj y) =
           evalRealInfixExpression op (RealObj (float64_of_int64 a)) (RealObj y)
       \<and> infixDispatch fresh op (RealObj x) (IntegerObj b) =
           evalRealInfixExpression op (RealObj x) (RealObj (float64_of_int64 b))"
    by (elim conjE)
  have five: "float64_of_int64 5 = Finite 5" and two: "float64_of_int64 2 = Finite 2"
    and one: "float64_of_int64 1 = Finite 1"
    by (simp_all add: float64_of_int64_exact)
  have sum: "round64 (17 / 2) = Finite (17 / 2)"
    by (rule round64_exact [where m = 17 and k = "- 1"]) (simp_all add: power_int_def)
  have prod: "round64 7 = Finite 7"
    using round64_of_int [of 7] by simp
  from promotion plus have
    "infixDispatch fresh ''+'' (IntegerObj 5) (RealObj (Finite 3.5)) =
       evalRealInfixExpression ''+'' (RealObj (float64_of_int64 5)) (RealObj (Finite 3.5))"
    by blast
  then have c1: "infixDispatch fresh ''+'' (IntegerObj 5) (RealObj (Finite 3.5)) = Done (RealObj (Finite 8.5))"
    by (simp add: evalRealInfixExpression_def toFloat_def five fadd_def fval_def sum)
  from promotion times have
    "infixDispatch fresh ''*'' (RealObj (Finite 3.5)) (IntegerObj 2) =
       evalRealInfixExpression ''*'' (RealObj (Finite 3.5)) (RealObj (float64_of_int64 2))"
    by blast
  then have c2: "infixDispatch fresh ''*'' (RealObj (Finite 3.5)) (IntegerObj 2) = Done (RealObj (Finite 7))"
    by (simp add: evalRealInfixExpression_def toFloat_def two fmul_def fval_def isFinite64_def prod)
  have "(6::int64) \<noteq> 0 \<and> (3::int64) \<noteq> 0 \<and> \<bar>sint (6::int64)\<bar> < 2 ^ 53 \<and> \<bar>sint (3::int64)\<bar> < 2 ^ 53
          \<and> sint (3::int64) dvd sint (6::int64)"
    by simp
  from exact [OF this]
  have c3: "evalIntegerInfixExpression ''/'' (IntegerObj 6) (IntegerObj 3) = Done (RealObj (Finite 2))"
    by simp
  have "fdiv (Finite 9007199254740992) (Finite 1) = Finite (9007199254740992 / 1)"
    by (rule fdiv_exact [where m = 1 and k = 53]) (simp_all add: power_int_def)
  with division [of 9007199254740993 1]
  have c4: "evalIntegerInfixExpression ''/'' (IntegerObj 9007199254740993) (IntegerObj 1)
       = Done (RealObj (Finite 9007199254740992))"
    by (simp add: float64_of_int64_rounds one)
  from plus c1 c2 c3 c4 show ?thesis by simp
qed


section \<open>Statement lists and control signals\<close>

lemma evalStatementsFrom_append:
  "evalStatementsFrom ev r pre env st = Done (u, st1) \<Longrightarrow> \<not> (isReturnValue u \<or> isError u) \<Longrightarrow>
   evalStatementsFrom ev r (pre @ rest) env st = evalStatementsFrom ev u rest env st1"
proof (induction pre arbitrary: r st)
  case Nil
  then show ?case by simp
next
  case (Cons s pre)
  from Cons.prems(1) obtain r1 st' where
    head: "stmtEval ev s env st = Done (r1, st')"
    by (cases "stmtEval ev s env st") auto
  show ?case
  proof (cases "isReturnValue r1 \<or> isError r1")
    case True
    with head Cons.prems show ?thesis by simp
  next
    case False
    with head Cons.prems(1) have "evalStatementsFrom ev r1 pre env st' = Done (u, st1)"
      by simp
    from Cons.IH [OF this Cons.prems(2)] head False show ?thesis by simp
  qed
qed

lemma evalStatementsFrom_signal_stops:
  "evalStatementsFrom ev r xs env st = Done (v, st') \<Longrightarrow> isReturnValue v \<or> isError v \<Longrightarrow>
   \<not> (isReturnValue r \<or> isError r) \<Longrightarrow>
   evalStatementsFrom ev r (xs @ ys) env st = Done (v, st')"
proof (induction xs arbitrary: r st)
  case Nil
  then show ?case by auto
next
  case (Cons s xs)
  from Cons.prems(1) obtain r1 st1 where
    head: "stmtEval ev s env st = Done (r1, st1)"
    by (cases "stmtEval ev s env st") auto
  show ?case
  proof (cases "isReturnValue r1 \<or> isError r1")
    case True
    with head Cons.prems(1) show ?thesis by simp
  next
    case False
    with head Cons.prems(1) have "evalStatementsFrom ev r1 xs env st1 = Done (v, st')"
      by simp
    from Cons.IH [OF this Cons.prems(2) False] head False show ?thesis by simp
  qed
qed

lemma evalStatements_signal_stops:
  "evalStatements ev xs env st = Done (v, st') \<Longrightarrow> isReturnValue v \<or> isError v \<Longrightarrow>
   evalStatements ev (xs @ ys) env st = Done (v, st')"
  unfolding evalStatements_def by (rule evalStatementsFrom_signal_stops) simp_all

lemma evalStatements_kth_signal:
  assumes "evalStatements ev pre env st = Done (u, st1)" and "\<not> (isReturnValue u \<or> isError u)"
    and "stmtEval ev s env st1 = Done (v, st2)" and "isReturnValue v \<or> isError v"
  shows "evalStatements ev (pre @ s # post) env st = Done (v, st2)"
  using assms(3,4) evalStatementsFrom_append [OF assms(1) [unfolded evalStatements_def] assms(2)]
  by (simp add: evalStatements_def)

lemma evalStatements_last_value:
  assumes "evalStatements ev pre env st = Done (u, st1)" and "\<not> (isReturnValue u \<or> isError u)"
    and "stmtEval ev s env st1 = Done (v, st2)"
  shows "evalStatements ev (pre @ [s]) env st = Done (v, st2)"
  using assms(3) evalStatementsFrom_append [OF assms(1) [unfolded evalStatements_def] assms(2)]
  by (simp add: evalStatements_def)

lemma evalIfStatement_branch:
  assumes "exprEval ev c env st = Done (cv, st1)" and "\<not> isError cv"
  shows "evalIfStatement ev c t e env st =
           (if isTruthy cv then evalStatements ev t env st1
            else case e of Some alt \<Rightarrow> evalStatements ev alt env st1 | None \<Rightarrow> Done (NullObj, st1))"
  using assms by (simp add: evalIfStatement_def)

lemma caseLoop_match:
  "matchesAny ev val vs env st = Done (True, st1) \<Longrightarrow>
   caseLoop ev val ((vs, body) # rest) ow env st = evalStatements ev body env st1"
  by simp

lemma whileLoop_signal:
  assumes "exprEval ev c env st = Done (cv, st1)" and "\<not> isError cv" and "isTruthy cv"
    and "evalStatements ev body env st1 = Done (v, st2)" and "isReturnValue v \<or> isError v"
  shows "whileLoop ev (Suc k) r c body env st = Done (v, st2)"
  using assms by auto

lemma repeatLoop_signal:
  assumes "evalStatements ev body env st = Done (v, st1)" and "isReturnValue v \<or> isError v"
  shows "repeatLoop ev (Suc k) body c env st = Done (v, st1)"
  using assms by auto

lemma forLoop_signal:
  assumes "\<not> (0 <s step \<and> endInt <s current)" and "\<not> (step <s 0 \<and> current <s endInt)"
    and "evalStatements ev body loopEnv (snd (SetInPlace loopEnv var (IntegerObj current) st)) = Done (v, st1)"
    and "isReturnValue v \<or> isError v"
  shows "forLoop ev (Suc k) r current endInt step var body loopEnv st = Done (v, st1)"
  using assms by auto

lemma EvalFrom_return:
  "stmtEval ev s (global_env st) st = Done (ReturnValueObj v, st1) \<Longrightarrow>
   EvalFrom ev r (s # post) st = Done (v, st1)"
  by simp

lemma EvalFrom_error:
  "stmtEval ev s (global_env st) st = Done (ErrorObj m, st1) \<Longrightarrow>
   EvalFrom ev r (s # post) st = Done (ErrorObj m, st1)"
  by simp

lemma EvalFrom_continue:
  "stmtEval ev s (global_env st) st = Done (u, st1) \<Longrightarrow> \<not> (isReturnValue u \<or> isError u) \<Longrightarrow>
   EvalFrom ev r (s # post) st = EvalFrom ev u post st1"
  by (cases u) simp_all


text \<open>The statements themselves, as \<open>evalStatement\<close> dispatches them.\<close>

lemma evalStatement_If:
  assumes "exprEval ev c env st = Done (cv, st1)" and "\<not> isError cv"
  shows "evalStatement ev (IfStatement c t e) env st =
           (if isTruthy cv then evalStatements ev t env st1
            else case e of Some alt \<Rightarrow> evalStatements ev alt env st1 | None \<Rightarrow> Done (NullObj, st1))"
  using assms by (simp add: evalStatement_def evalIfStatement_def)

lemma evalStatement_Case:
  assumes "exprEval ev subject env st = Done (val, st1)" and "\<not> isError val"
  shows "evalStatement ev (CaseStatement subject cases ow) env st = caseLoop ev val cases ow env st1"
  using assms by (simp add: evalStatement_def evalCaseStatement_def)

lemma caseLoop_skip:
  "matchesAny ev val vs env st = Done (False, st1) \<Longrightarrow>
   caseLoop ev val ((vs, body) # rest) ow env st = caseLoop ev val rest ow env st1"
  by simp

lemma caseLoop_otherwise:
  "caseLoop ev val [] (Some body) env st = evalStatements ev body env st"
  "caseLoop ev val [] None env st = Done (NullObj, st)"
  by simp_all

lemma evalStatement_While:
  "evalStatement ev (WhileStatement c body) env st = whileLoop ev (fuel ev) NilObj c body env st"
  by (simp add: evalStatement_def evalWhileStatement_def)

lemma whileLoop_continue:
  assumes "exprEval ev c env st = Done (cv, st1)" and "\<not> isError cv" and "isTruthy cv"
    and "evalStatements ev body env st1 = Done (v, st2)" and "\<not> (isReturnValue v \<or> isError v)"
  shows "whileLoop ev (Suc k) r c body env st = whileLoop ev k v c body env st2"
  using assms by auto

lemma whileLoop_exit:
  assumes "exprEval ev c env st = Done (cv, st1)" and "\<not> isError cv" and "\<not> isTruthy cv"
  shows "whileLoop ev (Suc k) r c body env st = Done (r, st1)"
  using assms by auto

lemma evalStatement_Repeat:
  "evalStatement ev (RepeatStatement body c) env st = repeatLoop ev (fuel ev) body c env st"
  by (simp add: evalStatement_def evalRepeatStatement_def)

lemma repeatLoop_continue:
  assumes "evalStatements ev body env st = Done (v, st1)" and "\<not> (isReturnValue v \<or> isError v)"
    and "exprEval ev c env st1 = Done (cv, st2)" and "\<not> isError cv" and "\<not> isTruthy cv"
  shows "repeatLoop ev (Suc k) body c env st = repeatLoop ev k body c env st2"
  using assms by auto

lemma evalStatement_For:
  assumes "exprEval ev startE env st = Done (IntegerObj a, st1)"
    and "exprEval ev endE env st1 = Done (IntegerObj b, st2)"
    and "evalStep ev stepE env st2 = Done (Inr step, st3)"
  shows "evalStatement ev (ForStatement var startE endE stepE body) env st =
           forLoop ev (fuel ev) NilObj a b step var body (fst (NewEnclosedEnvironment env st3))
             (snd (Declare (fst (NewEnclosedEnvironment env st3)) var (IntegerObj a)
                     (snd (NewEnclosedEnvironment env st3))))"
  using assms by (simp add: evalStatement_def evalForStatement_def split_beta)

lemma forLoop_continue:
  assumes "\<not> (0 <s step \<and> endInt <s current)" and "\<not> (step <s 0 \<and> current <s endInt)"
    and "evalStatements ev body loopEnv (snd (SetInPlace loopEnv var (IntegerObj current) st)) = Done (v, st1)"
    and "\<not> (isReturnValue v \<or> isError v)"
  shows "forLoop ev (Suc k) r current endInt step var body loopEnv st =
           forLoop ev k v (current + step) endInt step var body loopEnv st1"
  using assms by auto

lemma evalStatements_nested_signal:
  assumes "evalStatements (evaluator (Suc n)) pre env st = Done (u, st1)"
    and "\<not> (isReturnValue u \<or> isError u)"
    and "evalStatement (evaluator n) s env st1 = Done (v, st2)" and "isReturnValue v \<or> isError v"
  shows "evalStatements (evaluator (Suc n)) (pre @ s # post) env st = Done (v, st2)"
  using assms(1,2) by (rule evalStatements_kth_signal) (simp_all add: assms(3,4))

lemma evalStatement_return5 [simp]:
  "evalStatement (evaluator (Suc n)) return5 env st = Done (ReturnValueObj (IntegerObj 5), st)"
  by (simp add: return5_def evalStatement_def evalReturnStatement_def)

lemma evalStatement_seven [simp]:
  "evalStatement (evaluator (Suc n)) seven env st = Done (IntegerObj 7, st)"
  by (simp add: seven_def evalStatement_def)

lemma evalStatements_seven:
  "evalStatements (evaluator (Suc (Suc n))) [seven] env st = Done (IntegerObj 7, st)"
  by (simp add: evalStatements_def)

lemma evalStatements_return5:
  "evalStatements (evaluator (Suc (Suc n))) [return5] env st = Done (ReturnValueObj (IntegerObj 5), st)"
  by (simp add: evalStatements_def)

lemma evalStatements_seven_return5:
  "evalStatements (evaluator (Suc (Suc n))) [seven, return5] env st = Done (ReturnValueObj (IntegerObj 5), st)"
  by (simp add: evalStatements_def)

text \<open>
  C1 (as amended). A statement list run by \<open>evalStatements\<close> (the branches of IF, the
  bodies of CASE clauses, of loops, of functions and procedures) stops at the first
  statement that yields an Error or a ReturnSignal: that signal and the state reached
  there are the result of the list, whatever follows it. Without a signal the result is
  the value of the last statement (\<open>nil\<close> for the empty list). IF and CASE return the
  result of the list they run, and the three loops return at once a signal of their body,
  so the signal reaches the enclosing list. This holds of the statements as
  \<open>evalStatement\<close> runs them: an IF statement is the list of the branch taken; a CASE
  statement is the body of the first clause with a matching value, or of OTHERWISE when
  none matches; a WHILE, REPEAT or FOR statement is its loop, which goes on to the next
  iteration only when the body ends without a signal; and in a list run one level up, a
  statement that yields a signal ends the list with that signal. The program body is run
  by \<open>Eval\<close>: an Error ends it and is its result; a ReturnSignal ends it too, and the
  result is the value the signal carries.
\<close>

theorem control_signals:
  "(\<forall>xs ys v st'.
      evalStatements ev xs env st = Done (v, st') \<and> (isReturnValue v \<or> isError v) \<longrightarrow>
      evalStatements ev (xs @ ys) env st = Done (v, st'))
   \<and> (\<forall>pre s post u st1 v st2.
      evalStatements ev pre env st = Done (u, st1) \<and> \<not> (isReturnValue u \<or> isError u) \<and>
      stmtEval ev s env st1 = Done (v, st2) \<and> (isReturnValue v \<or> isError v) \<longrightarrow>
      evalStatements ev (pre @ s # post) env st = Done (v, st2))
   \<and> (\<forall>pre s u st1 v st2.
      evalStatements ev pre env st = Done (u, st1) \<and> \<not> (isReturnValue u \<or> isError u) \<and>
      stmtEval ev s env st1 = Done (v, st2) \<longrightarrow>
      evalStatements ev (pre @ [s]) env st = Done (v, st2))
   \<and> evalStatements ev [] env st = Done (NilObj, st)
   \<and> (\<forall>c cv st1 t e.
      exprEval ev c env st = Done (cv, st1) \<and> \<not> isError cv \<longrightarrow>
      evalIfStatement ev c t e env st =
        (if isTruthy cv then evalStatements ev t env st1
         else case e of Some alt \<Rightarrow> evalStatements ev alt env st1 | None \<Rightarrow> Done (NullObj, st1)))
   \<and> (\<forall>val vs st1 body rest ow.
      matchesAny ev val vs env st = Done (True, st1) \<longrightarrow>
      caseLoop ev val ((vs, body) # rest) ow env st = evalStatements ev body env st1)
   \<and> (\<forall>c cv st1 body v st2 k r.
      exprEval ev c env st = Done (cv, st1) \<and> \<not> isError cv \<and> isTruthy cv \<and>
      evalStatements ev body env st1 = Done (v, st2) \<and> (isReturnValue v \<or> isError v) \<longrightarrow>
      whileLoop ev (Suc k) r c body env st = Done (v, st2))
   \<and> (\<forall>body v st1 k c.
      evalStatements ev body env st = Done (v, st1) \<and> (isReturnValue v \<or> isError v) \<longrightarrow>
      repeatLoop ev (Suc k) body c env st = Done (v, st1))
   \<and> (\<forall>step endInt current body var v st1 k r.
      \<not> (0 <s step \<and> endInt <s current) \<and> \<not> (step <s 0 \<and> current <s endInt) \<and>
      evalStatements ev body env (snd (SetInPlace env var (IntegerObj current) st)) = Done (v, st1) \<and>
      (isReturnValue v \<or> isError v) \<longrightarrow>
      forLoop ev (Suc k) r current endInt step var body env st = Done (v, st1))
   \<and> (\<forall>s v st1 post.
      stmtEval (evaluator n) s (global_env st) st = Done (ReturnValueObj v, st1) \<longrightarrow>
      Eval n (s # post) st = Done (v, st1))
   \<and> (\<forall>s m st1 post.
      stmtEval (evaluator n) s (global_env st) st = Done (ErrorObj m, st1) \<longrightarrow>
      Eval n (s # post) st = Done (ErrorObj m, st1))
   \<and> (\<forall>s u st1 post.
      stmtEval (evaluator n) s (global_env st) st = Done (u, st1) \<and> \<not> (isReturnValue u \<or> isError u) \<longrightarrow>
      Eval n (s # post) st = EvalFrom (evaluator n) u post st1)
   \<and> (\<forall>s. stmtEval (evaluator (Suc n)) s env st = evalStatement (evaluator n) s env st)
   \<and> (\<forall>c cv st1 t e.
      exprEval ev c env st = Done (cv, st1) \<and> \<not> isError cv \<longrightarrow>
      evalStatement ev (IfStatement c t e) env st =
        (if isTruthy cv then evalStatements ev t env st1
         else case e of Some alt \<Rightarrow> evalStatements ev alt env st1 | None \<Rightarrow> Done (NullObj, st1)))
   \<and> (\<forall>subject val st1 cases ow.
      exprEval ev subject env st = Done (val, st1) \<and> \<not> isError val \<longrightarrow>
      evalStatement ev (CaseStatement subject cases ow) env st = caseLoop ev val cases ow env st1)
   \<and> (\<forall>val vs st1 body rest ow.
      matchesAny ev val vs env st = Done (False, st1) \<longrightarrow>
      caseLoop ev val ((vs, body) # rest) ow env st = caseLoop ev val rest ow env st1)
   \<and> (\<forall>val body. caseLoop ev val [] (Some body) env st = evalStatements ev body env st)
   \<and> (\<forall>val. caseLoop ev val [] None env st = Done (NullObj, st))
   \<and> (\<forall>c body.
      evalStatement ev (WhileStatement c body) env st = whileLoop ev (fuel ev) NilObj c body env st)
   \<and> (\<forall>c cv st1 body v st2 k r.
      exprEval ev c env st = Done (cv, st1) \<and> \<not> isError cv \<and> isTruthy cv \<and>
      evalStatements ev body env st1 = Done (v, st2) \<and> \<not> (isReturnValue v \<or> isError v) \<longrightarrow>
      whileLoop ev (Suc k) r c body env st = whileLoop ev k v c body env st2)
   \<and> (\<forall>c cv st1 body k r.
      exprEval ev c env st = Done (cv, st1) \<and> \<not> isError cv \<and> \<not> isTruthy cv \<longrightarrow>
      whileLoop ev (Suc k) r c body env st = Done (r, st1))
   \<and> (\<forall>c body.
      evalStatement ev (RepeatStatement body c) env st = repeatLoop ev (fuel ev) body c env st)
   \<and> (\<forall>body v st1 c cv st2 k.
      evalStatements ev body env st = Done (v, st1) \<and> \<not> (isReturnValue v \<or> isError v) \<and>
      exprEval ev c env st1 = Done (cv, st2) \<and> \<not> isError cv \<and> \<not> isTruthy cv \<longrightarrow>
      repeatLoop ev (Suc k) body c env st = repeatLoop ev k body c env st2)
   \<and> (\<forall>var startE endE stepE body a b step st1 st2 st3.
      exprEval ev startE env st = Done (IntegerObj a, st1) \<and>
      exprEval ev endE env st1 = Done (IntegerObj b, st2) \<and>
      evalStep ev stepE env st2 = Done (Inr step, st3) \<longrightarrow>
      evalStatement ev (ForStatement var startE endE stepE body) env st =
        forLoop ev (fuel ev) NilObj a b step var body (fst (NewEnclosedEnvironment env st3))
          (snd (Declare (fst (NewEnclosedEnvironment env st3)) var (IntegerObj a)
                  (snd (NewEnclosedEnvironment env st3)))))
   \<and> (\<forall>step endInt current body var v st1 k r.
      \<not> (0 <s step \<and> endInt <s current) \<and> \<not> (step <s 0 \<and> current <s endInt) \<and>
      evalStatements ev body env (snd (SetInPlace env var (IntegerObj current) st)) = Done (v, st1) \<and>
      \<not> (isReturnValue v \<or> isError v) \<longrightarrow>
      forLoop ev (Suc k) r current endInt step var body env st =
        forLoop ev k v (current + step) endInt step var body env st1)
   \<and> (\<forall>pre s post u st1 v st2.
      evalStatements (evaluator (Suc n)) pre env st = Done (u, st1) \<and> \<not> (isReturnValue u \<or> isError u) \<and>
      evalStatement (evaluator n) s env st1 = Done (v, st2) \<and> (isReturnValue v \<or> isError v) \<longrightarrow>
      evalStatements (evaluator (Suc n)) (pre @ s # post) env st = Done (v, st2))"
proof (intro conjI allI impI; (elim conjE)?)
  show "evalStatements ev [] env st = Done (NilObj, st)"
    by (simp add: evalStatements_def)
next
  fix var startE endE stepE body a b step st1 st2 st3
  assume "exprEval ev startE env st = Done (IntegerObj a, st1)"
    "exprEval ev endE env st1 = Done (IntegerObj b, st2)"
    "evalStep ev stepE env st2 = Done (Inr step, st3)"
  then show "evalStatement ev (ForStatement var startE endE stepE body) env st =
        forLoop ev (fuel ev) NilObj a b step var body (fst (NewEnclosedEnvironment env st3))
          (snd (Declare (fst (NewEnclosedEnvironment env st3)) var (IntegerObj a)
                  (snd (NewEnclosedEnvironment env st3))))"
    by (rule evalStatement_For)
next
  fix pre s post u st1 v st2
  assume "evalStatements (evaluator (Suc n)) pre env st = Done (u, st1)"
    "\<not> (isReturnValue u \<or> isError u)"
    "evalStatement (evaluator n) s env st1 = Done (v, st2)" "isReturnValue v \<or> isError v"
  then show "evalStatements (evaluator (Suc n)) (pre @ s # post) env st = Done (v, st2)"
    by (rule evalStatements_nested_signal)
qed (simp_all only: evalStatements_signal_stops evalStatements_kth_signal evalStatements_last_value
      evalIfStatement_branch caseLoop_match whileLoop_signal repeatLoop_signal forLoop_signal
      Eval_def EvalFrom_return EvalFrom_error EvalFrom_continue not_False_eq_True
      stmtEval_evaluator_Suc evalStatement_If evalStatement_Case caseLoop_skip caseLoop_otherwise
      evalStatement_While whileLoop_continue whileLoop_exit evalStatement_Repeat repeatLoop_continue
      forLoop_continue)

theorem control_signals_counterexample:
  "stmtEval (evaluator (Suc (Suc 0))) return5 (global_env fresh) fresh
     = Done (ReturnValueObj (IntegerObj 5), fresh)
   \<and> Eval (Suc (Suc 0)) [return5, seven] fresh = Done (IntegerObj 5, fresh)
   \<and> Eval (Suc (Suc 0)) [return5, seven] fresh \<noteq> Done (ReturnValueObj (IntegerObj 5), fresh)"
  by (simp add: Eval_def)

theorem control_signals_witness:
  "evalStatements (evaluator (Suc (Suc 0))) [seven, return5] 0 fresh = Done (ReturnValueObj (IntegerObj 5), fresh)
   \<and> evalStatements (evaluator (Suc (Suc 0))) ([seven, return5] @ [seven]) 0 fresh
       = Done (ReturnValueObj (IntegerObj 5), fresh)
   \<and> evalStatements (evaluator (Suc (Suc 0))) [seven] 0 fresh = Done (IntegerObj 7, fresh)
   \<and> stmtEval (evaluator (Suc (Suc 0))) return5 0 fresh = Done (ReturnValueObj (IntegerObj 5), fresh)
   \<and> evalStatements (evaluator (Suc (Suc 0))) ([seven] @ return5 # [seven, seven]) 0 fresh
       = Done (ReturnValueObj (IntegerObj 5), fresh)
   \<and> evalStatements (evaluator (Suc (Suc 0))) ([seven] @ [seven]) 0 fresh = Done (IntegerObj 7, fresh)
   \<and> evalIfStatement (evaluator (Suc (Suc 0))) (BooleanLiteral True) [return5] None 0 fresh
       = Done (ReturnValueObj (IntegerObj 5), fresh)
   \<and> caseLoop (evaluator (Suc (Suc 0))) (IntegerObj 1) [([IntegerLiteral 1], [return5])] None 0 fresh
       = Done (ReturnValueObj (IntegerObj 5), fresh)
   \<and> whileLoop (evaluator (Suc (Suc 0))) (Suc 0) NilObj (BooleanLiteral True) [return5] 0 fresh
       = Done (ReturnValueObj (IntegerObj 5), fresh)
   \<and> repeatLoop (evaluator (Suc (Suc 0))) (Suc 0) [return5] (BooleanLiteral True) 0 fresh
       = Done (ReturnValueObj (IntegerObj 5), fresh)
   \<and> forLoop (evaluator (Suc (Suc 0))) (Suc 0) NilObj 1 3 1 ''i'' [return5] 0 fresh
       = Done (ReturnValueObj (IntegerObj 5), snd (SetInPlace 0 ''i'' (IntegerObj 1) fresh))
   \<and> Eval (Suc (Suc 0)) [return5, seven] fresh = Done (IntegerObj 5, fresh)
   \<and> Eval (Suc (Suc 0)) [seven, return5] fresh = EvalFrom (evaluator (Suc (Suc 0))) (IntegerObj 7) [return5] fresh
   \<and> evalStatement (evaluator (Suc (Suc (Suc 0))))
        (IfStatement (BooleanLiteral False) [seven] (Some [return5, seven])) 0 fresh
       = Done (ReturnValueObj (IntegerObj 5), fresh)
   \<and> evalStatement (evaluator (Suc (Suc (Suc 0))))
        (CaseStatement (IntegerLiteral 2)
           [([IntegerLiteral 1], [seven]), ([IntegerLiteral 2], [return5, seven])] (Some [seven])) 0 fresh
       = Done (ReturnValueObj (IntegerObj 5), fresh)
   \<and> evalStatement (evaluator (Suc (Suc (Suc 0))))
        (CaseStatement (IntegerLiteral 3) [([IntegerLiteral 1], [seven])] (Some [return5, seven])) 0 fresh
       = Done (ReturnValueObj (IntegerObj 5), fresh)
   \<and> evalStatement (evaluator (Suc (Suc (Suc 0))))
        (CaseStatement (IntegerLiteral 3) [([IntegerLiteral 1], [return5])] None) 0 fresh
       = Done (NullObj, fresh)
   \<and> evalStatement (evaluator (Suc (Suc (Suc 0))))
        (WhileStatement (BooleanLiteral True) [return5, seven]) 0 fresh
       = Done (ReturnValueObj (IntegerObj 5), fresh)
   \<and> whileLoop (evaluator (Suc (Suc (Suc 0)))) (Suc (Suc 0)) NilObj (BooleanLiteral True) [seven] 0 fresh
       = whileLoop (evaluator (Suc (Suc (Suc 0)))) (Suc 0) (IntegerObj 7) (BooleanLiteral True) [seven] 0 fresh
   \<and> whileLoop (evaluator (Suc (Suc (Suc 0)))) (Suc 0) (IntegerObj 7) (BooleanLiteral False) [seven] 0 fresh
       = Done (IntegerObj 7, fresh)
   \<and> evalStatement (evaluator (Suc (Suc (Suc 0))))
        (RepeatStatement [return5, seven] (BooleanLiteral True)) 0 fresh
       = Done (ReturnValueObj (IntegerObj 5), fresh)
   \<and> repeatLoop (evaluator (Suc (Suc (Suc 0)))) (Suc (Suc 0)) [seven] (BooleanLiteral False) 0 fresh
       = repeatLoop (evaluator (Suc (Suc (Suc 0)))) (Suc 0) [seven] (BooleanLiteral False) 0 fresh
   \<and> evalStatement (evaluator (Suc (Suc (Suc 0))))
        (ForStatement ''i'' (IntegerLiteral 1) (IntegerLiteral 3) None [return5, seven]) 0 fresh
       = Done (ReturnValueObj (IntegerObj 5),
               snd (SetInPlace (fst (NewEnclosedEnvironment 0 fresh)) ''i'' (IntegerObj 1)
                      (snd (Declare (fst (NewEnclosedEnvironment 0 fresh)) ''i'' (IntegerObj 1)
                              (snd (NewEnclosedEnvironment 0 fresh))))))
   \<and> forLoop (evaluator (Suc (Suc (Suc 0)))) (Suc (Suc 0)) NilObj 1 3 1 ''i'' [seven] 0 fresh
       = forLoop (evaluator (Suc (Suc (Suc 0)))) (Suc 0) (IntegerObj 7) (1 + 1) 3 1 ''i'' [seven] 0
           (snd (SetInPlace 0 ''i'' (IntegerObj 1) fresh))
   \<and> evalStatements (evaluator (Suc (Suc (Suc (Suc 0)))))
        ([seven] @ WhileStatement (BooleanLiteral True) [return5, seven] # [seven]) 0 fresh
       = Done (ReturnValueObj (IntegerObj 5), fresh)
   \<and> evalStatements (evaluator (Suc (Suc (Suc (Suc 0)))))
        ([seven] @ CaseStatement (IntegerLiteral 2)
           [([IntegerLiteral 1], [seven]), ([IntegerLiteral 2], [return5, seven])] (Some [seven]) # [seven])
        0 fresh
       = Done (ReturnValueObj (IntegerObj 5), fresh)"
proof -
  let ?ev = "evaluator (Suc (Suc 0))"
  let ?ev3 = "evaluator (Suc (Suc (Suc 0)))"
  let ?loopEnv = "fst (NewEnclosedEnvironment 0 fresh)"
  let ?st5 = "snd (Declare ?loopEnv ''i'' (IntegerObj 1) (snd (NewEnclosedEnvironment 0 fresh)))"
  let ?rv = "ReturnValueObj (IntegerObj 5)"
  note cs = control_signals [of ?ev 0 fresh "Suc (Suc 0)"]
  have sig: "isReturnValue ?rv \<or> isError ?rv"
    and nosig: "\<not> (isReturnValue (IntegerObj 7) \<or> isError (IntegerObj 7))"
    by simp_all
  have h1: "evalStatements ?ev [seven, return5] 0 fresh = Done (?rv, fresh)"
    by (rule evalStatements_seven_return5)
  have h2: "evalStatements ?ev [seven] 0 fresh = Done (IntegerObj 7, fresh)"
    by (rule evalStatements_seven)
  have h3: "stmtEval ?ev return5 0 fresh = Done (?rv, fresh)"
    by simp
  have h4: "stmtEval ?ev seven 0 fresh = Done (IntegerObj 7, fresh)"
    by simp
  have h5: "evalStatements ?ev [return5] 0 fresh = Done (?rv, fresh)"
    by (rule evalStatements_return5)
  have h6: "exprEval ?ev (BooleanLiteral True) 0 fresh = Done (BooleanObj True, fresh)"
    by simp
  have h7: "matchesAny ?ev (IntegerObj 1) [IntegerLiteral 1] 0 fresh = Done (True, fresh)"
    by (simp add: matchesCaseValue_def objectsEqual_def)
  have h8: "\<not> (0 <s (1::int64) \<and> (3::int64) <s 1)" "\<not> ((1::int64) <s 0 \<and> (1::int64) <s 3)"
    by (simp_all add: word_sless_alt)
  have h9: "evalStatements ?ev [return5] 0 (snd (SetInPlace 0 ''i'' (IntegerObj 1) fresh))
              = Done (?rv, snd (SetInPlace 0 ''i'' (IntegerObj 1) fresh))"
    by (rule evalStatements_return5)
  note r1 = cs [THEN conjunct2]
  note r2 = r1 [THEN conjunct2]
  note r3 = r2 [THEN conjunct2]
  note r4 = r3 [THEN conjunct2]
  note r5 = r4 [THEN conjunct2]
  note r6 = r5 [THEN conjunct2]
  note r7 = r6 [THEN conjunct2]
  note r8 = r7 [THEN conjunct2]
  note r9 = r8 [THEN conjunct2]
  note r10 = r9 [THEN conjunct2]
  note r11 = r10 [THEN conjunct2]
  note k1 = cs [THEN conjunct1, rule_format]
  note k2 = r1 [THEN conjunct1, rule_format]
  note k3 = r2 [THEN conjunct1, rule_format]
  note k5 = r4 [THEN conjunct1, rule_format]
  note k6 = r5 [THEN conjunct1, rule_format]
  note k7 = r6 [THEN conjunct1, rule_format]
  note k8 = r7 [THEN conjunct1, rule_format]
  note k9 = r8 [THEN conjunct1, rule_format]
  note k10 = r9 [THEN conjunct1, rule_format]
  note k12 = r11 [THEN conjunct1, rule_format]
  have t: "isTruthy (BooleanObj True)" by (simp add: isTruthy_def)
  have c1: "evalStatements ?ev ([seven, return5] @ [seven]) 0 fresh = Done (?rv, fresh)"
    by (rule k1) (intro conjI, rule h1, rule sig)
  have c2: "evalStatements ?ev ([seven] @ return5 # [seven, seven]) 0 fresh = Done (?rv, fresh)"
    by (rule k2) (intro conjI, rule h2, rule nosig, rule h3, rule sig)
  have c3: "evalStatements ?ev ([seven] @ [seven]) 0 fresh = Done (IntegerObj 7, fresh)"
    by (rule k3) (intro conjI, rule h2, rule nosig, rule h4)
  have "evalIfStatement ?ev (BooleanLiteral True) [return5] None 0 fresh =
          (if isTruthy (BooleanObj True) then evalStatements ?ev [return5] 0 fresh
           else case None of Some alt \<Rightarrow> evalStatements ?ev alt 0 fresh | None \<Rightarrow> Done (NullObj, fresh))"
    by (rule k5) (intro conjI, rule h6, rule isError_simps(7))
  then have c4: "evalIfStatement ?ev (BooleanLiteral True) [return5] None 0 fresh = Done (?rv, fresh)"
    by (simp only: h5 t if_True)
  have "caseLoop ?ev (IntegerObj 1) [([IntegerLiteral 1], [return5])] None 0 fresh
          = evalStatements ?ev [return5] 0 fresh"
    by (rule k6) (rule h7)
  then have c5: "caseLoop ?ev (IntegerObj 1) [([IntegerLiteral 1], [return5])] None 0 fresh = Done (?rv, fresh)"
    by (simp only: h5)
  have c6: "whileLoop ?ev (Suc 0) NilObj (BooleanLiteral True) [return5] 0 fresh = Done (?rv, fresh)"
    by (rule k7) (intro conjI, rule h6, rule isError_simps(7), rule t, rule h5, rule sig)
  have c7: "repeatLoop ?ev (Suc 0) [return5] (BooleanLiteral True) 0 fresh = Done (?rv, fresh)"
    by (rule k8) (intro conjI, rule h5, rule sig)
  have c8: "forLoop ?ev (Suc 0) NilObj 1 3 1 ''i'' [return5] 0 fresh
              = Done (?rv, snd (SetInPlace 0 ''i'' (IntegerObj 1) fresh))"
    by (rule k9) (intro conjI, rule h8(1), rule h8(2), rule h9, rule sig)
  have h3g: "stmtEval ?ev return5 (global_env fresh) fresh = Done (?rv, fresh)"
    by simp
  have h4g: "stmtEval ?ev seven (global_env fresh) fresh = Done (IntegerObj 7, fresh)"
    by simp
  have c9: "Eval (Suc (Suc 0)) [return5, seven] fresh = Done (IntegerObj 5, fresh)"
    by (rule k10) (rule h3g)
  have c10: "Eval (Suc (Suc 0)) [seven, return5] fresh = EvalFrom ?ev (IntegerObj 7) [return5] fresh"
    by (rule k12) (intro conjI, rule h4g, rule nosig)

  note cs3 = control_signals [of ?ev3 0 fresh "Suc (Suc (Suc 0))"]
  note q1 = cs3 [THEN conjunct2]
  note q2 = q1 [THEN conjunct2]
  note q3 = q2 [THEN conjunct2]
  note q4 = q3 [THEN conjunct2]
  note q5 = q4 [THEN conjunct2]
  note q6 = q5 [THEN conjunct2]
  note q7 = q6 [THEN conjunct2]
  note q8 = q7 [THEN conjunct2]
  note q9 = q8 [THEN conjunct2]
  note q10 = q9 [THEN conjunct2]
  note q11 = q10 [THEN conjunct2]
  note q12 = q11 [THEN conjunct2]
  note q13 = q12 [THEN conjunct2]
  note q14 = q13 [THEN conjunct2]
  note q15 = q14 [THEN conjunct2]
  note q16 = q15 [THEN conjunct2]
  note q17 = q16 [THEN conjunct2]
  note q18 = q17 [THEN conjunct2]
  note q19 = q18 [THEN conjunct2]
  note q20 = q19 [THEN conjunct2]
  note q21 = q20 [THEN conjunct2]
  note q22 = q21 [THEN conjunct2]
  note q23 = q22 [THEN conjunct2]
  note q24 = q23 [THEN conjunct2]
  note m6 = q5 [THEN conjunct1, rule_format]
  note m7 = q6 [THEN conjunct1, rule_format]
  note m8 = q7 [THEN conjunct1, rule_format]
  note ifS = q13 [THEN conjunct1, rule_format]
  note caseS = q14 [THEN conjunct1, rule_format]
  note skip = q15 [THEN conjunct1, rule_format]
  note other = q16 [THEN conjunct1, rule_format]
  note none = q17 [THEN conjunct1, rule_format]
  note whileS = q18 [THEN conjunct1, rule_format]
  note whileC = q19 [THEN conjunct1, rule_format]
  note whileX = q20 [THEN conjunct1, rule_format]
  note repeatS = q21 [THEN conjunct1, rule_format]
  note repeatC = q22 [THEN conjunct1, rule_format]
  note forS = q23 [THEN conjunct1, rule_format]
  note forC = q24 [THEN conjunct1, rule_format]
  note nested = q24 [THEN conjunct2, rule_format]
  have fuel3: "fuel ?ev3 = Suc (Suc (Suc 0))"
    by simp
  have b1: "evalStatements ?ev3 [return5, seven] 0 fresh = Done (?rv, fresh)"
    by (simp add: evalStatements_def)
  have b2: "evalStatements ?ev3 [seven] 0 fresh = Done (IntegerObj 7, fresh)"
    by (rule evalStatements_seven)
  have tt: "exprEval ?ev3 (BooleanLiteral True) 0 fresh = Done (BooleanObj True, fresh)"
    and ff: "exprEval ?ev3 (BooleanLiteral False) 0 fresh = Done (BooleanObj False, fresh)"
    and two: "exprEval ?ev3 (IntegerLiteral 2) 0 fresh = Done (IntegerObj 2, fresh)"
    and three: "exprEval ?ev3 (IntegerLiteral 3) 0 fresh = Done (IntegerObj 3, fresh)"
    and one: "exprEval ?ev3 (IntegerLiteral 1) 0 fresh = Done (IntegerObj 1, fresh)"
    by simp_all
  have f: "\<not> isTruthy (BooleanObj False)" by (simp add: isTruthy_def)
  have "evalStatement ?ev3 (IfStatement (BooleanLiteral False) [seven] (Some [return5, seven])) 0 fresh =
          (if isTruthy (BooleanObj False) then evalStatements ?ev3 [seven] 0 fresh
           else case Some [return5, seven] of Some alt \<Rightarrow> evalStatements ?ev3 alt 0 fresh
                | None \<Rightarrow> Done (NullObj, fresh))"
    by (rule ifS) (intro conjI, rule ff, rule isError_simps(7))
  then have d1: "evalStatement ?ev3 (IfStatement (BooleanLiteral False) [seven] (Some [return5, seven])) 0 fresh
                   = Done (?rv, fresh)"
    by (simp only: b1 f if_False option.case)
  have no1: "matchesAny ?ev3 (IntegerObj 2) [IntegerLiteral 1] 0 fresh = Done (False, fresh)"
    and yes2: "matchesAny ?ev3 (IntegerObj 2) [IntegerLiteral 2] 0 fresh = Done (True, fresh)"
    and no3: "matchesAny ?ev3 (IntegerObj 3) [IntegerLiteral 1] 0 fresh = Done (False, fresh)"
    by (simp_all add: matchesCaseValue_def objectsEqual_def)
  have "evalStatement ?ev3
          (CaseStatement (IntegerLiteral 2)
             [([IntegerLiteral 1], [seven]), ([IntegerLiteral 2], [return5, seven])] (Some [seven])) 0 fresh
        = caseLoop ?ev3 (IntegerObj 2)
            [([IntegerLiteral 1], [seven]), ([IntegerLiteral 2], [return5, seven])] (Some [seven]) 0 fresh"
    by (rule caseS) (intro conjI, rule two, rule isError_simps(3))
  also have "\<dots> = caseLoop ?ev3 (IntegerObj 2) [([IntegerLiteral 2], [return5, seven])] (Some [seven]) 0 fresh"
    by (rule skip) (rule no1)
  also have "\<dots> = evalStatements ?ev3 [return5, seven] 0 fresh"
    by (rule m6) (rule yes2)
  finally have d2: "evalStatement ?ev3
          (CaseStatement (IntegerLiteral 2)
             [([IntegerLiteral 1], [seven]), ([IntegerLiteral 2], [return5, seven])] (Some [seven])) 0 fresh
        = Done (?rv, fresh)"
    by (simp only: b1)
  have "evalStatement ?ev3
          (CaseStatement (IntegerLiteral 3) [([IntegerLiteral 1], [seven])] (Some [return5, seven])) 0 fresh
        = caseLoop ?ev3 (IntegerObj 3) [([IntegerLiteral 1], [seven])] (Some [return5, seven]) 0 fresh"
    by (rule caseS) (intro conjI, rule three, rule isError_simps(3))
  also have "\<dots> = caseLoop ?ev3 (IntegerObj 3) [] (Some [return5, seven]) 0 fresh"
    by (rule skip) (rule no3)
  also have "\<dots> = evalStatements ?ev3 [return5, seven] 0 fresh"
    by (rule other)
  finally have d3: "evalStatement ?ev3
          (CaseStatement (IntegerLiteral 3) [([IntegerLiteral 1], [seven])] (Some [return5, seven])) 0 fresh
        = Done (?rv, fresh)"
    by (simp only: b1)
  have "evalStatement ?ev3 (CaseStatement (IntegerLiteral 3) [([IntegerLiteral 1], [return5])] None) 0 fresh
        = caseLoop ?ev3 (IntegerObj 3) [([IntegerLiteral 1], [return5])] None 0 fresh"
    by (rule caseS) (intro conjI, rule three, rule isError_simps(3))
  also have "\<dots> = caseLoop ?ev3 (IntegerObj 3) [] None 0 fresh"
    by (rule skip) (rule no3)
  also have "\<dots> = Done (NullObj, fresh)"
    by (rule none)
  finally have d4: "evalStatement ?ev3
          (CaseStatement (IntegerLiteral 3) [([IntegerLiteral 1], [return5])] None) 0 fresh
        = Done (NullObj, fresh)" .
  have "whileLoop ?ev3 (Suc (Suc (Suc 0))) NilObj (BooleanLiteral True) [return5, seven] 0 fresh
          = Done (?rv, fresh)"
    by (rule m7) (intro conjI, rule tt, rule isError_simps(7), rule t, rule b1, rule sig)
  with whileS [of "BooleanLiteral True" "[return5, seven]"]
  have d5: "evalStatement ?ev3 (WhileStatement (BooleanLiteral True) [return5, seven]) 0 fresh
              = Done (?rv, fresh)"
    by (simp only: fuel3)
  have d6: "whileLoop ?ev3 (Suc (Suc 0)) NilObj (BooleanLiteral True) [seven] 0 fresh
       = whileLoop ?ev3 (Suc 0) (IntegerObj 7) (BooleanLiteral True) [seven] 0 fresh"
    by (rule whileC) (intro conjI, rule tt, rule isError_simps(7), rule t, rule b2, rule nosig)
  have d7: "whileLoop ?ev3 (Suc 0) (IntegerObj 7) (BooleanLiteral False) [seven] 0 fresh
       = Done (IntegerObj 7, fresh)"
    by (rule whileX) (intro conjI, rule ff, rule isError_simps(7), rule f)
  have "repeatLoop ?ev3 (Suc (Suc (Suc 0))) [return5, seven] (BooleanLiteral True) 0 fresh
          = Done (?rv, fresh)"
    by (rule m8) (intro conjI, rule b1, rule sig)
  with repeatS [of "[return5, seven]" "BooleanLiteral True"]
  have d8: "evalStatement ?ev3 (RepeatStatement [return5, seven] (BooleanLiteral True)) 0 fresh
              = Done (?rv, fresh)"
    by (simp only: fuel3)
  have d9: "repeatLoop ?ev3 (Suc (Suc 0)) [seven] (BooleanLiteral False) 0 fresh
       = repeatLoop ?ev3 (Suc 0) [seven] (BooleanLiteral False) 0 fresh"
    by (rule repeatC) (intro conjI, rule b2, rule nosig, rule ff, rule isError_simps(7), rule f)
  have step: "evalStep ?ev3 None 0 fresh = Done (Inr 1, fresh)"
    by (simp add: evalStep_def)
  have loop: "evalStatement ?ev3
          (ForStatement ''i'' (IntegerLiteral 1) (IntegerLiteral 3) None [return5, seven]) 0 fresh
        = forLoop ?ev3 (fuel ?ev3) NilObj 1 3 1 ''i'' [return5, seven] ?loopEnv ?st5"
    by (rule forS) (intro conjI, rule one, rule three, rule step)
  note csF = control_signals [of ?ev3 ?loopEnv ?st5 "Suc (Suc (Suc 0))"]
  note forSig = csF [THEN conjunct2, THEN conjunct2, THEN conjunct2, THEN conjunct2, THEN conjunct2,
      THEN conjunct2, THEN conjunct2, THEN conjunct2, THEN conjunct1, rule_format]
  have b3: "evalStatements ?ev3 [return5, seven] ?loopEnv (snd (SetInPlace ?loopEnv ''i'' (IntegerObj 1) ?st5))
              = Done (?rv, snd (SetInPlace ?loopEnv ''i'' (IntegerObj 1) ?st5))"
    by (simp add: evalStatements_def)
  have "forLoop ?ev3 (Suc (Suc (Suc 0))) NilObj 1 3 1 ''i'' [return5, seven] ?loopEnv ?st5
          = Done (?rv, snd (SetInPlace ?loopEnv ''i'' (IntegerObj 1) ?st5))"
    by (rule forSig) (intro conjI, rule h8(1), rule h8(2), rule b3, rule sig)
  with loop
  have d10: "evalStatement ?ev3
          (ForStatement ''i'' (IntegerLiteral 1) (IntegerLiteral 3) None [return5, seven]) 0 fresh
        = Done (?rv, snd (SetInPlace ?loopEnv ''i'' (IntegerObj 1) ?st5))"
    by (simp only: fuel3)
  have b4: "evalStatements ?ev3 [seven] 0 (snd (SetInPlace 0 ''i'' (IntegerObj 1) fresh))
              = Done (IntegerObj 7, snd (SetInPlace 0 ''i'' (IntegerObj 1) fresh))"
    by (rule evalStatements_seven)
  have d11: "forLoop ?ev3 (Suc (Suc 0)) NilObj 1 3 1 ''i'' [seven] 0 fresh
       = forLoop ?ev3 (Suc 0) (IntegerObj 7) (1 + 1) 3 1 ''i'' [seven] 0
           (snd (SetInPlace 0 ''i'' (IntegerObj 1) fresh))"
    by (rule forC) (intro conjI, rule h8(1), rule h8(2), rule b4, rule nosig)
  have pre: "evalStatements (evaluator (Suc (Suc (Suc (Suc 0))))) [seven] 0 fresh = Done (IntegerObj 7, fresh)"
    by (rule evalStatements_seven)
  have d12: "evalStatements (evaluator (Suc (Suc (Suc (Suc 0)))))
        ([seven] @ WhileStatement (BooleanLiteral True) [return5, seven] # [seven]) 0 fresh
       = Done (?rv, fresh)"
    by (rule nested) (intro conjI, rule pre, rule nosig, rule d5, rule sig)
  have d13: "evalStatements (evaluator (Suc (Suc (Suc (Suc 0)))))
        ([seven] @ CaseStatement (IntegerLiteral 2)
           [([IntegerLiteral 1], [seven]), ([IntegerLiteral 2], [return5, seven])] (Some [seven]) # [seven])
        0 fresh
       = Done (?rv, fresh)"
    by (rule nested) (intro conjI, rule pre, rule nosig, rule d2, rule sig)
  show ?thesis
    by (intro conjI) (rule h1 h2 h3 c1 c2 c3 c4 c5 c6 c7 c8 c9 c10 d1 d2 d3 d4 d5 d6 d7 d8 d9 d10 d11 d12 d13)+
qed


section \<open>Calls of functions and procedures\<close>

lemma applyFunction_Function:
  "applyFunction ev (FunctionObj name params body fnEnv) args callerEnv st =
     andThen (evalStatements ev body (fst (extendFunctionEnv fnEnv args params callerEnv st))
                (snd (extendFunctionEnv fnEnv args params callerEnv st)))
       (\<lambda>(evaluated, st2). Done (unwrapReturnValue evaluated, st2))"
  by (simp add: applyFunction_def split_beta)

lemma applyFunction_Procedure:
  "applyFunction ev (ProcedureObj name params body fnEnv) args callerEnv st =
     andThen (evalStatements ev body (fst (extendFunctionEnv fnEnv args params callerEnv st))
                (snd (extendFunctionEnv fnEnv args params callerEnv st)))
       (\<lambda>(evaluated, st2). Done (unwrapReturnValue evaluated, st2))"
  by (simp add: applyFunction_def split_beta)

text \<open>
  C5 (as amended). A call of a user-declared Procedure is evaluated exactly as the call of
  a Function with the same parameters, body and closure: when the body ends with a
  ReturnSignal the call yields the carried value to its caller, for a Procedure as for a
  Function; an Error produced by the body is the result of the call; any other result of
  the body is passed on unchanged.
\<close>

theorem call_unwraps_return:
  "(\<forall>pname fname params body fnEnv.
      applyFunction ev (ProcedureObj pname params body fnEnv) args callerEnv st =
      applyFunction ev (FunctionObj fname params body fnEnv) args callerEnv st)
   \<and> (\<forall>name params body fnEnv v st2.
      evalStatements ev body (fst (extendFunctionEnv fnEnv args params callerEnv st))
        (snd (extendFunctionEnv fnEnv args params callerEnv st)) = Done (ReturnValueObj v, st2) \<longrightarrow>
      applyFunction ev (ProcedureObj name params body fnEnv) args callerEnv st = Done (v, st2) \<and>
      applyFunction ev (FunctionObj name params body fnEnv) args callerEnv st = Done (v, st2))
   \<and> (\<forall>name params body fnEnv m st2.
      evalStatements ev body (fst (extendFunctionEnv fnEnv args params callerEnv st))
        (snd (extendFunctionEnv fnEnv args params callerEnv st)) = Done (ErrorObj m, st2) \<longrightarrow>
      applyFunction ev (ProcedureObj name params body fnEnv) args callerEnv st = Done (ErrorObj m, st2) \<and>
      applyFunction ev (FunctionObj name params body fnEnv) args callerEnv st = Done (ErrorObj m, st2))
   \<and> (\<forall>name params body fnEnv u st2.
      evalStatements ev body (fst (extendFunctionEnv fnEnv args params callerEnv st))
        (snd (extendFunctionEnv fnEnv args params callerEnv st)) = Done (u, st2) \<and>
      \<not> isReturnValue u \<longrightarrow>
      applyFunction ev (ProcedureObj name params body fnEnv) args callerEnv st = Done (u, st2) \<and>
      applyFunction ev (FunctionObj name params body fnEnv) args callerEnv st = Done (u, st2))"
proof (intro conjI allI impI; (elim conjE)?)
  fix name params body fnEnv u st2
  assume "evalStatements ev body (fst (extendFunctionEnv fnEnv args params callerEnv st))
        (snd (extendFunctionEnv fnEnv args params callerEnv st)) = Done (u, st2)"
    and "\<not> isReturnValue u"
  then show "applyFunction ev (ProcedureObj name params body fnEnv) args callerEnv st = Done (u, st2)"
    and "applyFunction ev (FunctionObj name params body fnEnv) args callerEnv st = Done (u, st2)"
    by (cases u; simp add: applyFunction_Function applyFunction_Procedure unwrapReturnValue_def)+
qed (simp_all add: applyFunction_Function applyFunction_Procedure unwrapReturnValue_def)

text \<open>
  The claim as stated fails on \<open>PROCEDURE P() RETURN 5 ENDPROCEDURE\<close>: the call \<open>P()\<close>
  yields Integer 5, and \<open>x <- P()\<close> stores it in \<open>x\<close>.
\<close>

theorem call_unwraps_return_counterexample:
  "applyFunction (evaluator (Suc (Suc 0))) procedureP [] 0 fresh
     = Done (IntegerObj 5, snd (extendFunctionEnv 0 [] [] 0 fresh))
   \<and> (case Eval (Suc (Suc (Suc (Suc 0)))) procedureProgram fresh of
         Done (v, st) \<Rightarrow> (v, Get st 0 ''x'')
       | _ \<Rightarrow> (NilObj, None)) = (IntegerObj 5, Some (IntegerObj 5))"
proof
  show "applyFunction (evaluator (Suc (Suc 0))) procedureP [] 0 fresh
     = Done (IntegerObj 5, snd (extendFunctionEnv 0 [] [] 0 fresh))"
    by (simp add: procedureP_def applyFunction_Procedure evalStatements_return5 unwrapReturnValue_def)
  show "(case Eval (Suc (Suc (Suc (Suc 0)))) procedureProgram fresh of
         Done (v, st) \<Rightarrow> (v, Get st 0 ''x'')
       | _ \<Rightarrow> (NilObj, None)) = (IntegerObj 5, Some (IntegerObj 5))"
    by (simp add: run_simps procedureProgram_def return5_def)
qed

theorem call_unwraps_return_witness:
  "evalStatements (evaluator (Suc (Suc 0))) [return5] (fst (extendFunctionEnv 0 [] [] 0 fresh))
        (snd (extendFunctionEnv 0 [] [] 0 fresh))
     = Done (ReturnValueObj (IntegerObj 5), snd (extendFunctionEnv 0 [] [] 0 fresh))
   \<and> applyFunction (evaluator (Suc (Suc 0))) (ProcedureObj ''P'' [] [return5] 0) [] 0 fresh
       = Done (IntegerObj 5, snd (extendFunctionEnv 0 [] [] 0 fresh))
   \<and> applyFunction (evaluator (Suc (Suc 0))) (FunctionObj ''F'' [] [return5] 0) [] 0 fresh
       = Done (IntegerObj 5, snd (extendFunctionEnv 0 [] [] 0 fresh))
   \<and> applyFunction (evaluator (Suc (Suc 0))) (ProcedureObj ''P'' [] [seven] 0) [] 0 fresh
       = Done (IntegerObj 7, snd (extendFunctionEnv 0 [] [] 0 fresh))
   \<and> applyFunction (evaluator (Suc (Suc 0)))
         (ProcedureObj ''P'' [] [ExpressionStatement (Identifier ''nothing'')] 0) [] 0 fresh
       = Done (ErrorObj ''identifier not found: nothing'', snd (extendFunctionEnv 0 [] [] 0 fresh))"
proof -
  let ?ev = "evaluator (Suc (Suc 0))"
  let ?e = "fst (extendFunctionEnv 0 [] [] 0 fresh)"
  let ?st = "snd (extendFunctionEnv 0 [] [] 0 fresh)"
  note cs = call_unwraps_return [of ?ev "[]" 0 fresh]
  note k2 = cs [THEN conjunct2, THEN conjunct1, rule_format]
  note k3 = cs [THEN conjunct2, THEN conjunct2, THEN conjunct1, rule_format]
  note k4 = cs [THEN conjunct2, THEN conjunct2, THEN conjunct2, rule_format]
  have h1: "evalStatements ?ev [return5] ?e ?st = Done (ReturnValueObj (IntegerObj 5), ?st)"
    by (rule evalStatements_return5)
  have h2: "evalStatements ?ev [seven] ?e ?st = Done (IntegerObj 7, ?st)"
    by (rule evalStatements_seven)
  have h3: "evalStatements ?ev [ExpressionStatement (Identifier ''nothing'')] ?e ?st
              = Done (ErrorObj ''identifier not found: nothing'', ?st)"
    by (simp add: run_simps)
  have n7: "\<not> isReturnValue (IntegerObj 7)" by simp
  show ?thesis
    using h1 k2 [OF h1] k4 [OF conjI [OF h2 n7]] k3 [OF h3] by blast
qed


section \<open>FOR statements\<close>

lemma evalStep_not_Integer:
  "exprEval ev stepE env st = Done (sv, st1) \<Longrightarrow> \<not> isError sv \<Longrightarrow> (\<forall>s. sv \<noteq> IntegerObj s) \<Longrightarrow>
   evalStep ev (Some stepE) env st = Done (Inr 1, st1)"
  by (cases sv) (simp_all add: evalStep_def)

lemma evalStep_None: "evalStep ev None env st = Done (Inr 1, st)"
  by (simp add: evalStep_def)

lemma evalForStatement_loop:
  assumes "exprEval ev startE env st = Done (IntegerObj a, st1)"
    and "exprEval ev endE env st1 = Done (IntegerObj b, st2)"
    and "evalStep ev stepE env st2 = Done (Inr step, st3)"
  shows "evalForStatement ev var startE endE stepE body env st =
           forLoop ev (fuel ev) NilObj a b step var body (fst (NewEnclosedEnvironment env st3))
             (snd (Declare (fst (NewEnclosedEnvironment env st3)) var (IntegerObj a)
                     (snd (NewEnclosedEnvironment env st3))))"
  using assms by (simp add: evalForStatement_def split_beta)

lemma evalForStatement_start_not_Integer:
  assumes "exprEval ev startE env st = Done (sv, st1)" and "\<not> isError sv" and "\<forall>i. sv \<noteq> IntegerObj i"
    and "exprEval ev endE env st1 = Done (bv, st2)" and "\<not> isError bv"
    and "evalStep ev stepE env st2 = Done (Inr step, st3)"
  shows "evalForStatement ev var startE endE stepE body env st =
           Done (ErrorObj ''FOR loop start must be an integer'', st3)"
  using assms by (cases sv) (simp_all add: evalForStatement_def)

lemma evalForStatement_end_not_Integer:
  assumes "exprEval ev startE env st = Done (IntegerObj a, st1)"
    and "exprEval ev endE env st1 = Done (bv, st2)" and "\<not> isError bv" and "\<forall>i. bv \<noteq> IntegerObj i"
    and "evalStep ev stepE env st2 = Done (Inr step, st3)"
  shows "evalForStatement ev var startE endE stepE body env st =
           Done (ErrorObj ''FOR loop end must be an integer'', st3)"
  using assms by (cases bv) (simp_all add: evalForStatement_def)

lemma evalStep_result:
  "evalStep ev stepE env st = Done (Inl e, st') \<Longrightarrow> isError e"
  by (auto simp: evalStep_def andThen_eq_Done split: option.splits if_splits obj.splits)

lemma evalForStatement_start_error:
  assumes "exprEval ev startE env st = Done (sv, st1)" and "\<forall>i. sv \<noteq> IntegerObj i"
    and "evalForStatement ev var startE endE stepE body env st = Done (v, st')"
  shows "isError v"
proof (cases "isError sv")
  case True
  with assms show ?thesis by (simp add: evalForStatement_def)
next
  case False
  with assms(1,3) obtain bv st2 where e: "exprEval ev endE env st1 = Done (bv, st2)"
    by (cases "exprEval ev endE env st1") (auto simp: evalForStatement_def)
  show ?thesis
  proof (cases "isError bv")
    case True
    with assms False e show ?thesis by (simp add: evalForStatement_def)
  next
    case nb: False
    with assms(1,3) False e obtain r st3 where s: "evalStep ev stepE env st2 = Done (r, st3)"
      by (cases "evalStep ev stepE env st2") (auto simp: evalForStatement_def)
    show ?thesis
    proof (cases r)
      case (Inl early)
      with assms False e nb s evalStep_result [of ev stepE env st2 early st3]
      show ?thesis by (simp add: evalForStatement_def)
    next
      case (Inr step)
      from evalForStatement_start_not_Integer [OF assms(1) False assms(2) e nb s [unfolded Inr], of var body]
        assms(3)
      show ?thesis by auto
    qed
  qed
qed

lemma evalForStatement_end_error:
  assumes "exprEval ev startE env st = Done (sv, st1)"
    and "exprEval ev endE env st1 = Done (bv, st2)" and "\<forall>i. bv \<noteq> IntegerObj i"
    and "evalForStatement ev var startE endE stepE body env st = Done (v, st')"
  shows "isError v"
proof (cases "isError sv")
  case True
  with assms show ?thesis by (simp add: evalForStatement_def)
next
  case False
  show ?thesis
  proof (cases "isError bv")
    case True
    with assms False show ?thesis by (simp add: evalForStatement_def)
  next
    case nb: False
    with assms(1,2,4) False obtain r st3 where s: "evalStep ev stepE env st2 = Done (r, st3)"
      by (cases "evalStep ev stepE env st2") (auto simp: evalForStatement_def)
    show ?thesis
    proof (cases r)
      case (Inl early)
      with assms False nb s evalStep_result [of ev stepE env st2 early st3]
      show ?thesis by (simp add: evalForStatement_def)
    next
      case (Inr step)
      show ?thesis
      proof (cases "\<exists>a. sv = IntegerObj a")
        case True
        then obtain a where "sv = IntegerObj a" ..
        from evalForStatement_end_not_Integer
          [OF assms(1) [unfolded this] assms(2) nb assms(3) s [unfolded Inr], of var body] assms(4)
        show ?thesis by auto
      next
        case False
        then have "\<forall>i. sv \<noteq> IntegerObj i" by simp
        from evalForStatement_start_error [OF assms(1) this assms(4)] show ?thesis .
      qed
    qed
  qed
qed

lemma fmt_d_small: "fmt_d 1 = ''1''" "fmt_d 2 = ''2''" "fmt_d 3 = ''3''" "fmt_d 4 = ''4''"
  by code_simp+

lemma countUp_Suc: "countUp a (Suc n) = a # countUp (a + 1) n"
proof -
  have "map (\<lambda>j. a + of_nat j) [0..<Suc n] = (a + of_nat 0) # map (\<lambda>j. a + of_nat (Suc j)) [0..<n]"
    by (simp only: map_upt_Suc)
  then show ?thesis
    by (simp add: countUp_def add.assoc add.commute)
qed

lemma countUp_0: "countUp a 0 = []"
  by (simp add: countUp_def)

lemma sint_Suc:
  fixes a b :: int64
  assumes "sint a \<le> sint b" and "sint b < 2 ^ 63 - 1"
  shows "sint (a + 1) = sint a + 1"
proof -
  have "- (2 ^ 63) \<le> sint a"
    using sint_ge [of a] by simp
  with assms have "signed_take_bit 63 (sint a + 1) = sint a + 1"
    by (intro signed_take_bit_int_eq_self) simp_all
  then show ?thesis
    by (simp add: sint_word_add)
qed

text \<open>
  With step 1 and enough iterations left, the loop of \<open>evalForStatement\<close> runs the body
  for the values \<open>start\<close>, \<open>start + 1\<close>, ..., \<open>end\<close> in this order (for no value at all
  when \<open>end < start\<close>), provided \<open>end\<close> is not the largest \<open>int64\<close>.
\<close>

lemma forLoop_step_1:
  assumes "sint b < 2 ^ 63 - 1" and "n = nat (sint b - sint a + 1)" and "n < k"
  shows "forLoop ev k r a b 1 var body loopEnv st = runBody ev r (countUp a n) var body loopEnv st"
  using assms
proof (induction n arbitrary: a k r st)
  case 0
  then obtain k' where k: "k = Suc k'" by (cases k) auto
  from 0 have "sint b < sint a" by simp
  then have "b <s a" by (simp add: word_sless_alt)
  then show ?case
    by (simp add: k countUp_0 word_sless_alt)
next
  case (Suc n)
  then obtain k' where k: "k = Suc k'" by (cases k) auto
  from Suc.prems have le: "sint a \<le> sint b" by simp
  then have nless: "\<not> b <s a" by (simp add: word_sless_alt)
  have s: "sint (a + 1) = sint a + 1"
    using le Suc.prems(1) by (rule sint_Suc)
  with Suc.prems have n: "n = nat (sint b - sint (a + 1) + 1)" and k': "n < k'"
    by (simp_all add: k)
  note IH = Suc.IH [OF Suc.prems(1) n k']
  have pos: "(0::int64) <s 1" "\<not> (1::int64) <s 0"
    by (simp_all add: word_sless_alt)
  show ?case
    unfolding k countUp_Suc
    by (simp add: nless pos IH cong: if_cong)
qed

text \<open>
  C10. When the STEP expression of a FOR statement evaluates without error to a value that
  is not an Integer, the statement reports no error for it: it runs the very loop that the
  default step 1 gives (from the state in which the step was evaluated), as it does when
  there is no STEP at all. That loop runs the body for the values \<open>start\<close>,
  \<open>start + 1\<close>, ..., \<open>end\<close> of the loop variable, in this order, in a new scope that
  declares the variable (\<open>end\<close> below the largest \<open>int64\<close>, and the iteration budget
  of the model large enough). When the start value, or the end value, is not an Integer (and
  the three expressions evaluate without error), the statement evaluates to the Error
  "FOR loop start must be an integer" ("... end ...") in the state left by the three
  expressions: no loop scope is created and the body is not run. In general, whenever the
  start or the end value is not an Integer, whatever the FOR statement returns is an Error.
\<close>

theorem for_step_default:
  "(\<forall>var startE endE stepE body a b sv st1 st2 st3.
      exprEval ev startE env st = Done (IntegerObj a, st1) \<and>
      exprEval ev endE env st1 = Done (IntegerObj b, st2) \<and>
      exprEval ev stepE env st2 = Done (sv, st3) \<and> \<not> isError sv \<and> (\<forall>s. sv \<noteq> IntegerObj s) \<longrightarrow>
      evalForStatement ev var startE endE (Some stepE) body env st =
        forLoop ev (fuel ev) NilObj a b 1 var body (fst (NewEnclosedEnvironment env st3))
          (snd (Declare (fst (NewEnclosedEnvironment env st3)) var (IntegerObj a)
                  (snd (NewEnclosedEnvironment env st3)))))
   \<and> (\<forall>var startE endE body a b st1 st2.
      exprEval ev startE env st = Done (IntegerObj a, st1) \<and>
      exprEval ev endE env st1 = Done (IntegerObj b, st2) \<longrightarrow>
      evalForStatement ev var startE endE None body env st =
        forLoop ev (fuel ev) NilObj a b 1 var body (fst (NewEnclosedEnvironment env st2))
          (snd (Declare (fst (NewEnclosedEnvironment env st2)) var (IntegerObj a)
                  (snd (NewEnclosedEnvironment env st2)))))
   \<and> (\<forall>var startE endE stepE body sv bv step st1 st2 st3.
      exprEval ev startE env st = Done (sv, st1) \<and> \<not> isError sv \<and> (\<forall>i. sv \<noteq> IntegerObj i) \<and>
      exprEval ev endE env st1 = Done (bv, st2) \<and> \<not> isError bv \<and>
      evalStep ev stepE env st2 = Done (Inr step, st3) \<longrightarrow>
      evalForStatement ev var startE endE stepE body env st =
        Done (ErrorObj ''FOR loop start must be an integer'', st3))
   \<and> (\<forall>var startE endE stepE body a bv step st1 st2 st3.
      exprEval ev startE env st = Done (IntegerObj a, st1) \<and>
      exprEval ev endE env st1 = Done (bv, st2) \<and> \<not> isError bv \<and> (\<forall>i. bv \<noteq> IntegerObj i) \<and>
      evalStep ev stepE env st2 = Done (Inr step, st3) \<longrightarrow>
      evalForStatement ev var startE endE stepE body env st =
        Done (ErrorObj ''FOR loop end must be an integer'', st3))
   \<and> (\<forall>var startE endE stepE body sv st1 v st'.
      exprEval ev startE env st = Done (sv, st1) \<and> (\<forall>i. sv \<noteq> IntegerObj i) \<and>
      evalForStatement ev var startE endE stepE body env st = Done (v, st') \<longrightarrow> isError v)
   \<and> (\<forall>var startE endE stepE body sv bv st1 st2 v st'.
      exprEval ev startE env st = Done (sv, st1) \<and>
      exprEval ev endE env st1 = Done (bv, st2) \<and> (\<forall>i. bv \<noteq> IntegerObj i) \<and>
      evalForStatement ev var startE endE stepE body env st = Done (v, st') \<longrightarrow> isError v)
   \<and> (\<forall>var body a b k r loopEnv st'.
      sint b < 2 ^ 63 - 1 \<and> nat (sint b - sint a + 1) < k \<longrightarrow>
      forLoop ev k r a b 1 var body loopEnv st' =
        runBody ev r (countUp a (nat (sint b - sint a + 1))) var body loopEnv st')
   \<and> (\<forall>var startE endE stepE body a b sv st1 st2 st3.
      exprEval ev startE env st = Done (IntegerObj a, st1) \<and>
      exprEval ev endE env st1 = Done (IntegerObj b, st2) \<and>
      exprEval ev stepE env st2 = Done (sv, st3) \<and> \<not> isError sv \<and> (\<forall>s. sv \<noteq> IntegerObj s) \<and>
      sint b < 2 ^ 63 - 1 \<and> nat (sint b - sint a + 1) < fuel ev \<longrightarrow>
      evalForStatement ev var startE endE (Some stepE) body env st =
        runBody ev NilObj (countUp a (nat (sint b - sint a + 1))) var body
          (fst (NewEnclosedEnvironment env st3))
          (snd (Declare (fst (NewEnclosedEnvironment env st3)) var (IntegerObj a)
                  (snd (NewEnclosedEnvironment env st3)))))"
proof (intro conjI allI impI; (elim conjE)?)
  fix var body and a b :: int64 and k r loopEnv st'
  assume "sint b < 2 ^ 63 - 1" "nat (sint b - sint a + 1) < k"
  then show "forLoop ev k r a b 1 var body loopEnv st' =
        runBody ev r (countUp a (nat (sint b - sint a + 1))) var body loopEnv st'"
    by (intro forLoop_step_1) simp_all
next
  fix var startE endE stepE body a b sv st1 st2 st3
  assume e: "exprEval ev startE env st = Done (IntegerObj a, st1)"
    "exprEval ev endE env st1 = Done (IntegerObj b, st2)"
    and s: "exprEval ev stepE env st2 = Done (sv, st3)" "\<not> isError sv" "\<forall>s. sv \<noteq> IntegerObj s"
    and b: "sint b < 2 ^ 63 - 1" "nat (sint b - sint a + 1) < fuel ev"
  have "evalForStatement ev var startE endE (Some stepE) body env st =
        forLoop ev (fuel ev) NilObj a b 1 var body (fst (NewEnclosedEnvironment env st3))
          (snd (Declare (fst (NewEnclosedEnvironment env st3)) var (IntegerObj a)
                  (snd (NewEnclosedEnvironment env st3))))"
    by (rule evalForStatement_loop [OF e evalStep_not_Integer [OF s]])
  also have "\<dots> = runBody ev NilObj (countUp a (nat (sint b - sint a + 1))) var body
          (fst (NewEnclosedEnvironment env st3))
          (snd (Declare (fst (NewEnclosedEnvironment env st3)) var (IntegerObj a)
                  (snd (NewEnclosedEnvironment env st3))))"
    using b by (intro forLoop_step_1) simp_all
  finally show "evalForStatement ev var startE endE (Some stepE) body env st =
        runBody ev NilObj (countUp a (nat (sint b - sint a + 1))) var body
          (fst (NewEnclosedEnvironment env st3))
          (snd (Declare (fst (NewEnclosedEnvironment env st3)) var (IntegerObj a)
                  (snd (NewEnclosedEnvironment env st3))))" .
next
  fix var startE endE stepE body a b sv st1 st2 st3
  assume "exprEval ev startE env st = Done (IntegerObj a, st1)"
    and "exprEval ev endE env st1 = Done (IntegerObj b, st2)"
    and "exprEval ev stepE env st2 = Done (sv, st3)" and "\<not> isError sv" and "\<forall>s. sv \<noteq> IntegerObj s"
  then show "evalForStatement ev var startE endE (Some stepE) body env st =
        forLoop ev (fuel ev) NilObj a b 1 var body (fst (NewEnclosedEnvironment env st3))
          (snd (Declare (fst (NewEnclosedEnvironment env st3)) var (IntegerObj a)
                  (snd (NewEnclosedEnvironment env st3))))"
    by (simp add: evalForStatement_loop [OF _ _ evalStep_not_Integer])
next
  fix var startE endE body a b st1 st2
  assume "exprEval ev startE env st = Done (IntegerObj a, st1)"
    and "exprEval ev endE env st1 = Done (IntegerObj b, st2)"
  then show "evalForStatement ev var startE endE None body env st =
        forLoop ev (fuel ev) NilObj a b 1 var body (fst (NewEnclosedEnvironment env st2))
          (snd (Declare (fst (NewEnclosedEnvironment env st2)) var (IntegerObj a)
                  (snd (NewEnclosedEnvironment env st2))))"
    by (simp add: evalForStatement_loop [OF _ _ evalStep_None])
next
  fix var startE endE stepE body sv bv step st1 st2 st3
  assume "exprEval ev startE env st = Done (sv, st1)" "\<not> isError sv" "\<forall>i. sv \<noteq> IntegerObj i"
    "exprEval ev endE env st1 = Done (bv, st2)" "\<not> isError bv"
    "evalStep ev stepE env st2 = Done (Inr step, st3)"
  then show "evalForStatement ev var startE endE stepE body env st =
        Done (ErrorObj ''FOR loop start must be an integer'', st3)"
    by (rule evalForStatement_start_not_Integer)
next
  fix var startE endE stepE body a bv step st1 st2 st3
  assume "exprEval ev startE env st = Done (IntegerObj a, st1)"
    "exprEval ev endE env st1 = Done (bv, st2)" "\<not> isError bv" "\<forall>i. bv \<noteq> IntegerObj i"
    "evalStep ev stepE env st2 = Done (Inr step, st3)"
  then show "evalForStatement ev var startE endE stepE body env st =
        Done (ErrorObj ''FOR loop end must be an integer'', st3)"
    by (rule evalForStatement_end_not_Integer)
next
  fix var startE endE stepE body sv st1 v st'
  assume "exprEval ev startE env st = Done (sv, st1)" "\<forall>i. sv \<noteq> IntegerObj i"
    "evalForStatement ev var startE endE stepE body env st = Done (v, st')"
  then show "isError v"
    by (rule evalForStatement_start_error)
next
  fix var startE endE stepE body sv bv st1 st2 v st'
  assume "exprEval ev startE env st = Done (sv, st1)"
    "exprEval ev endE env st1 = Done (bv, st2)" "\<forall>i. bv \<noteq> IntegerObj i"
    "evalForStatement ev var startE endE stepE body env st = Done (v, st')"
  then show "isError v"
    by (rule evalForStatement_end_error)
qed

theorem for_step_default_witness:
  "exprEval (evaluator (Suc (Suc (Suc (Suc (Suc (Suc 0))))))) (StringLiteral ''2'') 0 fresh
     = Done (StringObj ''2'', fresh)
   \<and> evalForStatement (evaluator (Suc (Suc (Suc (Suc (Suc (Suc 0))))))) ''i''
        (IntegerLiteral 1) (IntegerLiteral 4) (Some (StringLiteral ''2''))
        [ExpressionStatement (Identifier ''i'')] 0 fresh
      = forLoop (evaluator (Suc (Suc (Suc (Suc (Suc (Suc 0))))))) (Suc (Suc (Suc (Suc (Suc (Suc 0))))))
          NilObj 1 4 1 ''i'' [ExpressionStatement (Identifier ''i'')] (fst (NewEnclosedEnvironment 0 fresh))
          (snd (Declare (fst (NewEnclosedEnvironment 0 fresh)) ''i'' (IntegerObj 1)
                  (snd (NewEnclosedEnvironment 0 fresh))))
   \<and> (case stmtEval (evaluator (Suc (Suc (Suc (Suc (Suc (Suc (Suc 0)))))))) forStringStep 0 fresh of
         Done (v, st) \<Rightarrow> v | _ \<Rightarrow> NilObj) = IntegerObj 4
   \<and> evalForStatement (evaluator (Suc (Suc 0))) ''i'' (RealLiteral (Finite 1)) (IntegerLiteral 4) None [seven] 0 fresh
       = Done (ErrorObj ''FOR loop start must be an integer'', fresh)
   \<and> evalForStatement (evaluator (Suc (Suc 0))) ''i'' (IntegerLiteral 1) (StringLiteral ''4'') None [seven] 0 fresh
       = Done (ErrorObj ''FOR loop end must be an integer'', fresh)
   \<and> isError (ErrorObj ''FOR loop start must be an integer'')
   \<and> isError (ErrorObj ''FOR loop end must be an integer'')
   \<and> forLoop (evaluator (Suc (Suc 0))) (Suc (Suc (Suc 0))) NilObj 5 6 1 ''i'' [seven] 0 fresh
       = runBody (evaluator (Suc (Suc 0))) NilObj [5, 6] ''i'' [seven] 0 fresh
   \<and> evalForStatement (evaluator (Suc (Suc (Suc (Suc (Suc (Suc 0))))))) ''i''
        (IntegerLiteral 1) (IntegerLiteral 4) (Some (StringLiteral ''2''))
        [OutputStatement [Identifier ''i'']] 0 fresh
      = runBody (evaluator (Suc (Suc (Suc (Suc (Suc (Suc 0))))))) NilObj [1, 2, 3, 4] ''i''
          [OutputStatement [Identifier ''i'']] (fst (NewEnclosedEnvironment 0 fresh))
          (snd (Declare (fst (NewEnclosedEnvironment 0 fresh)) ''i'' (IntegerObj 1)
                  (snd (NewEnclosedEnvironment 0 fresh))))
   \<and> (case stmtEval (evaluator (Suc (Suc (Suc (Suc (Suc (Suc (Suc 0)))))))) forOutput 0 fresh of
         Done (v, st) \<Rightarrow> written st | _ \<Rightarrow> [])
       = ''1'' @ [CHR 0x0A] @ ''2'' @ [CHR 0x0A] @ ''3'' @ [CHR 0x0A] @ ''4'' @ [CHR 0x0A]"
proof -
  let ?ev = "evaluator (Suc (Suc (Suc (Suc (Suc (Suc 0))))))"
  let ?ev2 = "evaluator (Suc (Suc 0))"
  note k1 = for_step_default [of ?ev 0 fresh, THEN conjunct1, rule_format]
  note k3 = for_step_default [of ?ev2 0 fresh, THEN conjunct2, THEN conjunct2, THEN conjunct1, rule_format]
  note k4 = for_step_default [of ?ev2 0 fresh, THEN conjunct2, THEN conjunct2, THEN conjunct2,
      THEN conjunct1, rule_format]
  note k5 = for_step_default [of ?ev2 0 fresh, THEN conjunct2, THEN conjunct2, THEN conjunct2,
      THEN conjunct2, THEN conjunct1, rule_format]
  note k6 = for_step_default [of ?ev2 0 fresh, THEN conjunct2, THEN conjunct2, THEN conjunct2,
      THEN conjunct2, THEN conjunct2, THEN conjunct1, rule_format]
  note k7 = for_step_default [of ?ev2 0 fresh, THEN conjunct2, THEN conjunct2, THEN conjunct2,
      THEN conjunct2, THEN conjunct2, THEN conjunct2, THEN conjunct1, rule_format]
  note k8 = for_step_default [of ?ev 0 fresh, THEN conjunct2, THEN conjunct2, THEN conjunct2,
      THEN conjunct2, THEN conjunct2, THEN conjunct2, THEN conjunct2, rule_format]
  have s: "exprEval ?ev (StringLiteral ''2'') 0 fresh = Done (StringObj ''2'', fresh)"
    and one: "exprEval ?ev (IntegerLiteral 1) 0 fresh = Done (IntegerObj 1, fresh)"
    and four: "exprEval ?ev (IntegerLiteral 4) 0 fresh = Done (IntegerObj 4, fresh)"
    and one2: "exprEval ?ev2 (IntegerLiteral 1) 0 fresh = Done (IntegerObj 1, fresh)"
    and four2: "exprEval ?ev2 (IntegerLiteral 4) 0 fresh = Done (IntegerObj 4, fresh)"
    and r: "exprEval ?ev2 (RealLiteral (Finite 1)) 0 fresh = Done (RealObj (Finite 1), fresh)"
    and s4: "exprEval ?ev2 (StringLiteral ''4'') 0 fresh = Done (StringObj ''4'', fresh)"
    by simp_all
  have noint: "\<forall>s. StringObj ''2'' \<noteq> IntegerObj s" "\<forall>i. RealObj (Finite 1) \<noteq> IntegerObj i"
    "\<forall>i. StringObj ''4'' \<noteq> IntegerObj i"
    by simp_all
  have noerr: "\<not> isError (StringObj ''2'')" "\<not> isError (RealObj (Finite 1))" "\<not> isError (IntegerObj 4)"
    "\<not> isError (StringObj ''4'')"
    by simp_all
  have step: "evalStep ?ev2 None 0 fresh = Done (Inr 1, fresh)"
    by (rule evalStep_None)
  have c1: "evalForStatement ?ev ''i'' (IntegerLiteral 1) (IntegerLiteral 4) (Some (StringLiteral ''2''))
        [ExpressionStatement (Identifier ''i'')] 0 fresh
      = forLoop ?ev (fuel ?ev)
          NilObj 1 4 1 ''i'' [ExpressionStatement (Identifier ''i'')] (fst (NewEnclosedEnvironment 0 fresh))
          (snd (Declare (fst (NewEnclosedEnvironment 0 fresh)) ''i'' (IntegerObj 1)
                  (snd (NewEnclosedEnvironment 0 fresh))))"
    by (rule k1) (intro conjI, rule one, rule four, rule s, rule noerr(1), rule noint(1))
  have c2: "(case stmtEval (evaluator (Suc (Suc (Suc (Suc (Suc (Suc (Suc 0)))))))) forStringStep 0 fresh of
         Done (v, st) \<Rightarrow> v | _ \<Rightarrow> NilObj) = IntegerObj 4"
    by (simp add: forStringStep_def evalStatement_def c1 run_simps word_sless_alt)
  have c3: "evalForStatement ?ev2 ''i'' (RealLiteral (Finite 1)) (IntegerLiteral 4) None [seven] 0 fresh
       = Done (ErrorObj ''FOR loop start must be an integer'', fresh)"
    by (rule k3) (intro conjI, rule r, rule noerr(2), rule noint(2), rule four2, rule noerr(3), rule step)
  have c4: "evalForStatement ?ev2 ''i'' (IntegerLiteral 1) (StringLiteral ''4'') None [seven] 0 fresh
       = Done (ErrorObj ''FOR loop end must be an integer'', fresh)"
    by (rule k4) (intro conjI, rule one2, rule s4, rule noerr(4), rule noint(3), rule step)
  have c5: "isError (ErrorObj ''FOR loop start must be an integer'')"
    by (rule k5) (intro conjI, rule r, rule noint(2), rule c3)
  have c6: "isError (ErrorObj ''FOR loop end must be an integer'')"
    by (rule k6) (intro conjI, rule one2, rule s4, rule noint(3), rule c4)
  have up: "countUp 5 (nat (sint (6::int64) - sint (5::int64) + 1)) = [5, 6]"
    "countUp 1 (nat (sint (4::int64) - sint (1::int64) + 1)) = [1, 2, 3, 4]"
    by (simp_all add: countUp_def upt_rec)
  have "sint (6::int64) < 2 ^ 63 - 1 \<and> nat (sint (6::int64) - sint (5::int64) + 1) < Suc (Suc (Suc 0))"
    by simp
  from k7 [OF this, of NilObj "''i''" "[seven]" 0 fresh]
  have c7: "forLoop ?ev2 (Suc (Suc (Suc 0))) NilObj 5 6 1 ''i'' [seven] 0 fresh
       = runBody ?ev2 NilObj [5, 6] ''i'' [seven] 0 fresh"
    by (simp only: up)
  have bound: "sint (4::int64) < 2 ^ 63 - 1" and budget: "nat (sint (4::int64) - sint (1::int64) + 1) < fuel ?ev"
    by simp_all
  have "evalForStatement ?ev ''i'' (IntegerLiteral 1) (IntegerLiteral 4) (Some (StringLiteral ''2''))
        [OutputStatement [Identifier ''i'']] 0 fresh
      = runBody ?ev NilObj (countUp 1 (nat (sint (4::int64) - sint (1::int64) + 1))) ''i''
          [OutputStatement [Identifier ''i'']] (fst (NewEnclosedEnvironment 0 fresh))
          (snd (Declare (fst (NewEnclosedEnvironment 0 fresh)) ''i'' (IntegerObj 1)
                  (snd (NewEnclosedEnvironment 0 fresh))))"
    by (rule k8) (intro conjI, rule one, rule four, rule s, rule noerr(1), rule noint(1), rule bound,
        rule budget)
  then have c8: "evalForStatement ?ev ''i'' (IntegerLiteral 1) (IntegerLiteral 4) (Some (StringLiteral ''2''))
        [OutputStatement [Identifier ''i'']] 0 fresh
      = runBody ?ev NilObj [1, 2, 3, 4] ''i''
          [OutputStatement [Identifier ''i'']] (fst (NewEnclosedEnvironment 0 fresh))
          (snd (Declare (fst (NewEnclosedEnvironment 0 fresh)) ''i'' (IntegerObj 1)
                  (snd (NewEnclosedEnvironment 0 fresh))))"
    by (simp only: up)
  have c9: "(case stmtEval (evaluator (Suc (Suc (Suc (Suc (Suc (Suc (Suc 0)))))))) forOutput 0 fresh of
         Done (v, st) \<Rightarrow> written st | _ \<Rightarrow> [])
       = ''1'' @ [CHR 0x0A] @ ''2'' @ [CHR 0x0A] @ ''3'' @ [CHR 0x0A] @ ''4'' @ [CHR 0x0A]"
  proof -
    have "stmtEval (evaluator (Suc (Suc (Suc (Suc (Suc (Suc (Suc 0)))))))) forOutput 0 fresh
            = runBody ?ev NilObj [1, 2, 3, 4] ''i''
                [OutputStatement [Identifier ''i'']] (fst (NewEnclosedEnvironment 0 fresh))
                (snd (Declare (fst (NewEnclosedEnvironment 0 fresh)) ''i'' (IntegerObj 1)
                        (snd (NewEnclosedEnvironment 0 fresh))))"
      by (simp add: forOutput_def evalStatement_def c8)
    then show ?thesis
      by (rule ssubst) (simp add: run_simps fmt_d_small)
  qed
  from s c1 c2 c3 c4 c5 c6 c7 c8 c9 show ?thesis
    by (simp only: fuel_evaluator simp_thms)
qed


section \<open>Assignment through the environment chain\<close>

lemma scopes_Cons: "\<exists>rest. scopes st e = e # rest"
  by (subst scopes.simps) simp

lemma scopes_eq_Cons: "scopes st e = x # xs \<Longrightarrow> x = e"
  by (subst (asm) scopes.simps) simp

lemma scopes_outer:
  "scopes st e = e # y # ys \<Longrightarrow> \<exists>p. outer (envs st e) = Some p \<and> p < e \<and> scopes st p = y # ys"
  by (subst (asm) scopes.simps) (auto split: option.splits if_splits)

lemma scopes_single:
  assumes "scopes st e = [e]"
  shows "\<not> (\<exists>p. outer (envs st e) = Some p \<and> p < e)"
proof
  assume "\<exists>p. outer (envs st e) = Some p \<and> p < e"
  then obtain p where p: "outer (envs st e) = Some p" "p < e" by blast
  then have "scopes st e = e # scopes st p"
    by (subst scopes.simps) simp
  with assms scopes_Cons [of st p] show False by auto
qed

lemma SetInPlace_constant_here:
  "store (envs st e) name \<noteq> None \<Longrightarrow> constants (envs st e) name \<Longrightarrow>
   SetInPlace e name v st = (ErrorObj (''cannot modify constant: '' @ name), st)"
  by (subst SetInPlace.simps) simp

lemma SetInPlace_variable_here:
  "store (envs st e) name \<noteq> None \<Longrightarrow> \<not> constants (envs st e) name \<Longrightarrow>
   SetInPlace e name v st = (v, setStore e name v st)"
  by (subst SetInPlace.simps) simp

lemma SetInPlace_field:
  "store (envs st e) name = None \<Longrightarrow> fieldOwner st e name = Some i \<Longrightarrow>
   SetInPlace e name v st = (v, setField i name v st)"
  by (subst SetInPlace.simps) simp

lemma SetInPlace_outer:
  "store (envs st e) name = None \<Longrightarrow> fieldOwner st e name = None \<Longrightarrow>
   outer (envs st e) = Some p \<Longrightarrow> p < e \<Longrightarrow>
   SetInPlace e name v st = SetInPlace p name v st"
  by (subst SetInPlace.simps) simp

lemma SetInPlace_outermost:
  "store (envs st e) name = None \<Longrightarrow> fieldOwner st e name = None \<Longrightarrow>
   \<not> (\<exists>p. outer (envs st e) = Some p \<and> p < e) \<Longrightarrow>
   SetInPlace e name v st = (v, setStore e name v st)"
  by (subst SetInPlace.simps) (auto split: option.splits)

lemma SetInPlace_unbound:
  "\<forall>s \<in> set (scopes st e). store (envs st s) name = None \<and> fieldOwner st s name = None \<Longrightarrow>
   SetInPlace e name v st = (v, setStore (last (scopes st e)) name v st)"
proof (induction "scopes st e" arbitrary: e)
  case Nil
  with scopes_Cons [of st e] show ?case by simp
next
  case (Cons x xs)
  have x: "x = e" by (rule scopes_eq_Cons [OF Cons.hyps(2) [symmetric]])
  have here: "store (envs st e) name = None" "fieldOwner st e name = None"
    using Cons.prems Cons.hyps(2) [symmetric] x by auto
  show ?case
  proof (cases xs)
    case Nil
    with Cons.hyps(2) x have single: "scopes st e = [e]" by simp
    from SetInPlace_outermost [OF here scopes_single [OF single]] single
    show ?thesis by simp
  next
    case (Cons y ys)
    with \<open>x # xs = scopes st e\<close> x have sc: "scopes st e = e # y # ys" by simp
    from scopes_outer [OF sc] obtain p where
      p: "outer (envs st e) = Some p" "p < e" "scopes st p = y # ys" by blast
    have "xs = scopes st p" using p(3) Cons by simp
    moreover have "\<forall>s \<in> set (scopes st p). store (envs st s) name = None \<and> fieldOwner st s name = None"
      using Cons.prems sc p(3) by simp
    ultimately have "SetInPlace p name v st = (v, setStore (last (scopes st p)) name v st)"
      by (rule Cons.hyps(1))
    with SetInPlace_outer [OF here p(1,2)] sc p(3) show ?thesis by simp
  qed
qed

lemma SetInPlace_constant_chain:
  "scopes st e = pre @ c # post \<Longrightarrow>
   \<forall>s \<in> set pre. store (envs st s) name = None \<and> fieldOwner st s name = None \<Longrightarrow>
   store (envs st c) name \<noteq> None \<Longrightarrow> constants (envs st c) name \<Longrightarrow>
   SetInPlace e name v st = (ErrorObj (''cannot modify constant: '' @ name), st)"
proof (induction pre arbitrary: e)
  case Nil
  then have "c = e" by (simp add: scopes_eq_Cons)
  with Nil show ?case by (simp add: SetInPlace_constant_here)
next
  case (Cons x pre)
  from Cons.prems(1) have x: "x = e" by (simp add: scopes_eq_Cons)
  obtain y ys where rest: "pre @ c # post = y # ys" by (cases pre) auto
  with Cons.prems(1) x have sc: "scopes st e = e # y # ys" by simp
  from scopes_outer [OF sc] obtain p where
    p: "outer (envs st e) = Some p" "p < e" "scopes st p = y # ys" by blast
  have here: "store (envs st e) name = None" "fieldOwner st e name = None"
    using Cons.prems(2) x by auto
  have "SetInPlace p name v st = (ErrorObj (''cannot modify constant: '' @ name), st)"
    using Cons.IH [of p] p(3) rest Cons.prems by simp
  with SetInPlace_outer [OF here p(1,2)] show ?case by simp
qed

text \<open>What an assignment through \<open>SetInPlace\<close> leaves alone.\<close>

lemma SetInPlace_frame:
  "SetInPlace e name v st = (r, st') \<Longrightarrow>
   (\<forall>a. e < a \<longrightarrow> envs st' a = envs st a)
   \<and> (\<forall>a. outer (envs st' a) = outer (envs st a) \<and> inst (envs st' a) = inst (envs st a)
          \<and> constants (envs st' a) = constants (envs st a))
   \<and> (\<forall>i. Fields (instances st i) name = None \<longrightarrow> instances st' i = instances st i)
   \<and> (\<forall>i. Class (instances st' i) = Class (instances st i))
   \<and> envs_next st' = envs_next st \<and> classes st' = classes st"
proof (induction e name v st arbitrary: r st' rule: SetInPlace.induct)
  case (1 e name val st)
  show ?case
  proof (cases "store (envs st e) name \<noteq> None")
    case True
    with "1.prems" show ?thesis
      by (subst (asm) SetInPlace.simps) (auto simp: setStore_def split: if_splits)
  next
    case False
    show ?thesis
    proof (cases "fieldOwner st e name")
      case (Some i)
      then have "Fields (instances st i) name \<noteq> None"
        by (auto simp: fieldOwner_def split: option.splits if_splits)
      with False Some "1.prems" show ?thesis
        by (subst (asm) SetInPlace.simps) (auto simp: setField_def)
    next
      case None
      show ?thesis
      proof (cases "\<exists>p. outer (envs st e) = Some p \<and> p < e")
        case True
        then obtain p where p: "outer (envs st e) = Some p" "p < e" by blast
        from "1.prems" have "SetInPlace p name val st = (r, st')"
          using False None p by (subst (asm) SetInPlace.simps) simp
        from "1.IH" [OF False None p this] p(2) show ?thesis by auto
      next
        case nop: False
        with False None "1.prems" show ?thesis
          by (subst (asm) SetInPlace.simps) (auto simp: setStore_def split: option.splits if_splits)
      qed
    qed
  qed
qed

lemma Get_here: "store (envs st e) name = Some v \<Longrightarrow> Get st e name = Some v"
  by (subst Get.simps) simp

lemma Get_cong_below:
  "\<forall>a \<le> e. envs st' a = envs st a \<Longrightarrow> instances st' = instances st \<Longrightarrow>
   Get st' e name = Get st e name"
proof (induction st e name rule: Get.induct)
  case (1 st e name)
  show ?case
  proof (cases "\<exists>p. outer (envs st e) = Some p \<and> p < e \<and> store (envs st e) name = None
                  \<and> (case inst (envs st e) of None \<Rightarrow> None | Some i \<Rightarrow> Fields (instances st i) name) = None")
    case True
    then obtain p where p: "outer (envs st e) = Some p" "p < e" "store (envs st e) name = None"
      "(case inst (envs st e) of None \<Rightarrow> None | Some i \<Rightarrow> Fields (instances st i) name) = None"
      by blast
    from "1.IH" [OF p(3) p(4) p(1) p(2)] "1.prems" p(2)
    have "Get st' p name = Get st p name" by simp
    moreover have "envs st' e = envs st e" using "1.prems" by simp
    ultimately show ?thesis
      using p "1.prems"(2) by (subst Get.simps, subst (2) Get.simps) (simp split: option.splits)
  next
    case False
    moreover have "envs st' e = envs st e" using "1.prems" by simp
    ultimately show ?thesis
      using "1.prems"(2)
      by (subst Get.simps, subst (2) Get.simps) (auto split: option.splits)
  qed
qed

lemma Get_after_SetInPlace:
  "SetInPlace e name v st = (r, st') \<Longrightarrow> \<not> isError r \<Longrightarrow> Get st' e name = Some v"
proof (induction e name v st arbitrary: r st' rule: SetInPlace.induct)
  case (1 e name val st)
  show ?case
  proof (cases "store (envs st e) name \<noteq> None")
    case True
    with "1.prems" have "st' = setStore e name val st"
      by (subst (asm) SetInPlace.simps) (auto split: if_splits)
    then show ?thesis by (simp add: Get_here setStore_def)
  next
    case False
    show ?thesis
    proof (cases "fieldOwner st e name")
      case (Some i)
      with False "1.prems" have st': "st' = setField i name val st"
        by (subst (asm) SetInPlace.simps) auto
      from Some have "inst (envs st e) = Some i"
        by (auto simp: fieldOwner_def split: option.splits if_splits)
      with False st' show ?thesis
        by (subst Get.simps) (simp add: setField_def)
    next
      case None
      show ?thesis
      proof (cases "\<exists>p. outer (envs st e) = Some p \<and> p < e")
        case True
        then obtain p where p: "outer (envs st e) = Some p" "p < e" by blast
        from "1.prems" have sip: "SetInPlace p name val st = (r, st')"
          using False None p by (subst (asm) SetInPlace.simps) simp
        from "1.IH" [OF False None p sip "1.prems"(2)] have g: "Get st' p name = Some val" .
        from SetInPlace_frame [OF sip] p(2) have
          same: "envs st' e = envs st e"
          and fields: "\<forall>i. Fields (instances st i) name = None \<longrightarrow> instances st' i = instances st i"
          by auto
        have "(case inst (envs st' e) of None \<Rightarrow> None | Some i \<Rightarrow> Fields (instances st' i) name) = None"
          using None same fields by (auto simp: fieldOwner_def split: option.splits if_splits)
        with False same p g show ?thesis
          by (subst Get.simps) simp
      next
        case nop: False
        with False None "1.prems" have "st' = setStore e name val st"
          by (subst (asm) SetInPlace.simps) (auto split: option.splits if_splits)
        then show ?thesis by (simp add: Get_here setStore_def)
      qed
    qed
  qed
qed


section \<open>Constants\<close>

lemma DeclareConstant_establishes:
  "store (envs (snd (DeclareConstant c name v st)) c) name = Some v
   \<and> constants (envs (snd (DeclareConstant c name v st)) c) name"
  by (simp add: DeclareConstant_def setStore_def)

lemma evalAssignmentStatement_Identifier:
  "exprEval ev valueE e st = Done (val, st1) \<Longrightarrow> \<not> isError val \<Longrightarrow>
   evalAssignmentStatement ev (Identifier name) valueE e st = Done (SetInPlace e name val st1)"
  by (simp add: evalAssignmentStatement_def)

text \<open>
  C7 (as amended). \<open>CONSTANT\<close> binds the name in the current scope and marks it constant
  there. From then on an assignment to the name yields the Error "cannot modify constant"
  and leaves the whole state as it was, when it executes in the scope that holds the
  constant, or in a nested scope from which the constant is the nearest binding of the
  name: no scope between the two binds the name, and none has an active instance with a
  field of the name. A nearer variable of the same name (a DECLARE, a parameter, a FOR
  variable) is assigned instead, without error.
\<close>

theorem constant_violation:
  "(\<forall>c name v.
      store (envs (snd (DeclareConstant c name v st)) c) name = Some v \<and>
      constants (envs (snd (DeclareConstant c name v st)) c) name)
   \<and> (\<forall>e c pre post name v.
      scopes st e = pre @ c # post \<and>
      (\<forall>s \<in> set pre. store (envs st s) name = None \<and> fieldOwner st s name = None) \<and>
      store (envs st c) name \<noteq> None \<and> constants (envs st c) name \<longrightarrow>
      SetInPlace e name v st = (ErrorObj (''cannot modify constant: '' @ name), st))
   \<and> (\<forall>ev e c pre post name valueE val st0.
      exprEval ev valueE e st0 = Done (val, st) \<and> \<not> isError val \<and>
      scopes st e = pre @ c # post \<and>
      (\<forall>s \<in> set pre. store (envs st s) name = None \<and> fieldOwner st s name = None) \<and>
      store (envs st c) name \<noteq> None \<and> constants (envs st c) name \<longrightarrow>
      evalAssignmentStatement ev (Identifier name) valueE e st0 =
        Done (ErrorObj (''cannot modify constant: '' @ name), st))
   \<and> (\<forall>e name v.
      store (envs st e) name \<noteq> None \<and> \<not> constants (envs st e) name \<longrightarrow>
      SetInPlace e name v st = (v, setStore e name v st))"
proof (intro conjI allI impI; (elim conjE)?)
  fix ev :: eval_fns and e c pre post name valueE val st0
  assume "exprEval ev valueE e st0 = Done (val, st)" "\<not> isError val"
    and "scopes st e = pre @ c # post"
    "\<forall>s \<in> set pre. store (envs st s) name = None \<and> fieldOwner st s name = None"
    "store (envs st c) name \<noteq> None" "constants (envs st c) name"
  then show "evalAssignmentStatement ev (Identifier name) valueE e st0 =
        Done (ErrorObj (''cannot modify constant: '' @ name), st)"
    by (simp add: evalAssignmentStatement_Identifier SetInPlace_constant_chain)
qed (simp_all add: DeclareConstant_establishes SetInPlace_constant_chain SetInPlace_variable_here)

text \<open>
  The claim as stated fails when the nested scope declares the name itself: after
  \<open>CONSTANT X = 5\<close>, the body \<open>DECLARE X : INTEGER\<close>, \<open>X <- 7\<close> of a procedure runs
  without error and assigns the procedure's own \<open>X\<close> (in scope 1).
\<close>

theorem constant_violation_counterexample:
  "(case Eval (Suc (Suc (Suc (Suc 0)))) shadowProgram fresh of
      Done (v, st) \<Rightarrow> (v, Get st 0 ''X'', store (envs st 1) ''X'', outer (envs st 1))
    | _ \<Rightarrow> (NilObj, None, None, None))
   = (IntegerObj 7, Some (IntegerObj 5), Some (IntegerObj 7), Some 0)"
  by (simp add: shadowProgram_def run_simps)

lemma withConstant_facts:
  "scopes withConstant 0 = [0]" "scopes withConstantNested 1 = [1, 0]"
  "store (envs withConstant 0) ''X'' = Some (IntegerObj 5)" "constants (envs withConstant 0) ''X''"
  "store (envs withConstantNested 0) ''X'' = Some (IntegerObj 5)"
  "constants (envs withConstantNested 0) ''X''"
  "store (envs withConstantNested 1) ''X'' = None" "fieldOwner withConstantNested 1 ''X'' = None"
proof -
  have o: "outer (envs withConstant 0) = None" "outer (envs withConstantNested 0) = None"
    "outer (envs withConstantNested (Suc 0)) = Some 0"
    by (simp_all add: withConstant_def withConstantNested_def run_simps)
  show "scopes withConstant 0 = [0]"
    by (subst scopes.simps) (simp add: o)
  have "scopes withConstantNested 0 = [0]"
    by (subst scopes.simps) (simp add: o)
  then show "scopes withConstantNested 1 = [1, 0]"
    by (subst scopes.simps) (simp add: o)
qed (simp_all add: withConstant_def withConstantNested_def run_simps)

theorem constant_violation_witness:
  "store (envs withConstant 0) ''X'' = Some (IntegerObj 5) \<and> constants (envs withConstant 0) ''X''
   \<and> SetInPlace 0 ''X'' (IntegerObj 7) withConstant = (ErrorObj ''cannot modify constant: X'', withConstant)
   \<and> SetInPlace 1 ''X'' (IntegerObj 7) withConstantNested
       = (ErrorObj ''cannot modify constant: X'', withConstantNested)
   \<and> evalAssignmentStatement (evaluator (Suc 0)) (Identifier ''X'') (IntegerLiteral 7) 1 withConstantNested
       = Done (ErrorObj ''cannot modify constant: X'', withConstantNested)
   \<and> SetInPlace 1 ''X'' (IntegerObj 7) (snd (Declare 1 ''X'' (IntegerObj 0) withConstantNested))
       = (IntegerObj 7, setStore 1 ''X'' (IntegerObj 7) (snd (Declare 1 ''X'' (IntegerObj 0) withConstantNested)))
   \<and> (case Eval (Suc (Suc (Suc (Suc 0)))) constantProgram fresh of
         Done (v, st) \<Rightarrow> (v, Get st 0 ''X'') | _ \<Rightarrow> (NilObj, None))
       = (ErrorObj ''cannot modify constant: X'', Some (IntegerObj 5))"
proof -
  note k1 = constant_violation [of fresh, THEN conjunct1, rule_format]
  note k2 = constant_violation [of withConstant, THEN conjunct2, THEN conjunct1, rule_format]
  note k2n = constant_violation [of withConstantNested, THEN conjunct2, THEN conjunct1, rule_format]
  note k3 = constant_violation [of withConstantNested, THEN conjunct2, THEN conjunct2, THEN conjunct1, rule_format]
  note k4 = constant_violation [of "snd (Declare 1 ''X'' (IntegerObj 0) withConstantNested)",
      THEN conjunct2, THEN conjunct2, THEN conjunct2, rule_format]
  have c1: "store (envs withConstant 0) ''X'' = Some (IntegerObj 5) \<and> constants (envs withConstant 0) ''X''"
    unfolding withConstant_def by (rule k1)
  have sc0: "scopes withConstant 0 = [] @ 0 # []" and sc1: "scopes withConstantNested 1 = [1] @ 0 # []"
    using withConstant_facts(1,2) by simp_all
  have pre0: "\<forall>s \<in> set []. store (envs withConstant s) ''X'' = None \<and> fieldOwner withConstant s ''X'' = None"
    by simp
  have pre1: "\<forall>s \<in> set [1]. store (envs withConstantNested s) ''X'' = None
                \<and> fieldOwner withConstantNested s ''X'' = None"
    using withConstant_facts(7,8) by simp
  have b0: "store (envs withConstant 0) ''X'' \<noteq> None" and b1: "store (envs withConstantNested 0) ''X'' \<noteq> None"
    by (simp_all add: withConstant_facts)
  have c2: "SetInPlace 0 ''X'' (IntegerObj 7) withConstant = (ErrorObj (''cannot modify constant: '' @ ''X''), withConstant)"
    by (rule k2) (intro conjI, rule sc0, rule pre0, rule b0, rule withConstant_facts(4))
  have c3: "SetInPlace 1 ''X'' (IntegerObj 7) withConstantNested
       = (ErrorObj (''cannot modify constant: '' @ ''X''), withConstantNested)"
    by (rule k2n) (intro conjI, rule sc1, rule pre1, rule b1, rule withConstant_facts(6))
  have lit: "exprEval (evaluator (Suc 0)) (IntegerLiteral 7) 1 withConstantNested
               = Done (IntegerObj 7, withConstantNested)"
    by simp
  have c4: "evalAssignmentStatement (evaluator (Suc 0)) (Identifier ''X'') (IntegerLiteral 7) 1 withConstantNested
       = Done (ErrorObj (''cannot modify constant: '' @ ''X''), withConstantNested)"
    by (rule k3) (intro conjI, rule lit, rule isError_simps(3), rule sc1, rule pre1, rule b1,
        rule withConstant_facts(6))
  have sh: "store (envs (snd (Declare 1 ''X'' (IntegerObj 0) withConstantNested)) 1) ''X'' \<noteq> None"
    "\<not> constants (envs (snd (Declare 1 ''X'' (IntegerObj 0) withConstantNested)) 1) ''X''"
    by (simp_all add: withConstantNested_def withConstant_def run_simps)
  have c5: "SetInPlace 1 ''X'' (IntegerObj 7) (snd (Declare 1 ''X'' (IntegerObj 0) withConstantNested))
       = (IntegerObj 7, setStore 1 ''X'' (IntegerObj 7) (snd (Declare 1 ''X'' (IntegerObj 0) withConstantNested)))"
    by (rule k4) (intro conjI, rule sh(1), rule sh(2))
  have c6: "(case Eval (Suc (Suc (Suc (Suc 0)))) constantProgram fresh of
         Done (v, st) \<Rightarrow> (v, Get st 0 ''X'') | _ \<Rightarrow> (NilObj, None))
       = (ErrorObj ''cannot modify constant: X'', Some (IntegerObj 5))"
    by (simp add: constantProgram_def run_simps)
  from c1 c2 c3 c4 c5 c6 show ?thesis by simp
qed

text \<open>
  C4. An assignment to a name bound nowhere in the chain does not create the binding in
  the scope in which it executes but in the outermost scope of the chain: assigned from
  scope 1, whose outer scope is 0, \<open>y\<close> appears in scope 0; and the unbound \<open>y\<close> that
  the body of a procedure assigns is bound in the global scope 0 after the call, not in
  the scope 1 of the call.
\<close>

theorem unbound_assignment_scope:
  "outer (envs (snd (NewEnclosedEnvironment 0 fresh)) 1) = Some 0
   \<and> SetInPlace 1 ''y'' (IntegerObj 1) (snd (NewEnclosedEnvironment 0 fresh))
       = (IntegerObj 1, setStore 0 ''y'' (IntegerObj 1) (snd (NewEnclosedEnvironment 0 fresh)))
   \<and> store (envs (snd (SetInPlace 1 ''y'' (IntegerObj 1) (snd (NewEnclosedEnvironment 0 fresh)))) 1) ''y'' = None
   \<and> (case Eval (Suc (Suc (Suc (Suc 0)))) undeclaredProgram fresh of
         Done (v, st) \<Rightarrow> (store (envs st 0) ''y'', store (envs st 1) ''y'', outer (envs st 1), envs_next st)
       | _ \<Rightarrow> (None, None, None, 0))
       = (Some (IntegerObj 1), None, Some 0, 2)"
  by (simp add: undeclaredProgram_def run_simps)


section \<open>Parameters\<close>

lemma extendParams_ByRef:
  "extendParams env (map (\<lambda>p. Parameter (Name p) b) params) args st = extendParams env params args st"
  by (induction env params args st rule: extendParams.induct) (simp_all add: Declare_def)

lemma extendParams_frame:
  "envs_next (extendParams env params args st) = envs_next st
   \<and> instances (extendParams env params args st) = instances st
   \<and> (\<forall>a. a \<noteq> env \<longrightarrow> envs (extendParams env params args st) a = envs st a)
   \<and> outer (envs (extendParams env params args st) env) = outer (envs st env)
   \<and> inst (envs (extendParams env params args st) env) = inst (envs st env)
   \<and> constants (envs (extendParams env params args st) env) = constants (envs st env)"
  by (induction env params args st rule: extendParams.induct) (simp_all add: Declare_def setStore_def)

lemma extendParams_store_other:
  "name \<notin> Name ` set params \<Longrightarrow>
   store (envs (extendParams env params args st) env) name = store (envs st env) name"
  by (induction env params args st rule: extendParams.induct) (auto simp: Declare_def setStore_def)

lemma extendParams_store_bound:
  "i < length params \<Longrightarrow> i < length args \<Longrightarrow>
   store (envs (extendParams env params args st) env) (Name (params ! i)) \<noteq> None"
proof (induction env params args st arbitrary: i rule: extendParams.induct)
  case (1 env param params arg args st)
  show ?case
  proof (cases i)
    case 0
    show ?thesis
    proof (cases "Name param \<in> Name ` set params")
      case True
      then obtain j where "j < length params" "Name (params ! j) = Name param"
        by (auto simp: in_set_conv_nth)
      moreover have "j < length args \<or> length args \<le> j" by arith
      ultimately show ?thesis
      proof (cases "j < length args")
        case True
        with \<open>j < length params\<close> \<open>Name (params ! j) = Name param\<close> "1.IH" [of j] 0
        show ?thesis by simp
      next
        case False
        have "\<forall>k. name \<in> dom (store (envs st0 env)) \<longrightarrow>
                name \<in> dom (store (envs (extendParams env ps as st0) env))" for name st0 ps as
          by (induction env ps as st0 rule: extendParams.induct) (auto simp: Declare_def setStore_def)
        then have "Name param \<in> dom (store (envs (extendParams env params args
                     (snd (Declare env (Name param) arg st))) env))"
          by (simp add: Declare_def setStore_def)
        with 0 show ?thesis by auto
      qed
    next
      case False
      with 0 show ?thesis
        by (simp add: extendParams_store_other Declare_def setStore_def)
    qed
  next
    case (Suc j)
    with "1.prems" "1.IH" [of j] show ?thesis by simp
  qed
qed simp_all

lemma extendParams_store_value:
  "distinct (map Name params) \<Longrightarrow> i < length params \<Longrightarrow> i < length args \<Longrightarrow>
   store (envs (extendParams env params args st) env) (Name (params ! i)) = Some (args ! i)"
proof (induction env params args st arbitrary: i rule: extendParams.induct)
  case (1 env param params arg args st)
  show ?case
  proof (cases i)
    case 0
    with "1.prems" show ?thesis
      by (simp add: extendParams_store_other Declare_def setStore_def)
  next
    case (Suc j)
    with "1.prems" "1.IH" [of j] show ?thesis by simp
  qed
qed simp_all

lemma extendFunctionEnv_eq:
  "extendFunctionEnv fnEnv args params callerEnv st =
     (envs_next st, extendParams (envs_next st) params args (snd (NewEnclosedEnvironment fnEnv st)))"
  by (simp add: extendFunctionEnv_def NewEnclosedEnvironment_def)

lemma applyFunction_ByRef:
  "applyFunction ev (FunctionObj n (map (\<lambda>p. Parameter (Name p) b) params) body fnEnv) args callerEnv st =
     applyFunction ev (FunctionObj n params body fnEnv) args callerEnv st"
  "applyFunction ev (ProcedureObj n (map (\<lambda>p. Parameter (Name p) b) params) body fnEnv) args callerEnv st =
     applyFunction ev (ProcedureObj n params body fnEnv) args callerEnv st"
  by (simp_all add: applyFunction_def extendFunctionEnv_eq extendParams_ByRef)

lemma evalStatements_single:
  "stmtEval ev s env st = Done (r, st1) \<Longrightarrow> evalStatements ev [s] env st = Done (r, st1)"
  by (simp add: evalStatements_def)

text \<open>
  A call whose body assigns one of the parameters: the assignment lands in the scope of
  the call, and every scope that existed before the call reads as before.
\<close>

lemma applyFunction_assigns_parameter:
  assumes ext: "extendFunctionEnv fnEnv args params callerEnv st = (e, st1)"
    and i: "i < length params" "i < length args"
    and val: "exprEval (evaluator m) valueE e st1 = Done (val, st1)" "\<not> isError val"
  shows "applyFunction (evaluator (Suc m))
           (ProcedureObj n params [AssignmentStatement (Identifier (Name (params ! i))) valueE] fnEnv)
           args callerEnv st
         = Done (unwrapReturnValue val, setStore e (Name (params ! i)) val st1)"
proof -
  from ext have "e = envs_next st"
    and "st1 = extendParams e params args (snd (NewEnclosedEnvironment fnEnv st))"
    by (auto simp: extendFunctionEnv_eq)
  with extendParams_store_bound [OF i]
  have "store (envs st1 e) (Name (params ! i)) \<noteq> None"
    by blast
  moreover from ext have "\<not> constants (envs st1 e) (Name (params ! i))"
    by (auto simp: extendFunctionEnv_eq extendParams_frame NewEnclosedEnvironment_def emptyEnvironment_def)
  ultimately have set: "SetInPlace e (Name (params ! i)) val st1 = (val, setStore e (Name (params ! i)) val st1)"
    by (rule SetInPlace_variable_here)
  have "stmtEval (evaluator (Suc m)) (AssignmentStatement (Identifier (Name (params ! i))) valueE) e st1
          = Done (val, setStore e (Name (params ! i)) val st1)"
    by (simp add: evalStatement_def evalAssignmentStatement_Identifier [OF val] set)
  then have "evalStatements (evaluator (Suc m))
               [AssignmentStatement (Identifier (Name (params ! i))) valueE] e st1
          = Done (val, setStore e (Name (params ! i)) val st1)"
    by (rule evalStatements_single)
  then show ?thesis
    by (simp add: applyFunction_Procedure ext)
qed

text \<open>
  C8. A parameter marked BYREF is bound exactly as a BYVAL one: \<open>extendFunctionEnv\<close>
  gives the same scope and the same state whatever the marks, so the call of a function
  or of a procedure returns the same value and leaves the same state whatever the marks
  of its parameters. The scope of the call is
  a fresh one, whose outer scope is the closure of the function, and the argument value
  is declared in it under the parameter's name. An assignment to a bound parameter
  therefore changes the store of that fresh scope and nothing else; and no write to the
  fresh scope is visible from any scope that existed before the call, the caller's
  included: every name there reads as it did before the call. In particular, after the
  call of a procedure whose body assigns one of its parameters, every name of every
  scope that existed before the call holds the value it held before.
\<close>

theorem byref_bound_as_byval:
  "(\<forall>fnEnv args params callerEnv b.
      extendFunctionEnv fnEnv args (map (\<lambda>p. Parameter (Name p) b) params) callerEnv st =
      extendFunctionEnv fnEnv args params callerEnv st)
   \<and> (\<forall>fnEnv args params callerEnv e st1 i.
      extendFunctionEnv fnEnv args params callerEnv st = (e, st1) \<and>
      i < length params \<and> i < length args \<and> distinct (map Name params) \<longrightarrow>
      e = envs_next st \<and> outer (envs st1 e) = Some fnEnv \<and>
      store (envs st1 e) (Name (params ! i)) = Some (args ! i))
   \<and> (\<forall>fnEnv args params callerEnv e st1 i v.
      extendFunctionEnv fnEnv args params callerEnv st = (e, st1) \<and>
      i < length params \<and> i < length args \<longrightarrow>
      SetInPlace e (Name (params ! i)) v st1 = (v, setStore e (Name (params ! i)) v st1))
   \<and> (\<forall>fnEnv args params callerEnv e st1 name v scope x.
      extendFunctionEnv fnEnv args params callerEnv st = (e, st1) \<and> scope < envs_next st \<longrightarrow>
      Get (setStore e name v st1) scope x = Get st scope x \<and> Get st1 scope x = Get st scope x)
   \<and> (\<forall>ev n params body fnEnv args callerEnv b.
      applyFunction ev (FunctionObj n (map (\<lambda>p. Parameter (Name p) b) params) body fnEnv) args callerEnv st =
        applyFunction ev (FunctionObj n params body fnEnv) args callerEnv st
      \<and> applyFunction ev (ProcedureObj n (map (\<lambda>p. Parameter (Name p) b) params) body fnEnv) args callerEnv st =
        applyFunction ev (ProcedureObj n params body fnEnv) args callerEnv st)
   \<and> (\<forall>m n fnEnv args params callerEnv e st1 i valueE val.
      extendFunctionEnv fnEnv args params callerEnv st = (e, st1) \<and>
      i < length params \<and> i < length args \<and>
      exprEval (evaluator m) valueE e st1 = Done (val, st1) \<and> \<not> isError val \<longrightarrow>
      (\<exists>st2. applyFunction (evaluator (Suc m))
               (ProcedureObj n params [AssignmentStatement (Identifier (Name (params ! i))) valueE] fnEnv)
               args callerEnv st
             = Done (unwrapReturnValue val, st2)
           \<and> store (envs st2 e) (Name (params ! i)) = Some val
           \<and> (\<forall>scope x. scope < envs_next st \<longrightarrow> Get st2 scope x = Get st scope x)))"
proof (intro conjI allI impI; (elim conjE)?)
  fix fnEnv args params callerEnv b
  show "extendFunctionEnv fnEnv args (map (\<lambda>p. Parameter (Name p) b) params) callerEnv st =
        extendFunctionEnv fnEnv args params callerEnv st"
    by (simp add: extendFunctionEnv_eq extendParams_ByRef)
next
  fix ev :: eval_fns and n params body fnEnv args callerEnv b
  show "applyFunction ev (FunctionObj n (map (\<lambda>p. Parameter (Name p) b) params) body fnEnv) args callerEnv st =
        applyFunction ev (FunctionObj n params body fnEnv) args callerEnv st"
    by (rule applyFunction_ByRef)
  show "applyFunction ev (ProcedureObj n (map (\<lambda>p. Parameter (Name p) b) params) body fnEnv) args callerEnv st =
        applyFunction ev (ProcedureObj n params body fnEnv) args callerEnv st"
    by (rule applyFunction_ByRef)
next
  fix m n fnEnv args params callerEnv e st1 i valueE val
  assume a: "extendFunctionEnv fnEnv args params callerEnv st = (e, st1)"
    "i < length params" "i < length args"
    "exprEval (evaluator m) valueE e st1 = Done (val, st1)" "\<not> isError val"
  let ?st2 = "setStore e (Name (params ! i)) val st1"
  from a(1) have e: "e = envs_next st"
    and st1: "st1 = extendParams e params args (snd (NewEnclosedEnvironment fnEnv st))"
    by (auto simp: extendFunctionEnv_eq)
  have insts: "instances ?st2 = instances st"
    by (simp add: setStore_def st1 extendParams_frame NewEnclosedEnvironment_def)
  have unchanged: "\<forall>scope x. scope < envs_next st \<longrightarrow> Get ?st2 scope x = Get st scope x"
  proof (intro allI impI)
    fix scope x assume "scope < envs_next st"
    then have "\<forall>a \<le> scope. envs ?st2 a = envs st a"
      using e by (simp add: setStore_def st1 extendParams_frame NewEnclosedEnvironment_def)
    then show "Get ?st2 scope x = Get st scope x"
      using insts by (rule Get_cong_below)
  qed
  have "store (envs ?st2 e) (Name (params ! i)) = Some val"
    by (simp add: setStore_def)
  with applyFunction_assigns_parameter [OF a, of n] unchanged
  show "\<exists>st2. applyFunction (evaluator (Suc m))
               (ProcedureObj n params [AssignmentStatement (Identifier (Name (params ! i))) valueE] fnEnv)
               args callerEnv st
             = Done (unwrapReturnValue val, st2)
           \<and> store (envs st2 e) (Name (params ! i)) = Some val
           \<and> (\<forall>scope x. scope < envs_next st \<longrightarrow> Get st2 scope x = Get st scope x)"
    by blast
next
  fix fnEnv args params callerEnv e st1 i
  assume a: "extendFunctionEnv fnEnv args params callerEnv st = (e, st1)"
    "i < length params" "i < length args" "distinct (map Name params)"
  from a(1) show "e = envs_next st"
    by (simp add: extendFunctionEnv_eq)
  from a(1) show "outer (envs st1 e) = Some fnEnv"
    by (auto simp: extendFunctionEnv_eq extendParams_frame NewEnclosedEnvironment_def emptyEnvironment_def)
  from a show "store (envs st1 e) (Name (params ! i)) = Some (args ! i)"
    by (auto simp: extendFunctionEnv_eq extendParams_store_value)
next
  fix fnEnv args params callerEnv e st1 i v
  assume a: "extendFunctionEnv fnEnv args params callerEnv st = (e, st1)"
    "i < length params" "i < length args"
  from a(1) have "e = envs_next st"
    and "st1 = extendParams e params args (snd (NewEnclosedEnvironment fnEnv st))"
    by (auto simp: extendFunctionEnv_eq)
  with extendParams_store_bound [OF a(2,3)]
  have "store (envs st1 e) (Name (params ! i)) \<noteq> None"
    by blast
  moreover from a(1) have "\<not> constants (envs st1 e) (Name (params ! i))"
    by (auto simp: extendFunctionEnv_eq extendParams_frame NewEnclosedEnvironment_def emptyEnvironment_def)
  ultimately show "SetInPlace e (Name (params ! i)) v st1 = (v, setStore e (Name (params ! i)) v st1)"
    by (rule SetInPlace_variable_here)
next
  fix fnEnv args params callerEnv e st1 name v scope x
  assume a: "extendFunctionEnv fnEnv args params callerEnv st = (e, st1)" "scope < envs_next st"
  from a(1) have e: "e = envs_next st"
    and st1: "st1 = extendParams e params args (snd (NewEnclosedEnvironment fnEnv st))"
    by (auto simp: extendFunctionEnv_eq)
  have below: "\<forall>a \<le> scope. envs st1 a = envs st a"
    using a(2) e by (simp add: st1 extendParams_frame NewEnclosedEnvironment_def)
  have insts: "instances st1 = instances st"
    by (simp add: st1 extendParams_frame NewEnclosedEnvironment_def)
  from below insts show "Get st1 scope x = Get st scope x"
    by (rule Get_cong_below)
  have "\<forall>a \<le> scope. envs (setStore e name v st1) a = envs st a"
    using below a(2) e by (simp add: setStore_def)
  moreover have "instances (setStore e name v st1) = instances st"
    using insts by (simp add: setStore_def)
  ultimately show "Get (setStore e name v st1) scope x = Get st scope x"
    by (rule Get_cong_below)
qed

theorem byref_bound_as_byval_witness:
  "extendFunctionEnv 0 [IntegerObj 1, IntegerObj 2] swapParams 0 fresh
     = (1, extendParams 1 swapParams [IntegerObj 1, IntegerObj 2] (snd (NewEnclosedEnvironment 0 fresh)))
   \<and> store (envs (extendParams 1 swapParams [IntegerObj 1, IntegerObj 2] (snd (NewEnclosedEnvironment 0 fresh))) 1)
        (Name (swapParams ! 0)) = Some ([IntegerObj 1, IntegerObj 2] ! 0)
   \<and> SetInPlace 1 (Name (swapParams ! 0)) (IntegerObj 2)
        (extendParams 1 swapParams [IntegerObj 1, IntegerObj 2] (snd (NewEnclosedEnvironment 0 fresh)))
       = (IntegerObj 2, setStore 1 (Name (swapParams ! 0)) (IntegerObj 2)
            (extendParams 1 swapParams [IntegerObj 1, IntegerObj 2] (snd (NewEnclosedEnvironment 0 fresh))))
   \<and> Get (setStore 1 ''A'' (IntegerObj 2)
            (extendParams 1 swapParams [IntegerObj 1, IntegerObj 2] (snd (NewEnclosedEnvironment 0 fresh)))) 0 ''x''
       = Get fresh 0 ''x''
   \<and> (case Eval (Suc (Suc (Suc (Suc 0)))) swapProgram fresh of
         Done (v, st) \<Rightarrow> (Get st 0 ''x'', Get st 0 ''y'', store (envs st 1) ''A'', store (envs st 1) ''B'')
       | _ \<Rightarrow> (None, None, None, None))
       = (Some (IntegerObj 1), Some (IntegerObj 2), Some (IntegerObj 2), Some (IntegerObj 1))
   \<and> applyFunction (evaluator (Suc (Suc (Suc 0)))) (ProcedureObj ''Swap'' swapParams swapBody 0)
        [IntegerObj 1, IntegerObj 2] 0 withXY
       = applyFunction (evaluator (Suc (Suc (Suc 0))))
           (ProcedureObj ''Swap'' [Parameter ''A'' False, Parameter ''B'' False] swapBody 0)
           [IntegerObj 1, IntegerObj 2] 0 withXY
   \<and> (case applyFunction (evaluator (Suc (Suc (Suc 0)))) (ProcedureObj ''Swap'' swapParams swapBody 0)
              [IntegerObj 1, IntegerObj 2] 0 withXY of
         Done (v, st) \<Rightarrow> (Get st 0 ''x'', Get st 0 ''y'', store (envs st 1) ''A'', store (envs st 1) ''B'')
       | _ \<Rightarrow> (None, None, None, None))
       = (Some (IntegerObj 1), Some (IntegerObj 2), Some (IntegerObj 2), Some (IntegerObj 1))
   \<and> (case applyFunction (evaluator (Suc (Suc 0)))
              (ProcedureObj ''Set'' [Parameter ''A'' True]
                 [AssignmentStatement (Identifier ''A'') (IntegerLiteral 7)] 0)
              [IntegerObj 1] 0 withXY of
         Done (v, st) \<Rightarrow> (v, store (envs st 1) ''A'', Get st 0 ''x'', Get st 0 ''y'')
       | _ \<Rightarrow> (NilObj, None, None, None))
       = (IntegerObj 7, Some (IntegerObj 7), Some (IntegerObj 1), Some (IntegerObj 2))"
proof -
  let ?args = "[IntegerObj 1, IntegerObj 2]"
  let ?st1 = "extendParams 1 swapParams ?args (snd (NewEnclosedEnvironment 0 fresh))"
  note k2 = byref_bound_as_byval [of fresh, THEN conjunct2, THEN conjunct1, rule_format]
  note k3 = byref_bound_as_byval [of fresh, THEN conjunct2, THEN conjunct2, THEN conjunct1, rule_format]
  note k4 = byref_bound_as_byval [of fresh, THEN conjunct2, THEN conjunct2, THEN conjunct2,
      THEN conjunct1, rule_format]
  note k5 = byref_bound_as_byval [of withXY, THEN conjunct2, THEN conjunct2, THEN conjunct2,
      THEN conjunct2, THEN conjunct1, rule_format]
  note k6 = byref_bound_as_byval [of withXY, THEN conjunct2, THEN conjunct2, THEN conjunct2,
      THEN conjunct2, THEN conjunct2, rule_format]
  have h: "extendFunctionEnv 0 ?args swapParams 0 fresh = (1, ?st1)"
    by (simp add: extendFunctionEnv_eq fresh_def New_def)
  have len: "0 < length swapParams" "0 < length ?args" "distinct (map Name swapParams)"
    by (simp_all add: swapParams_def)
  have lim: "0 < envs_next fresh"
    by (simp add: fresh_def New_def)
  have c2: "store (envs ?st1 1) (Name (swapParams ! 0)) = Some (?args ! 0)"
    using k2 [OF conjI [OF h conjI [OF len(1) conjI [OF len(2) len(3)]]]] by blast
  have c3: "SetInPlace 1 (Name (swapParams ! 0)) (IntegerObj 2) ?st1
              = (IntegerObj 2, setStore 1 (Name (swapParams ! 0)) (IntegerObj 2) ?st1)"
    by (rule k3) (intro conjI, rule h, rule len(1), rule len(2))
  have c4: "Get (setStore 1 ''A'' (IntegerObj 2) ?st1) 0 ''x'' = Get fresh 0 ''x''"
    using k4 [OF conjI [OF h lim]] by blast
  have c5: "(case Eval (Suc (Suc (Suc (Suc 0)))) swapProgram fresh of
         Done (v, st) \<Rightarrow> (Get st 0 ''x'', Get st 0 ''y'', store (envs st 1) ''A'', store (envs st 1) ''B'')
       | _ \<Rightarrow> (None, None, None, None))
       = (Some (IntegerObj 1), Some (IntegerObj 2), Some (IntegerObj 2), Some (IntegerObj 1))"
    by (simp add: swapProgram_def swapBody_def swapParams_def run_simps)
  let ?ev3 = "evaluator (Suc (Suc (Suc 0)))"
  have "map (\<lambda>p. Parameter (Name p) True) [Parameter ''A'' False, Parameter ''B'' False] = swapParams"
    by (simp add: swapParams_def)
  with k5 [of ?ev3 "''Swap''" True "[Parameter ''A'' False, Parameter ''B'' False]" swapBody 0 ?args 0,
      THEN conjunct2]
  have c6: "applyFunction ?ev3 (ProcedureObj ''Swap'' swapParams swapBody 0) ?args 0 withXY
       = applyFunction ?ev3 (ProcedureObj ''Swap'' [Parameter ''A'' False, Parameter ''B'' False] swapBody 0)
           ?args 0 withXY"
    by simp
  have "(case applyFunction ?ev3 (ProcedureObj ''Swap'' [Parameter ''A'' False, Parameter ''B'' False] swapBody 0)
              ?args 0 withXY of
         Done (v, st) \<Rightarrow> (Get st 0 ''x'', Get st 0 ''y'', store (envs st 1) ''A'', store (envs st 1) ''B'')
       | _ \<Rightarrow> (None, None, None, None))
       = (Some (IntegerObj 1), Some (IntegerObj 2), Some (IntegerObj 2), Some (IntegerObj 1))"
    by (simp add: swapBody_def withXY_def run_simps)
  then have c7: "(case applyFunction ?ev3 (ProcedureObj ''Swap'' swapParams swapBody 0) ?args 0 withXY of
         Done (v, st) \<Rightarrow> (Get st 0 ''x'', Get st 0 ''y'', store (envs st 1) ''A'', store (envs st 1) ''B'')
       | _ \<Rightarrow> (None, None, None, None))
       = (Some (IntegerObj 1), Some (IntegerObj 2), Some (IntegerObj 2), Some (IntegerObj 1))"
    by (simp only: c6)
  let ?stA = "snd (extendFunctionEnv 0 [IntegerObj 1] [Parameter ''A'' True] 0 withXY)"
  have nxt: "envs_next withXY = Suc 0"
    by (simp add: withXY_def run_simps)
  then have hA: "extendFunctionEnv 0 [IntegerObj 1] [Parameter ''A'' True] 0 withXY = (Suc 0, ?stA)"
    by (simp add: extendFunctionEnv_eq)
  have lit: "exprEval (evaluator (Suc 0)) (IntegerLiteral 7) (Suc 0) ?stA = Done (IntegerObj 7, ?stA)"
    by simp
  have "extendFunctionEnv 0 [IntegerObj 1] [Parameter ''A'' True] 0 withXY = (Suc 0, ?stA) \<and>
        0 < length [Parameter ''A'' True] \<and> 0 < length [IntegerObj 1] \<and>
        exprEval (evaluator (Suc 0)) (IntegerLiteral 7) (Suc 0) ?stA = Done (IntegerObj 7, ?stA) \<and>
        \<not> isError (IntegerObj 7)"
    using hA lit by simp
  from k6 [OF this, of "''Set''"] obtain st2 where
    call: "applyFunction (evaluator (Suc (Suc 0)))
             (ProcedureObj ''Set'' [Parameter ''A'' True]
                [AssignmentStatement (Identifier ''A'') (IntegerLiteral 7)] 0)
             [IntegerObj 1] 0 withXY = Done (IntegerObj 7, st2)"
    and bound: "store (envs st2 (Suc 0)) ''A'' = Some (IntegerObj 7)"
    and same: "\<forall>scope x. scope < envs_next withXY \<longrightarrow> Get st2 scope x = Get withXY scope x"
    by (auto simp: unwrapReturnValue_def)
  from same nxt have "Get st2 0 ''x'' = Get withXY 0 ''x''" "Get st2 0 ''y'' = Get withXY 0 ''y''"
    by simp_all
  moreover have "Get withXY 0 ''x'' = Some (IntegerObj 1)" "Get withXY 0 ''y'' = Some (IntegerObj 2)"
    by (simp_all add: withXY_def run_simps)
  ultimately have c8: "(case applyFunction (evaluator (Suc (Suc 0)))
              (ProcedureObj ''Set'' [Parameter ''A'' True]
                 [AssignmentStatement (Identifier ''A'') (IntegerLiteral 7)] 0)
              [IntegerObj 1] 0 withXY of
         Done (v, st) \<Rightarrow> (v, store (envs st 1) ''A'', Get st 0 ''x'', Get st 0 ''y'')
       | _ \<Rightarrow> (NilObj, None, None, None))
       = (IntegerObj 7, Some (IntegerObj 7), Some (IntegerObj 1), Some (IntegerObj 2))"
    using call bound by simp
  from h c2 c3 c4 c5 c6 c7 c8 show ?thesis by (intro conjI)
qed


section \<open>INPUT\<close>

lemma SetInPlace_error_unchanged:
  "SetInPlace e name v st = (r, st') \<Longrightarrow> isError r \<Longrightarrow> \<not> isError v \<Longrightarrow> st' = st"
proof (induction e name v st arbitrary: r st' rule: SetInPlace.induct)
  case (1 e name val st)
  show ?case
  proof (cases "store (envs st e) name \<noteq> None")
    case True
    with "1.prems" show ?thesis
      by (subst (asm) SetInPlace.simps) (auto split: if_splits)
  next
    case False
    show ?thesis
    proof (cases "fieldOwner st e name")
      case (Some i)
      with False "1.prems" show ?thesis
        by (subst (asm) SetInPlace.simps) auto
    next
      case None
      show ?thesis
      proof (cases "\<exists>p. outer (envs st e) = Some p \<and> p < e")
        case True
        then obtain p where p: "outer (envs st e) = Some p" "p < e" by blast
        from "1.prems" have "SetInPlace p name val st = (r, st')"
          using False None p by (subst (asm) SetInPlace.simps) simp
        from "1.IH" [OF False None p this "1.prems"(2,3)] show ?thesis .
      next
        case nop: False
        with False None "1.prems" show ?thesis
          by (subst (asm) SetInPlace.simps) (auto split: option.splits if_splits)
      qed
    qed
  qed
qed

lemma TrimRight_decompose:
  "\<exists>t. s = TrimRight s @ t \<and> set t \<subseteq> {CHR 0x0D, CHR 0x0A}
       \<and> (TrimRight s = [] \<or> (last (TrimRight s) \<noteq> CHR 0x0D \<and> last (TrimRight s) \<noteq> CHR 0x0A))"
proof -
  let ?P = "\<lambda>c. c = CHR 0x0D \<or> c = CHR 0x0A"
  have "s = rev (dropWhile ?P (rev s)) @ rev (takeWhile ?P (rev s))"
    by (metis rev_append rev_rev_ident takeWhile_dropWhile_id)
  moreover have "set (rev (takeWhile ?P (rev s))) \<subseteq> {CHR 0x0D, CHR 0x0A}"
    using set_takeWhileD by fastforce
  moreover have "rev (dropWhile ?P (rev s)) = [] \<or>
      (last (rev (dropWhile ?P (rev s))) \<noteq> CHR 0x0D \<and> last (rev (dropWhile ?P (rev s))) \<noteq> CHR 0x0A)"
  proof (cases "dropWhile ?P (rev s)")
    case Nil
    then show ?thesis by simp
  next
    case (Cons c cs)
    then have "\<not> ?P c" using hd_dropWhile [of ?P "rev s"] by auto
    with Cons show ?thesis by simp
  qed
  ultimately show ?thesis
    unfolding TrimRight_def by blast
qed

lemma ReadString_line:
  assumes "CHR 0x0A \<notin> set l"
  shows "ReadString (Data (l @ CHR 0x0A # d) # rest) [] = (l @ [CHR 0x0A], None, rest)"
proof -
  from assms have "\<forall>c \<in> set l. c \<noteq> CHR 0x0A" by auto
  then have "takeWhile (\<lambda>c. c \<noteq> CHR 0x0A) (l @ CHR 0x0A # d) = l"
    by (simp add: takeWhile_append2)
  then show ?thesis by simp
qed

lemma evalInputStatement_Identifier:
  assumes "ReadString (reads st) [] = (line, err, rest)" and "\<forall>m. err \<noteq> Some (OtherError m)"
  shows "evalInputStatement ev (Identifier name) env st =
     Done (NullObj, snd (SetInPlace env name (StringObj (TrimRight line)) (st\<lparr>reads := rest\<rparr>)))"
proof (cases err)
  case None
  with assms(1) show ?thesis by (simp add: evalInputStatement_def)
next
  case (Some a)
  with assms(2) have "a = EOF" by (cases a) auto
  with Some assms(1) show ?thesis by (simp add: evalInputStatement_def)
qed

lemma evalInputStatement_ArrayAccess:
  assumes "ReadString (reads st) [] = (line, err, rest)" and "\<forall>m. err \<noteq> Some (OtherError m)"
    and "exprEval ev arrayE env (st\<lparr>reads := rest\<rparr>) = Done (ArrayObj a, st2)"
    and "evalIndices ev [] indexEs env st2 = Done (Inr indices, st3)"
  shows "evalInputStatement ev (ArrayAccess arrayE indexEs) env st =
     Done (StringObj (TrimRight line), setElement a (GetIndex indices) (StringObj (TrimRight line)) st3)"
proof (cases err)
  case None
  with assms(1,3,4) show ?thesis
    by (simp add: evalInputStatement_def evalArrayAssignment_def)
next
  case (Some e)
  with assms(2) have "e = EOF" by (cases e) auto
  with Some assms(1,3,4) show ?thesis
    by (simp add: evalInputStatement_def evalArrayAssignment_def)
qed

text \<open>
  C9 (as amended). An INPUT statement whose read succeeds (no error other than end of
  input) assigns to its target the String made of the line without its trailing carriage
  returns and newlines, whatever the target held before and whatever type it was declared
  with; the line is not converted and no type error is raised. For an identifier that
  \<open>SetInPlace\<close> assigns (a variable of the current scope, for one) the statement
  evaluates to Null and the name then reads as that String; for an element of an array
  the element holds that String, which is also the value of the statement.
  \<open>TrimRight\<close> removes exactly the longest suffix made of carriage returns and newlines,
  and the read stops after the first newline.
\<close>

theorem input_assigns_string:
  "(\<forall>name line err rest r st'.
      ReadString (reads st) [] = (line, err, rest) \<and> (\<forall>m. err \<noteq> Some (OtherError m)) \<and>
      SetInPlace env name (StringObj (TrimRight line)) (st\<lparr>reads := rest\<rparr>) = (r, st') \<and> \<not> isError r \<longrightarrow>
      evalInputStatement ev (Identifier name) env st = Done (NullObj, st') \<and>
      Get st' env name = Some (StringObj (TrimRight line)))
   \<and> (\<forall>name line err rest.
      ReadString (reads st) [] = (line, err, rest) \<and> (\<forall>m. err \<noteq> Some (OtherError m)) \<and>
      store (envs st env) name \<noteq> None \<and> \<not> constants (envs st env) name \<longrightarrow>
      evalInputStatement ev (Identifier name) env st =
        Done (NullObj, setStore env name (StringObj (TrimRight line)) (st\<lparr>reads := rest\<rparr>)))
   \<and> (\<forall>arrayE indexEs line err rest a st2 indices st3.
      ReadString (reads st) [] = (line, err, rest) \<and> (\<forall>m. err \<noteq> Some (OtherError m)) \<and>
      exprEval ev arrayE env (st\<lparr>reads := rest\<rparr>) = Done (ArrayObj a, st2) \<and>
      evalIndices ev [] indexEs env st2 = Done (Inr indices, st3) \<longrightarrow>
      evalInputStatement ev (ArrayAccess arrayE indexEs) env st =
        Done (StringObj (TrimRight line),
              setElement a (GetIndex indices) (StringObj (TrimRight line)) st3) \<and>
      Elements (arrays (setElement a (GetIndex indices) (StringObj (TrimRight line)) st3) a)
        (GetIndex indices) = Some (StringObj (TrimRight line)))
   \<and> (\<forall>s. \<exists>t. s = TrimRight s @ t \<and> set t \<subseteq> {CHR 0x0D, CHR 0x0A}
          \<and> (TrimRight s = [] \<or> (last (TrimRight s) \<noteq> CHR 0x0D \<and> last (TrimRight s) \<noteq> CHR 0x0A)))
   \<and> (\<forall>l d rest. CHR 0x0A \<notin> set l \<longrightarrow>
          ReadString (Data (l @ CHR 0x0A # d) # rest) [] = (l @ [CHR 0x0A], None, rest))"
proof (intro conjI allI impI; (elim conjE)?)
  fix name line err rest r st'
  assume a: "ReadString (reads st) [] = (line, err, rest)" "\<forall>m. err \<noteq> Some (OtherError m)"
    "SetInPlace env name (StringObj (TrimRight line)) (st\<lparr>reads := rest\<rparr>) = (r, st')"
    and r: "\<not> isError r"
  from evalInputStatement_Identifier [OF a(1,2)] a(3)
  show "evalInputStatement ev (Identifier name) env st = Done (NullObj, st')"
    by simp
  show "Get st' env name = Some (StringObj (TrimRight line))"
    using Get_after_SetInPlace [OF a(3) r] .
next
  fix name line err rest
  assume a: "ReadString (reads st) [] = (line, err, rest)" "\<forall>m. err \<noteq> Some (OtherError m)"
    and b: "store (envs st env) name \<noteq> None" "\<not> constants (envs st env) name"
  from b have "SetInPlace env name (StringObj (TrimRight line)) (st\<lparr>reads := rest\<rparr>)
                 = (StringObj (TrimRight line), setStore env name (StringObj (TrimRight line)) (st\<lparr>reads := rest\<rparr>))"
    by (intro SetInPlace_variable_here) simp_all
  with evalInputStatement_Identifier [OF a]
  show "evalInputStatement ev (Identifier name) env st =
        Done (NullObj, setStore env name (StringObj (TrimRight line)) (st\<lparr>reads := rest\<rparr>))"
    by simp
next
  fix arrayE indexEs line err rest a st2 indices st3
  assume "ReadString (reads st) [] = (line, err, rest)" "\<forall>m. err \<noteq> Some (OtherError m)"
    "exprEval ev arrayE env (st\<lparr>reads := rest\<rparr>) = Done (ArrayObj a, st2)"
    "evalIndices ev [] indexEs env st2 = Done (Inr indices, st3)"
  then show "evalInputStatement ev (ArrayAccess arrayE indexEs) env st =
        Done (StringObj (TrimRight line),
              setElement a (GetIndex indices) (StringObj (TrimRight line)) st3)"
    by (rule evalInputStatement_ArrayAccess)
  show "Elements (arrays (setElement a (GetIndex indices) (StringObj (TrimRight line)) st3) a)
        (GetIndex indices) = Some (StringObj (TrimRight line))"
    by (simp add: setElement_def)
next
  fix s
  show "\<exists>t. s = TrimRight s @ t \<and> set t \<subseteq> {CHR 0x0D, CHR 0x0A}
          \<and> (TrimRight s = [] \<or> (last (TrimRight s) \<noteq> CHR 0x0D \<and> last (TrimRight s) \<noteq> CHR 0x0A))"
    by (rule TrimRight_decompose)
next
  fix l d rest
  assume "CHR 0x0A \<notin> set l"
  then show "ReadString (Data (l @ CHR 0x0A # d) # rest) [] = (l @ [CHR 0x0A], None, rest)"
    by (rule ReadString_line)
qed

text \<open>
  The claim as stated fails for a constant target: after \<open>CONSTANT C = 1\<close>, the
  statement \<open>INPUT C\<close> reads the line, and \<open>C\<close> is still Integer 1 and not a String.
\<close>

theorem input_assigns_string_counterexample:
  "(case Eval (Suc (Suc 0)) constantInputProgram (SetInput typed42 fresh) of
      Done (v, st) \<Rightarrow> (v, Get st 0 ''C'', reads st)
    | _ \<Rightarrow> (NilObj, None, []))
   = (NullObj, Some (IntegerObj 1), [])"
  by (simp add: constantInputProgram_def typed42_def run_simps)

theorem input_assigns_string_witness:
  "Get withInteger 0 ''n'' = Some (IntegerObj 0)
   \<and> ReadString (reads withInteger) [] = (''42'' @ [CHR 0x0D, CHR 0x0A], None, [])
   \<and> evalInputStatement (evaluator 0) (Identifier ''n'') 0 withInteger
       = Done (NullObj, setStore 0 ''n'' (StringObj ''42'') (withInteger\<lparr>reads := []\<rparr>))
   \<and> Get (setStore 0 ''n'' (StringObj ''42'') (withInteger\<lparr>reads := []\<rparr>)) 0 ''n'' = Some (StringObj ''42'')
   \<and> evalInputStatement (evaluator (Suc 0)) (Identifier ''n'') 0 withInteger
       = Done (NullObj, setStore 0 ''n'' (StringObj ''42'') (withInteger\<lparr>reads := []\<rparr>))
   \<and> evalInputStatement (evaluator (Suc 0)) (ArrayAccess (Identifier ''arr'') [IntegerLiteral 2]) 0 withArray
       = Done (StringObj ''42'', setElement 0 ''2'' (StringObj ''42'') (withArray\<lparr>reads := []\<rparr>))
   \<and> Elements (arrays (setElement 0 ''2'' (StringObj ''42'') (withArray\<lparr>reads := []\<rparr>)) 0) ''2''
       = Some (StringObj ''42'')
   \<and> ReadString (Data ((''42'' @ [CHR 0x0D]) @ CHR 0x0A # ''43'') # []) []
       = ((''42'' @ [CHR 0x0D]) @ [CHR 0x0A], None, [])
   \<and> (case Eval (Suc (Suc 0)) inputProgram (SetInput typed42 fresh) of
         Done (v, st) \<Rightarrow> (v, Get st 0 ''n'') | _ \<Rightarrow> (NilObj, None))
       = (NullObj, Some (StringObj ''42''))"
proof -
  let ?line = "''42'' @ [CHR 0x0D, CHR 0x0A]"
  let ?st' = "setStore 0 ''n'' (StringObj ''42'') (withInteger\<lparr>reads := []\<rparr>)"
  let ?ev1 = "evaluator (Suc 0)"
  note k1 = input_assigns_string [of withInteger 0 "evaluator 0", THEN conjunct1, rule_format]
  note k2 = input_assigns_string [of withInteger 0 ?ev1, THEN conjunct2, THEN conjunct1, rule_format]
  note k3 = input_assigns_string [of withArray 0 ?ev1,
      THEN conjunct2, THEN conjunct2, THEN conjunct1, rule_format]
  note k5 = input_assigns_string [of fresh 0 "evaluator 0",
      THEN conjunct2, THEN conjunct2, THEN conjunct2, THEN conjunct2, rule_format]
  have trim: "TrimRight ?line = ''42''"
    by (simp add: TrimRight_def)
  have before: "Get withInteger 0 ''n'' = Some (IntegerObj 0)"
    by (simp add: withInteger_def run_simps)
  have rd: "ReadString (reads withInteger) [] = (?line, None, [])"
    by (simp add: withInteger_def typed42_def run_simps)
  have ok: "\<forall>m. (None :: ioError option) \<noteq> Some (OtherError m)"
    by simp
  have sip: "SetInPlace 0 ''n'' (StringObj (TrimRight ?line)) (withInteger\<lparr>reads := []\<rparr>)
               = (StringObj ''42'', ?st')"
    by (subst SetInPlace.simps) (simp add: trim withInteger_def run_simps)
  have noerr: "\<not> isError (StringObj ''42'')"
    by simp
  from k1 [OF conjI [OF rd conjI [OF ok conjI [OF sip noerr]]]] trim
  have c1: "evalInputStatement (evaluator 0) (Identifier ''n'') 0 withInteger = Done (NullObj, ?st')"
    and c2: "Get ?st' 0 ''n'' = Some (StringObj ''42'')"
    by simp_all
  have declared: "store (envs withInteger 0) ''n'' \<noteq> None" "\<not> constants (envs withInteger 0) ''n''"
    by (simp_all add: withInteger_def run_simps)
  have "evalInputStatement ?ev1 (Identifier ''n'') 0 withInteger
          = Done (NullObj, setStore 0 ''n'' (StringObj (TrimRight ?line)) (withInteger\<lparr>reads := []\<rparr>))"
    by (rule k2) (intro conjI, rule rd, rule ok, rule declared(1), rule declared(2))
  then have c3: "evalInputStatement ?ev1 (Identifier ''n'') 0 withInteger = Done (NullObj, ?st')"
    by (simp only: trim)
  have rda: "ReadString (reads withArray) [] = (?line, None, [])"
    by (simp add: withArray_def typed42_def run_simps)
  have arr: "exprEval ?ev1 (Identifier ''arr'') 0 (withArray\<lparr>reads := []\<rparr>)
               = Done (ArrayObj 0, withArray\<lparr>reads := []\<rparr>)"
    by (simp add: withArray_def run_simps)
  have idx: "evalIndices ?ev1 [] [IntegerLiteral 2] 0 (withArray\<lparr>reads := []\<rparr>)
               = Done (Inr [2], withArray\<lparr>reads := []\<rparr>)"
    by simp
  have key: "GetIndex [2] = ''2''"
    by (simp add: GetIndex_def fmt_d_small)
  from k3 [OF conjI [OF rda conjI [OF ok conjI [OF arr idx]]]]
  have c4: "evalInputStatement ?ev1 (ArrayAccess (Identifier ''arr'') [IntegerLiteral 2]) 0 withArray
       = Done (StringObj ''42'', setElement 0 ''2'' (StringObj ''42'') (withArray\<lparr>reads := []\<rparr>))"
    and c5: "Elements (arrays (setElement 0 ''2'' (StringObj ''42'') (withArray\<lparr>reads := []\<rparr>)) 0) ''2''
       = Some (StringObj ''42'')"
    by (simp_all only: trim key simp_thms)
  have nl: "CHR 0x0A \<notin> set (''42'' @ [CHR 0x0D])"
    by simp
  have c6: "ReadString (Data ((''42'' @ [CHR 0x0D]) @ CHR 0x0A # ''43'') # []) []
       = ((''42'' @ [CHR 0x0D]) @ [CHR 0x0A], None, [])"
    by (rule k5) (rule nl)
  have c7: "(case Eval (Suc (Suc 0)) inputProgram (SetInput typed42 fresh) of
         Done (v, st) \<Rightarrow> (v, Get st 0 ''n'') | _ \<Rightarrow> (NilObj, None))
       = (NullObj, Some (StringObj ''42''))"
    by (simp add: inputProgram_def typed42_def run_simps)
  from before rd c1 c2 c3 c4 c5 c6 c7 show ?thesis by (intro conjI)
qed


section \<open>Method environments\<close>

lemma ancestors_cong: "classes st' = classes st \<Longrightarrow> ancestors st' c = ancestors st c"
proof (induction st c rule: ancestors.induct)
  case (1 st c)
  show ?case
  proof (cases "\<exists>p. Parent (classes st c) = Some p \<and> p < c")
    case True
    then obtain p where p: "Parent (classes st c) = Some p" "p < c" by blast
    from "1.IH" [OF p "1.prems"] p "1.prems" show ?thesis
      by (subst ancestors.simps, subst (2) ancestors.simps) simp
  next
    case False
    with "1.prems" show ?thesis
      by (subst ancestors.simps, subst (2) ancestors.simps) (auto split: option.splits)
  qed
qed

lemma lookupIn_cong: "classes st' = classes st \<Longrightarrow> lookupIn st' cs name = lookupIn st cs name"
  by (induction cs) (simp_all split: option.splits)

lemma bindInheritedMethods_frame:
  "classes (bindInheritedMethods e i p st) = classes st"
  "instances (bindInheritedMethods e i p st) = instances st"
  "envs_next (bindInheritedMethods e i p st) = envs_next st"
  "a \<noteq> e \<Longrightarrow> envs (bindInheritedMethods e i p st) a = envs st a"
  "outer (envs (bindInheritedMethods e i p st) e) = outer (envs st e)"
  "inst (envs (bindInheritedMethods e i p st) e) = inst (envs st e)"
  "constants (envs (bindInheritedMethods e i p st) e) = constants (envs st e)"
  by (simp_all add: bindInheritedMethods_def)

lemma fold_bindInheritedMethods_frame:
  "classes (fold (bindInheritedMethods e i) cs st) = classes st"
  "instances (fold (bindInheritedMethods e i) cs st) = instances st"
  "envs_next (fold (bindInheritedMethods e i) cs st) = envs_next st"
  "a \<noteq> e \<Longrightarrow> envs (fold (bindInheritedMethods e i) cs st) a = envs st a"
  "outer (envs (fold (bindInheritedMethods e i) cs st) e) = outer (envs st e)"
  "inst (envs (fold (bindInheritedMethods e i) cs st) e) = inst (envs st e)"
  "constants (envs (fold (bindInheritedMethods e i) cs st) e) = constants (envs st e)"
  by (induction cs arbitrary: st; simp add: bindInheritedMethods_frame)+

lemma fold_bindInheritedMethods_store:
  "store (envs (fold (bindInheritedMethods e i) cs st) e) name =
     (case store (envs st e) name of
        Some v \<Rightarrow> Some v
      | None \<Rightarrow> map_option (BoundMethodObj i) (lookupIn st cs name))"
proof (induction cs arbitrary: st)
  case Nil
  show ?case by (simp split: option.splits)
next
  case (Cons c cs)
  have "lookupIn (bindInheritedMethods e i c st) cs name = lookupIn st cs name"
    by (rule lookupIn_cong) (simp add: bindInheritedMethods_frame)
  moreover have "store (envs (bindInheritedMethods e i c st) e) name =
      (case store (envs st e) name of
         Some v \<Rightarrow> Some v
       | None \<Rightarrow> map_option (BoundMethodObj i) (Methods (classes st c) name))"
    by (simp add: bindInheritedMethods_def split: option.splits)
  ultimately show ?case
    by (simp add: Cons.IH split: option.splits)
qed

lemma bindOwnMethods_frame:
  "classes (bindOwnMethods e i c st) = classes st"
  "instances (bindOwnMethods e i c st) = instances st"
  "envs_next (bindOwnMethods e i c st) = envs_next st"
  "a \<noteq> e \<Longrightarrow> envs (bindOwnMethods e i c st) a = envs st a"
  "outer (envs (bindOwnMethods e i c st) e) = outer (envs st e)"
  "inst (envs (bindOwnMethods e i c st) e) = inst (envs st e)"
  "constants (envs (bindOwnMethods e i c st) e) = constants (envs st e)"
  "store (envs (bindOwnMethods e i c st) e) name =
     (case Methods (classes st c) name of
        Some method \<Rightarrow> Some (BoundMethodObj i method)
      | None \<Rightarrow> store (envs st e) name)"
  by (simp_all add: bindOwnMethods_def)

text \<open>The scope before the methods are bound: fresh, with \<open>this\<close> and, with a parent class, \<open>SUPER\<close>.\<close>

lemma createMethodEnv_steps:
  assumes "createMethodEnv instance callerEnv st = (e, st')"
  obtains st4 where "e = envs_next st"
    and "st' = fold (bindInheritedMethods e instance) (ancestors st (Class (instances st instance)))
                 (bindOwnMethods e instance (Class (instances st instance)) st4)"
    and "classes st4 = classes st" and "instances st4 = instances st"
    and "envs_next st4 = Suc (envs_next st)"
    and "\<forall>a. a \<noteq> e \<longrightarrow> envs st4 a = envs st a"
    and "outer (envs st4 e) = Some callerEnv" and "inst (envs st4 e) = Some instance"
    and "constants (envs st4 e) = (\<lambda>name. False)"
    and "store (envs st4 e) =
           (\<lambda>name. if name = ''SUPER'' \<and> Parent (classes st (Class (instances st instance))) \<noteq> None
                    then Some (SuperObj instance (Parent (classes st (Class (instances st instance)))))
                    else if name = ''this'' then Some (InstanceObj instance) else None)"
proof -
  let ?e = "envs_next st"
  let ?c = "Class (instances st instance)"
  let ?st1 = "snd (NewEnclosedEnvironment callerEnv st)"
  let ?st2 = "?st1\<lparr>envs := (envs ?st1)(?e := (envs ?st1 ?e)\<lparr>inst := Some instance\<rparr>)\<rparr>"
  let ?st3 = "snd (Declare ?e ''this'' (InstanceObj instance) ?st2)"
  let ?st4 = "case Parent (classes ?st3 ?c) of
                Some p \<Rightarrow> snd (Declare ?e ''SUPER'' (SuperObj instance (Some p)) ?st3)
              | None \<Rightarrow> ?st3"
  have st3: "classes ?st3 = classes st" "instances ?st3 = instances st"
    "envs_next ?st3 = Suc (envs_next st)" "\<forall>a. a \<noteq> ?e \<longrightarrow> envs ?st3 a = envs st a"
    "outer (envs ?st3 ?e) = Some callerEnv" "inst (envs ?st3 ?e) = Some instance"
    "constants (envs ?st3 ?e) = (\<lambda>name. False)"
    "store (envs ?st3 ?e) = (\<lambda>name. if name = ''this'' then Some (InstanceObj instance) else None)"
    by (simp_all add: NewEnclosedEnvironment_def Declare_def setStore_def emptyEnvironment_def fun_eq_iff)
  have st4: "classes ?st4 = classes st" "instances ?st4 = instances st"
    "envs_next ?st4 = Suc (envs_next st)" "\<forall>a. a \<noteq> ?e \<longrightarrow> envs ?st4 a = envs st a"
    "outer (envs ?st4 ?e) = Some callerEnv" "inst (envs ?st4 ?e) = Some instance"
    "constants (envs ?st4 ?e) = (\<lambda>name. False)"
    "store (envs ?st4 ?e) =
           (\<lambda>name. if name = ''SUPER'' \<and> Parent (classes st ?c) \<noteq> None
                    then Some (SuperObj instance (Parent (classes st ?c)))
                    else if name = ''this'' then Some (InstanceObj instance) else None)"
    using st3 by (cases "Parent (classes st ?c)"; simp add: Declare_def setStore_def fun_eq_iff)+
  have fstNE: "fst (NewEnclosedEnvironment callerEnv st) = ?e"
    by (simp add: NewEnclosedEnvironment_def)
  have c3: "Class (instances ?st3 instance) = ?c"
    by (simp only: st3(2))
  have anc: "ancestors (bindOwnMethods ?e instance ?c ?st4) ?c = ancestors st ?c"
    by (rule ancestors_cong) (simp only: bindOwnMethods_frame st4)
  have "createMethodEnv instance callerEnv st =
          (?e, fold (bindInheritedMethods ?e instance) (ancestors st ?c) (bindOwnMethods ?e instance ?c ?st4))"
    by (simp only: createMethodEnv_def Let_def split_beta fstNE c3 anc)
  with assms have "e = ?e"
    and "st' = fold (bindInheritedMethods e instance) (ancestors st ?c) (bindOwnMethods e instance ?c ?st4)"
    by auto
  with st4 that [of ?st4] show thesis by blast
qed

lemma createMethodEnv_shape:
  assumes "createMethodEnv instance callerEnv st = (e, st')"
  shows "e = envs_next st" and "envs_next st' = Suc (envs_next st)"
    and "\<forall>a. a \<noteq> e \<longrightarrow> envs st' a = envs st a"
    and "instances st' = instances st" and "classes st' = classes st"
    and "outer (envs st' e) = Some callerEnv" and "inst (envs st' e) = Some instance"
    and "constants (envs st' e) = (\<lambda>name. False)"
proof -
  from assms obtain st4 where e: "e = envs_next st"
    and st': "st' = fold (bindInheritedMethods e instance) (ancestors st (Class (instances st instance)))
                 (bindOwnMethods e instance (Class (instances st instance)) st4)"
    and st4: "classes st4 = classes st" "instances st4 = instances st"
      "envs_next st4 = Suc (envs_next st)" "\<forall>a. a \<noteq> e \<longrightarrow> envs st4 a = envs st a"
      "outer (envs st4 e) = Some callerEnv" "inst (envs st4 e) = Some instance"
      "constants (envs st4 e) = (\<lambda>name. False)"
    by (rule createMethodEnv_steps)
  show "e = envs_next st" by (rule e)
  show "envs_next st' = Suc (envs_next st)"
    by (simp only: st' fold_bindInheritedMethods_frame bindOwnMethods_frame st4)
  show "\<forall>a. a \<noteq> e \<longrightarrow> envs st' a = envs st a"
    using st4(4) by (simp add: st' fold_bindInheritedMethods_frame bindOwnMethods_frame)
  show "instances st' = instances st"
    by (simp only: st' fold_bindInheritedMethods_frame bindOwnMethods_frame st4)
  show "classes st' = classes st"
    by (simp only: st' fold_bindInheritedMethods_frame bindOwnMethods_frame st4)
  show "outer (envs st' e) = Some callerEnv"
    by (simp only: st' fold_bindInheritedMethods_frame bindOwnMethods_frame st4)
  show "inst (envs st' e) = Some instance"
    by (simp only: st' fold_bindInheritedMethods_frame bindOwnMethods_frame st4)
  show "constants (envs st' e) = (\<lambda>name. False)"
    by (simp only: st' fold_bindInheritedMethods_frame bindOwnMethods_frame st4)
qed

lemma createMethodEnv_store:
  assumes "createMethodEnv instance callerEnv st = (e, st')"
  shows "store (envs st' e) name =
     (case Methods (classes st (Class (instances st instance))) name of
        Some method \<Rightarrow> Some (BoundMethodObj instance method)
      | None \<Rightarrow>
          if name = ''SUPER'' \<and> Parent (classes st (Class (instances st instance))) \<noteq> None
          then Some (SuperObj instance (Parent (classes st (Class (instances st instance)))))
          else if name = ''this'' then Some (InstanceObj instance)
          else map_option (BoundMethodObj instance)
                 (lookupIn st (ancestors st (Class (instances st instance))) name))"
proof -
  let ?c = "Class (instances st instance)"
  from assms obtain st4 where
    st': "st' = fold (bindInheritedMethods e instance) (ancestors st ?c) (bindOwnMethods e instance ?c st4)"
    and cl: "classes st4 = classes st"
    and s4: "store (envs st4 e) =
           (\<lambda>name. if name = ''SUPER'' \<and> Parent (classes st ?c) \<noteq> None
                    then Some (SuperObj instance (Parent (classes st ?c)))
                    else if name = ''this'' then Some (InstanceObj instance) else None)"
    by (rule createMethodEnv_steps)
  have look: "lookupIn (bindOwnMethods e instance ?c st4) (ancestors st ?c) name
                = lookupIn st (ancestors st ?c) name"
    by (rule lookupIn_cong) (simp only: bindOwnMethods_frame cl)
  show ?thesis
    unfolding st' fold_bindInheritedMethods_store look bindOwnMethods_frame(8) cl s4
    by (cases "Parent (classes st ?c)"; cases "Methods (classes st ?c) name"; simp)
qed

lemma Get_field:
  "store (envs st e) name = None \<Longrightarrow> inst (envs st e) = Some i \<Longrightarrow>
   Fields (instances st i) name = Some v \<Longrightarrow> Get st e name = Some v"
  by (subst Get.simps) simp

lemma applyBoundMethod_eq:
  assumes "createMethodEnv instance callerEnv st = (e, st')"
  shows "applyBoundMethod ev instance (FunctionObj n params body fnEnv) args callerEnv st =
           andThen (evalStatements ev body e (declareParams e params args st'))
             (\<lambda>(evaluated, st2). Done (unwrapReturnValue evaluated, st2))"
    and "applyBoundMethod ev instance (ProcedureObj n params body fnEnv) args callerEnv st =
           andThen (evalStatements ev body e (declareParams e params args st'))
             (\<lambda>(evaluated, st2). Done (unwrapReturnValue evaluated, st2))"
  using assms by (simp_all add: applyBoundMethod_def)

lemma evalCallExpression_BoundMethod:
  assumes "exprEval ev functionE env st = Done (BoundMethodObj i m, st1)"
    and "evalExpressions ev argumentEs env st1 = Done (argVals, st2)"
    and "\<forall>a. argVals = [a] \<longrightarrow> \<not> isError a"
  shows "evalCallExpression ev functionE argumentEs env st = applyBoundMethod ev i m argVals env st2"
proof (cases argVals)
  case Nil
  with assms show ?thesis
    by (simp add: evalCallExpression_def applyFunction_def)
next
  case (Cons a rest)
  with assms show ?thesis
    by (cases rest) (simp_all add: evalCallExpression_def applyFunction_def)
qed

text \<open>
  C2 (as amended). The environment that \<open>createMethodEnv\<close> builds for the call of a bound
  method is a fresh scope (the next free address; every other scope, the instances and
  the classes are left as they were) whose outer scope is the environment of the caller,
  the one in which the call expression is evaluated; the closure environment recorded in
  the method plays no part, and the body of the method runs in this scope after the
  parameters are declared in it. The scope has the receiving instance as its active
  instance, so a name that the scope does not bind and that is a field of the instance is
  read from the instance's field map and assigned in it. Its store binds every own method
  of the instance's class as a BoundMethod; then \<open>SUPER\<close> to the instance and the parent
  class, when the class has a parent, and \<open>this\<close> to the instance, unless an own method
  has that name; then every other name to the BoundMethod of the nearest ancestor that
  declares a method of that name. A BoundMethod obtained by member access on the instance
  is called in the same way, with an environment built anew. A call expression or a
  CALL statement whose callee evaluates to a BoundMethod passes the scope in which it
  is itself evaluated as the caller's environment, so that scope is the outer scope of
  the method's environment.
\<close>

theorem method_environment:
  "(\<forall>instance callerEnv e st'.
      createMethodEnv instance callerEnv st = (e, st') \<longrightarrow>
        e = envs_next st \<and> envs_next st' = Suc (envs_next st)
        \<and> (\<forall>a. a \<noteq> e \<longrightarrow> envs st' a = envs st a)
        \<and> instances st' = instances st \<and> classes st' = classes st
        \<and> outer (envs st' e) = Some callerEnv
        \<and> inst (envs st' e) = Some instance
        \<and> (\<forall>name. store (envs st' e) name =
             (case Methods (classes st (Class (instances st instance))) name of
                Some method \<Rightarrow> Some (BoundMethodObj instance method)
              | None \<Rightarrow>
                  if name = ''SUPER'' \<and> Parent (classes st (Class (instances st instance))) \<noteq> None
                  then Some (SuperObj instance (Parent (classes st (Class (instances st instance)))))
                  else if name = ''this'' then Some (InstanceObj instance)
                  else map_option (BoundMethodObj instance)
                         (lookupIn st (ancestors st (Class (instances st instance))) name)))
        \<and> (\<forall>name v val.
             store (envs st' e) name = None \<and> Fields (instances st instance) name = Some v \<longrightarrow>
               Get st' e name = Some v
               \<and> SetInPlace e name val st' = (val, setField instance name val st')))
   \<and> (\<forall>ev instance callerEnv e st' n params body fnEnv args.
      createMethodEnv instance callerEnv st = (e, st') \<longrightarrow>
        applyBoundMethod ev instance (FunctionObj n params body fnEnv) args callerEnv st =
          andThen (evalStatements ev body e (declareParams e params args st'))
            (\<lambda>(evaluated, st2). Done (unwrapReturnValue evaluated, st2))
        \<and> applyBoundMethod ev instance (ProcedureObj n params body fnEnv) args callerEnv st =
          andThen (evalStatements ev body e (declareParams e params args st'))
            (\<lambda>(evaluated, st2). Done (unwrapReturnValue evaluated, st2)))
   \<and> (\<forall>ev instance method args callerEnv.
        applyFunction ev (BoundMethodObj instance method) args callerEnv st =
          applyBoundMethod ev instance method args callerEnv st)
   \<and> (\<forall>ev objectE member env i st1 method.
        exprEval ev objectE env st = Done (InstanceObj i, st1) \<and>
        Fields (instances st1 i) member = None \<and>
        lookupMethod st1 (Class (instances st1 i)) member = Some method \<longrightarrow>
          evalMemberAccess ev objectE member env st = Done (BoundMethodObj i method, st1))
   \<and> (\<forall>ev functionE argumentEs env i method st1 argVals st2.
        exprEval ev functionE env st = Done (BoundMethodObj i method, st1) \<and>
        evalExpressions ev argumentEs env st1 = Done (argVals, st2) \<and>
        (\<forall>a. argVals = [a] \<longrightarrow> \<not> isError a) \<longrightarrow>
          evalCallExpression ev functionE argumentEs env st = applyBoundMethod ev i method argVals env st2
          \<and> evalStatement ev (CallStatement functionE argumentEs) env st =
              applyBoundMethod ev i method argVals env st2)
   \<and> (\<forall>ev functionE argumentEs env i n params body fnEnv st1 argVals st2 e st'.
        exprEval ev functionE env st = Done (BoundMethodObj i (FunctionObj n params body fnEnv), st1) \<and>
        evalExpressions ev argumentEs env st1 = Done (argVals, st2) \<and>
        (\<forall>a. argVals = [a] \<longrightarrow> \<not> isError a) \<and>
        createMethodEnv i env st2 = (e, st') \<longrightarrow>
          outer (envs st' e) = Some env
          \<and> evalCallExpression ev functionE argumentEs env st =
              andThen (evalStatements ev body e (declareParams e params argVals st'))
                (\<lambda>(evaluated, st3). Done (unwrapReturnValue evaluated, st3)))"
proof (intro conjI allI impI; (elim conjE)?)
  fix i callerEnv e st'
  assume c: "createMethodEnv i callerEnv st = (e, st')"
  note sh = createMethodEnv_shape [OF c]
  show "e = envs_next st" by (rule sh(1))
  show "envs_next st' = Suc (envs_next st)" by (rule sh(2))
  show "instances st' = instances st" by (rule sh(4))
  show "classes st' = classes st" by (rule sh(5))
  show "outer (envs st' e) = Some callerEnv" by (rule sh(6))
  show "inst (envs st' e) = Some i" by (rule sh(7))
  {
    fix a assume "a \<noteq> e"
    with sh(3) show "envs st' a = envs st a" by simp
  next
    fix name
    show "store (envs st' e) name =
       (case Methods (classes st (Class (instances st i))) name of
          Some method \<Rightarrow> Some (BoundMethodObj i method)
        | None \<Rightarrow>
            if name = ''SUPER'' \<and> Parent (classes st (Class (instances st i))) \<noteq> None
            then Some (SuperObj i (Parent (classes st (Class (instances st i)))))
            else if name = ''this'' then Some (InstanceObj i)
            else map_option (BoundMethodObj i)
                   (lookupIn st (ancestors st (Class (instances st i))) name))"
      by (rule createMethodEnv_store [OF c])
  next
    fix name v val
    assume s: "store (envs st' e) name = None" and f: "Fields (instances st i) name = Some v"
    from f sh(4) have f': "Fields (instances st' i) name = Some v" by simp
    show "Get st' e name = Some v"
      using s sh(7) f' by (rule Get_field)
    have "fieldOwner st' e name = Some i"
      by (simp add: fieldOwner_def sh(7) f')
    with s show "SetInPlace e name val st' = (val, setField i name val st')"
      by (rule SetInPlace_field)
  }
next
  fix ev :: eval_fns and i callerEnv e st' n params body fnEnv args
  assume c: "createMethodEnv i callerEnv st = (e, st')"
  show "applyBoundMethod ev i (FunctionObj n params body fnEnv) args callerEnv st =
          andThen (evalStatements ev body e (declareParams e params args st'))
            (\<lambda>(evaluated, st2). Done (unwrapReturnValue evaluated, st2))"
    by (rule applyBoundMethod_eq(1) [OF c])
  show "applyBoundMethod ev i (ProcedureObj n params body fnEnv) args callerEnv st =
          andThen (evalStatements ev body e (declareParams e params args st'))
            (\<lambda>(evaluated, st2). Done (unwrapReturnValue evaluated, st2))"
    by (rule applyBoundMethod_eq(2) [OF c])
next
  fix ev :: eval_fns and i m as callerEnv
  show "applyFunction ev (BoundMethodObj i m) as callerEnv st =
          applyBoundMethod ev i m as callerEnv st"
    by (simp add: applyFunction_def)
next
  fix ev :: eval_fns and objectE member env i st1 m
  assume "exprEval ev objectE env st = Done (InstanceObj i, st1)"
    "Fields (instances st1 i) member = None"
    "lookupMethod st1 (Class (instances st1 i)) member = Some m"
  then show "evalMemberAccess ev objectE member env st = Done (BoundMethodObj i m, st1)"
    by (simp add: evalMemberAccess_def)
next
  fix ev :: eval_fns and functionE argumentEs env i m st1 argVals st2
  assume a: "exprEval ev functionE env st = Done (BoundMethodObj i m, st1)"
    "evalExpressions ev argumentEs env st1 = Done (argVals, st2)"
    "\<forall>a. argVals = [a] \<longrightarrow> \<not> isError a"
  then show "evalCallExpression ev functionE argumentEs env st = applyBoundMethod ev i m argVals env st2"
    by (rule evalCallExpression_BoundMethod)
  with a show "evalStatement ev (CallStatement functionE argumentEs) env st =
              applyBoundMethod ev i m argVals env st2"
    by (simp add: evalStatement_def evalCallStatement_def)
next
  fix ev :: eval_fns and functionE argumentEs env i n params body fnEnv st1 argVals st2 e st'
  assume a: "exprEval ev functionE env st = Done (BoundMethodObj i (FunctionObj n params body fnEnv), st1)"
    "evalExpressions ev argumentEs env st1 = Done (argVals, st2)"
    "\<forall>a. argVals = [a] \<longrightarrow> \<not> isError a"
    and c: "createMethodEnv i env st2 = (e, st')"
  show "outer (envs st' e) = Some env"
    by (rule createMethodEnv_shape(6) [OF c])
  show "evalCallExpression ev functionE argumentEs env st =
          andThen (evalStatements ev body e (declareParams e params argVals st'))
            (\<lambda>(evaluated, st3). Done (unwrapReturnValue evaluated, st3))"
    by (simp only: evalCallExpression_BoundMethod [OF a] applyBoundMethod_eq(1) [OF c])
qed

text \<open>
  The claim as stated fails on the parent scope: the method \<open>Peek\<close> of \<open>peekProgram\<close>
  is declared with the closure environment 1 of its class, but it is called from the
  scope 2 of \<open>Caller\<close>, its environment 3 has scope 2 as outer scope, and it reads the
  local variable \<open>hidden\<close> of its caller, which neither its closure nor the global
  environment binds.
\<close>

theorem method_environment_counterexample:
  "(case Eval (Suc (Suc (Suc (Suc (Suc (Suc (Suc (Suc 0)))))))) peekProgram fresh of
      Done (v, st) \<Rightarrow>
        (v, Methods (classes st 0) ''Peek'', outer (envs st 3), store (envs st 2) ''hidden'',
         Get st 1 ''hidden'')
    | _ \<Rightarrow> (NilObj, None, None, None, None))
   = (IntegerObj 42,
      Some (FunctionObj ''Peek'' [] [ReturnStatement (Some (Identifier ''hidden''))] 1),
      Some 2, Some (IntegerObj 42), None)"
  by (simp add: peekProgram_def run_simps)

lemma withDog_facts:
  "envs_next withDog = 4" "Class (instances withDog 0) = Suc 0"
  "Parent (classes withDog (Suc 0)) = Some 0" "Parent (classes withDog 0) = None"
  "Methods (classes withDog (Suc 0)) ''Speak'' = Some speakMethod"
  "Methods (classes withDog (Suc 0)) ''GetName'' = None"
  "Methods (classes withDog (Suc 0)) ''NEW'' = None"
  "Methods (classes withDog (Suc 0)) ''this'' = None"
  "Methods (classes withDog (Suc 0)) ''SUPER'' = None"
  "Methods (classes withDog (Suc 0)) ''Name'' = None"
  "Methods (classes withDog 0) ''GetName'' = Some getNameMethod"
  "Methods (classes withDog 0) ''NEW'' = Some newMethod"
  "Methods (classes withDog 0) ''Name'' = None"
  "Fields (instances withDog 0) ''Name'' = Some NullObj"
  "Fields (instances withDog 0) ''NEW'' = None"
  "outer (envs withDog 3) = Some 0" "store (envs withDog 3) ''MyDog'' = None"
  "inst (envs withDog 3) = None" "store (envs withDog 0) ''MyDog'' = Some (InstanceObj 0)"
  by (simp_all add: withDog_def afterDogCreation_def dogCreation_def animalClass_def dogClass_def
        speakMethod_def getNameMethod_def newMethod_def run_simps)

theorem method_environment_witness:
  "createMethodEnv 0 3 withDog = (4, dogScope)
   \<and> outer (envs dogScope 4) = Some 3
   \<and> inst (envs dogScope 4) = Some 0
   \<and> store (envs dogScope 4) ''Speak'' = Some (BoundMethodObj 0 speakMethod)
   \<and> store (envs dogScope 4) ''GetName'' = Some (BoundMethodObj 0 getNameMethod)
   \<and> store (envs dogScope 4) ''this'' = Some (InstanceObj 0)
   \<and> store (envs dogScope 4) ''SUPER'' = Some (SuperObj 0 (Some 0))
   \<and> Get dogScope 4 ''Name'' = Some NullObj
   \<and> SetInPlace 4 ''Name'' (StringObj ''Rex'') dogScope
       = (StringObj ''Rex'', setField 0 ''Name'' (StringObj ''Rex'') dogScope)
   \<and> applyBoundMethod (evaluator (Suc (Suc 0))) 0 newMethod [StringObj ''Rex''] 3 withDog
       = Done (StringObj ''Rex'',
               setField 0 ''Name'' (StringObj ''Rex'') (setStore 4 ''GivenName'' (StringObj ''Rex'') dogScope))
   \<and> applyFunction (evaluator (Suc (Suc 0))) (BoundMethodObj 0 newMethod) [StringObj ''Rex''] 3 withDog
       = Done (StringObj ''Rex'',
               setField 0 ''Name'' (StringObj ''Rex'') (setStore 4 ''GivenName'' (StringObj ''Rex'') dogScope))
   \<and> evalMemberAccess (evaluator (Suc 0)) (Identifier ''MyDog'') ''NEW'' 3 withDog
       = Done (BoundMethodObj 0 newMethod, withDog)
   \<and> evalCallExpression (evaluator (Suc (Suc 0))) (MemberAccess (Identifier ''MyDog'') ''NEW'')
        [StringLiteral ''Rex''] 3 withDog
       = Done (StringObj ''Rex'',
               setField 0 ''Name'' (StringObj ''Rex'') (setStore 4 ''GivenName'' (StringObj ''Rex'') dogScope))
   \<and> evalStatement (evaluator (Suc (Suc 0)))
        (CallStatement (MemberAccess (Identifier ''MyDog'') ''NEW'') [StringLiteral ''Rex'']) 3 withDog
       = Done (StringObj ''Rex'',
               setField 0 ''Name'' (StringObj ''Rex'') (setStore 4 ''GivenName'' (StringObj ''Rex'') dogScope))"
proof -
  let ?ev1 = "evaluator (Suc 0)"
  let ?ev2 = "evaluator (Suc (Suc 0))"
  let ?rex = "StringObj ''Rex''"
  let ?st2 = "setStore 4 ''GivenName'' ?rex dogScope"
  have "fst (createMethodEnv 0 3 withDog) = envs_next withDog"
    by (simp add: createMethodEnv_def Let_def split_beta NewEnclosedEnvironment_def)
  then have h: "createMethodEnv 0 3 withDog = (4, dogScope)"
    by (simp add: dogScope_def prod_eq_iff withDog_facts)
  note me = method_environment [of withDog]
  note k1 = me [THEN conjunct1, rule_format, OF h]
  note k2 = me [THEN conjunct2, THEN conjunct1, rule_format, OF h]
  note k3 = me [THEN conjunct2, THEN conjunct2, THEN conjunct1, rule_format]
  note k4 = me [THEN conjunct2, THEN conjunct2, THEN conjunct2, THEN conjunct1, rule_format]
  note k5 = me [THEN conjunct2, THEN conjunct2, THEN conjunct2, THEN conjunct2, THEN conjunct1, rule_format]
  note r1 = k1 [THEN conjunct2]
  note r2 = r1 [THEN conjunct2]
  note r3 = r2 [THEN conjunct2]
  note r4 = r3 [THEN conjunct2]
  note r5 = r4 [THEN conjunct2]
  note r6 = r5 [THEN conjunct2]
  note r7 = r6 [THEN conjunct2]
  note insts = r3 [THEN conjunct1]
  note out = r5 [THEN conjunct1]
  note ins = r6 [THEN conjunct1]
  note sto = r7 [THEN conjunct1, rule_format]
  note al = r7 [THEN conjunct2, rule_format]
  have anc0: "ancestors withDog 0 = []"
    by (subst ancestors.simps) (simp add: withDog_facts)
  have anc: "ancestors withDog (Suc 0) = [0]"
    by (subst ancestors.simps) (simp add: withDog_facts anc0)
  have c1: "store (envs dogScope 4) ''Speak'' = Some (BoundMethodObj 0 speakMethod)"
    and c2: "store (envs dogScope 4) ''GetName'' = Some (BoundMethodObj 0 getNameMethod)"
    and c3: "store (envs dogScope 4) ''this'' = Some (InstanceObj 0)"
    and c4: "store (envs dogScope 4) ''SUPER'' = Some (SuperObj 0 (Some 0))"
    and nm: "store (envs dogScope 4) ''Name'' = None"
    by (simp_all add: sto withDog_facts anc)
  have "store (envs dogScope 4) ''Name'' = None \<and> Fields (instances withDog 0) ''Name'' = Some NullObj"
    by (simp add: nm withDog_facts)
  from al [OF this, of ?rex]
  have c5: "Get dogScope 4 ''Name'' = Some NullObj"
    and c6: "SetInPlace 4 ''Name'' ?rex dogScope = (?rex, setField 0 ''Name'' ?rex dogScope)"
    by simp_all
  have params: "declareParams 4 [Parameter ''GivenName'' False] [?rex] dogScope = ?st2"
    by (simp add: Declare_def)
  have "Get ?st2 4 ''GivenName'' = Some ?rex"
    by (rule Get_here) (simp add: setStore_def)
  then have arg: "exprEval ?ev1 (Identifier ''GivenName'') 4 ?st2 = Done (?rex, ?st2)"
    by (simp add: evalExpression_def evalIdentifier_def)
  have "store (envs ?st2 4) ''Name'' = None"
    by (simp add: setStore_def nm)
  moreover have "fieldOwner ?st2 4 ''Name'' = Some 0"
    using ins insts by (simp add: fieldOwner_def setStore_def withDog_facts)
  ultimately have "SetInPlace 4 ''Name'' ?rex ?st2 = (?rex, setField 0 ''Name'' ?rex ?st2)"
    by (rule SetInPlace_field)
  with evalAssignmentStatement_Identifier [OF arg, of "''Name''"]
  have "stmtEval ?ev2 (AssignmentStatement (Identifier ''Name'') (Identifier ''GivenName'')) 4 ?st2
          = Done (?rex, setField 0 ''Name'' ?rex ?st2)"
    by (simp add: evalStatement_def)
  then have body: "evalStatements ?ev2 [AssignmentStatement (Identifier ''Name'') (Identifier ''GivenName'')] 4 ?st2
          = Done (?rex, setField 0 ''Name'' ?rex ?st2)"
    by (rule evalStatements_single)
  have c7: "applyBoundMethod ?ev2 0 newMethod [?rex] 3 withDog = Done (?rex, setField 0 ''Name'' ?rex ?st2)"
    unfolding newMethod_def k2 [THEN conjunct2] params
    by (simp add: body unwrapReturnValue_def)
  from k3 [of ?ev2 0 newMethod "[?rex]" 3] c7
  have c8: "applyFunction ?ev2 (BoundMethodObj 0 newMethod) [?rex] 3 withDog
              = Done (?rex, setField 0 ''Name'' ?rex ?st2)"
    by simp
  have "Get withDog 3 ''MyDog'' = Some (InstanceObj 0)"
    by (subst Get.simps, simp add: withDog_facts, subst Get.simps, simp add: withDog_facts)
  then have dog: "exprEval ?ev1 (Identifier ''MyDog'') 3 withDog = Done (InstanceObj 0, withDog)"
    by (simp add: evalExpression_def evalIdentifier_def)
  have look: "lookupMethod withDog (Class (instances withDog 0)) ''NEW'' = Some newMethod"
    by (simp add: lookupMethod_def withDog_facts anc)
  have c9: "evalMemberAccess ?ev1 (Identifier ''MyDog'') ''NEW'' 3 withDog
       = Done (BoundMethodObj 0 newMethod, withDog)"
    by (rule k4) (intro conjI, rule dog, rule withDog_facts(15), rule look)
  then have callee: "exprEval ?ev2 (MemberAccess (Identifier ''MyDog'') ''NEW'') 3 withDog
       = Done (BoundMethodObj 0 newMethod, withDog)"
    by (simp add: evalExpression_def)
  have args: "evalExpressions ?ev2 [StringLiteral ''Rex''] 3 withDog = Done ([?rex], withDog)"
    by (simp add: evalExpressions_def)
  have noerr: "\<forall>a. [?rex] = [a] \<longrightarrow> \<not> isError a"
    by simp
  note call = k5 [OF conjI [OF callee conjI [OF args noerr]]]
  from call [THEN conjunct1] c7
  have c10: "evalCallExpression ?ev2 (MemberAccess (Identifier ''MyDog'') ''NEW'') [StringLiteral ''Rex''] 3 withDog
       = Done (?rex, setField 0 ''Name'' ?rex ?st2)"
    by simp
  from call [THEN conjunct2] c7
  have c11: "evalStatement ?ev2
        (CallStatement (MemberAccess (Identifier ''MyDog'') ''NEW'') [StringLiteral ''Rex'']) 3 withDog
       = Done (?rex, setField 0 ''Name'' ?rex ?st2)"
    by simp
  from h out ins c1 c2 c3 c4 c5 c6 c7 c8 c9 c10 c11 show ?thesis
    by (intro conjI)
qed


section \<open>Object creation\<close>

lemma fold_nullFields_frame:
  "classes (fold (nullFields i) cs st) = classes st"
  "instances_next (fold (nullFields i) cs st) = instances_next st"
  "envs (fold (nullFields i) cs st) = envs st"
  "envs_next (fold (nullFields i) cs st) = envs_next st"
  "Class (instances (fold (nullFields i) cs st) i) = Class (instances st i)"
  by (induction cs arbitrary: st; simp add: nullFields_def)+

lemma fold_nullFields_Fields:
  "Fields (instances (fold (nullFields i) cs st) i) name =
     (if \<exists>c \<in> set cs. class_Fields (classes st c) name \<noteq> None then Some NullObj
      else Fields (instances st i) name)"
proof (induction cs arbitrary: st)
  case Nil
  show ?case by simp
next
  case (Cons c cs)
  have "classes (nullFields i c st) = classes st"
    by (simp add: nullFields_def)
  moreover have "Fields (instances (nullFields i c st) i) name =
      (if class_Fields (classes st c) name \<noteq> None then Some NullObj else Fields (instances st i) name)"
    by (simp add: nullFields_def)
  ultimately show ?case
    by (simp add: Cons.IH)
qed

text \<open>
  Every field declared by the class or by one of its ancestors is set to Null (the oldest
  ancestor first, which makes no difference); the other fields are left as they were.
\<close>

lemma initializeInstanceFields_Fields:
  "Fields (instances (initializeInstanceFields i c st) i) name =
     (if \<exists>k \<in> set (c # ancestors st c). class_Fields (classes st k) name \<noteq> None then Some NullObj
      else Fields (instances st i) name)"
  unfolding initializeInstanceFields_def fold_nullFields_Fields by simp

text \<open>
  Only the class's own method table is consulted for the constructor: for a class without
  a method \<open>NEW\<close> of its own the new instance is returned with its fields set to Null;
  the arguments are not evaluated and no method environment is created, whatever the
  ancestors of the class declare.
\<close>

lemma evalNewExpression_no_own_NEW:
  assumes "Get st env className = Some (ClassObj c)" and "Methods (classes st c) ''NEW'' = None"
  shows "evalNewExpression ev className argumentEs env st =
           Done (InstanceObj (instances_next st),
                 initializeInstanceFields (instances_next st) c (snd (newInstance c st)))"
proof -
  have "classes (snd (newInstance c st)) = classes st"
    by (simp add: newInstance_def)
  then have "classes (initializeInstanceFields (instances_next st) c (snd (newInstance c st))) = classes st"
    by (simp only: initializeInstanceFields_def fold_nullFields_frame)
  moreover have "fst (newInstance c st) = instances_next st"
    by (simp add: newInstance_def)
  ultimately show ?thesis
    using assms by (simp add: evalNewExpression_def Let_def split_beta)
qed






end
